theory Spec2Isabelle
  imports Complex_Main
begin

section \<open>Python values, errors and library calls\<close>

text \<open>
  The exceptions the modelled code can raise. A function that can raise returns
  \<open>error + 'a\<close>, with \<open>Inl\<close> the exception.
\<close>

datatype error =
  ValueError | TypeError | AttributeError | IndexError | OverflowError | NameError

definition ebind :: "error + 'a \<Rightarrow> ('a \<Rightarrow> error + 'b) \<Rightarrow> error + 'b" where
  "ebind m f = (case m of Inl e \<Rightarrow> Inl e | Inr x \<Rightarrow> f x)"

subsection \<open>Floats\<close>

text \<open>
  A \<open>float\<close> is a binary64 number: a finite one, given by the real number it denotes
  (the two zeros are one value), an infinity or NaN.
\<close>

datatype pyfloat = Fin real | PInf | NInf | NaN

text \<open>Rounding to the nearest integer, a tie going to the even one.\<close>

definition rhe :: "real \<Rightarrow> int" where
  "rhe y =
     (let f = \<lfloor>y\<rfloor>; d = y - of_int f
      in if d < 1 / 2 then f else if 1 / 2 < d then f + 1 else if even f then f else f + 1)"

text \<open>
  The spacing of the binary64 numbers around \<open>x\<close>: 52 fraction bits below the exponent of
  \<open>x\<close>, which is at least -1022 (below that the numbers are subnormal).
\<close>

definition ulp :: "real \<Rightarrow> real" where
  "ulp x = 2 powr (of_int (max \<lfloor>log 2 \<bar>x\<bar>\<rfloor> (- 1022)) - 52)"

text \<open>
  \<open>fl x\<close> is \<open>x\<close> rounded to the nearest multiple of the spacing, ties to even: the
  value of a float operation whose exact result is \<open>x\<close>, as long as it does not
  overflow. \<open>round_float\<close> adds the overflow to an infinity.
\<close>

definition fl :: "real \<Rightarrow> real" where
  "fl x = (if x = 0 then 0 else ulp x * of_int (rhe (x / ulp x)))"

definition round_float :: "real \<Rightarrow> pyfloat" where
  "round_float x =
     (if 2 ^ 1024 \<le> fl x then PInf else if fl x \<le> - (2 ^ 1024) then NInf else Fin (fl x))"

text \<open>
  A float operation with a finite positive constant (\<open>x - 32\<close>, \<open>x * 5\<close>, \<open>x / 9\<close>, ...),
  \<open>g\<close> being the exact operation: an infinity and NaN pass through.
\<close>

definition fop :: "(real \<Rightarrow> real) \<Rightarrow> pyfloat \<Rightarrow> pyfloat" where
  "fop g v = (case v of Fin x \<Rightarrow> round_float (g x) | _ \<Rightarrow> v)"

text \<open>
  The conversion of an \<open>int\<close> to a \<open>float\<close> (in \<open>float(i)\<close> and in \<open>i / 2.237\<close>):
  OverflowError beyond the range of the floats.
\<close>

definition int_to_float :: "int \<Rightarrow> error + pyfloat" where
  "int_to_float i =
     (if 2 ^ 1024 \<le> \<bar>fl (of_int i)\<bar> then Inl OverflowError else Inr (Fin (fl (of_int i))))"

text \<open>
  \<open>int(x)\<close> on a float truncates toward zero; it raises OverflowError on an infinity and
  ValueError on NaN.
\<close>

definition py_trunc :: "real \<Rightarrow> int" where
  "py_trunc x = (if 0 \<le> x then \<lfloor>x\<rfloor> else \<lceil>x\<rceil>)"

definition float_to_int :: "pyfloat \<Rightarrow> error + int" where
  "float_to_int v =
     (case v of Fin x \<Rightarrow> Inr (py_trunc x) | NaN \<Rightarrow> Inl ValueError | _ \<Rightarrow> Inl OverflowError)"

subsection \<open>Decoded JSON\<close>

text \<open>
  A decoded JSON document, as \<open>response.json()\<close> hands it to the client: \<open>None\<close>,
  \<open>bool\<close>, \<open>int\<close> (unbounded), \<open>float\<close> (the decoder gives an infinity for a number
  beyond the range and accepts \<open>NaN\<close>), \<open>str\<close>, \<open>list\<close> and \<open>dict\<close>. A \<open>dict\<close> is an
  association list whose first binding of a key is the one a lookup sees (a decoded dict
  has every key once). A \<open>str\<close> is the list of its code points, for the strings whose
  code points are below 256.
\<close>

datatype json =
    JNull
  | JBool bool
  | JInt int
  | JFloat pyfloat
  | JStr string
  | JList "json list"
  | JObj "(string \<times> json) list"

text \<open>Python truthiness (\<open>if x\<close>, \<open>not x\<close>): of the floats only zero is falsy.\<close>

fun truthy :: "json \<Rightarrow> bool" where
  "truthy JNull = False"
| "truthy (JBool b) = b"
| "truthy (JInt i) = (i \<noteq> 0)"
| "truthy (JFloat x) = (x \<noteq> Fin 0)"
| "truthy (JStr s) = (s \<noteq> [])"
| "truthy (JList xs) = (xs \<noteq> [])"
| "truthy (JObj kvs) = (kvs \<noteq> [])"

text \<open>\<open>d.get(key)\<close>: \<open>None\<close> for a missing key, AttributeError when \<open>d\<close> is no dict.\<close>

definition py_get :: "json \<Rightarrow> string \<Rightarrow> error + json" where
  "py_get d k =
     (case d of
        JObj kvs \<Rightarrow> (case map_of kvs k of None \<Rightarrow> Inr JNull | Some v \<Rightarrow> Inr v)
      | _ \<Rightarrow> Inl AttributeError)"

text \<open>
  \<open>float(x)\<close>. The parameter \<open>strtod\<close> stands for the library's parsing of a \<open>str\<close>:
  \<open>None\<close> is its ValueError.
\<close>

definition py_float :: "(string \<Rightarrow> pyfloat option) \<Rightarrow> json \<Rightarrow> error + pyfloat" where
  "py_float strtod v =
     (case v of
        JNull \<Rightarrow> Inl TypeError
      | JBool b \<Rightarrow> Inr (Fin (if b then 1 else 0))
      | JInt i \<Rightarrow> int_to_float i
      | JFloat x \<Rightarrow> Inr x
      | JStr s \<Rightarrow> (case strtod s of None \<Rightarrow> Inl ValueError | Some x \<Rightarrow> Inr x)
      | JList xs \<Rightarrow> Inl TypeError
      | JObj kvs \<Rightarrow> Inl TypeError)"

section \<open>noaa\_utils: unit conversions\<close>

text \<open>
  \<^verbatim>\<open>return (int(((temperature - 32) * 5/9) * 100.0))/ 100.0\<close> and
  \<^verbatim>\<open>return int(((temperature * 9.0/5.0) + 32) * 100) / 100.0\<close>, for a \<open>float\<close>
  argument: \<open>scaled_F\<close> and \<open>scaled_C\<close> are the arguments of \<open>int\<close>, each operation
  rounded; \<open>hundredth\<close> is the final division of the \<open>int\<close> by \<open>100.0\<close>.
\<close>

definition scaled_F :: "pyfloat \<Rightarrow> pyfloat" where
  "scaled_F temperature =
     fop (\<lambda>x. x * 100) (fop (\<lambda>x. x / 9) (fop (\<lambda>x. x * 5) (fop (\<lambda>x. x - 32) temperature)))"

definition scaled_C :: "pyfloat \<Rightarrow> pyfloat" where
  "scaled_C temperature =
     fop (\<lambda>x. x * 100) (fop (\<lambda>x. x + 32) (fop (\<lambda>x. x / 5) (fop (\<lambda>x. x * 9) temperature)))"

definition hundredth :: "int \<Rightarrow> error + pyfloat" where
  "hundredth k = ebind (int_to_float k) (\<lambda>a. Inr (fop (\<lambda>x. x / 100) a))"

definition convert_F_to_C :: "pyfloat \<Rightarrow> error + pyfloat" where
  "convert_F_to_C temperature = ebind (float_to_int (scaled_F temperature)) hundredth"

definition convert_C_to_F :: "pyfloat \<Rightarrow> error + pyfloat" where
  "convert_C_to_F temperature = ebind (float_to_int (scaled_C temperature)) hundredth"

text \<open>The float that the literal \<open>2.237\<close> denotes.\<close>

definition c_2237 :: real where
  "c_2237 = fl (2237 / 1000)"

text \<open>
  \<open>speed_miph_to_mps(speed)\<close>: falsy input gives 0.0; a \<open>str\<close> is converted with
  \<open>float\<close>, a ValueError there making it the integer 0; an \<open>int\<close>, \<open>bool\<close> or \<open>float\<close> is
  divided by 2.237 (an \<open>int\<close> is converted to a float first); anything else gives 0.0.
\<close>

definition speed_miph_to_mps :: "(string \<Rightarrow> pyfloat option) \<Rightarrow> json \<Rightarrow> error + pyfloat" where
  "speed_miph_to_mps strtod speed =
     (if \<not> truthy speed then Inr (Fin 0)
      else
        (case (case speed of
                 JStr s \<Rightarrow>
                   (case py_float strtod (JStr s) of
                      Inl e \<Rightarrow> if e = ValueError then Inr (JInt 0) else Inl e
                    | Inr x \<Rightarrow> Inr (JFloat x))
               | _ \<Rightarrow> Inr speed) of
           Inl e \<Rightarrow> Inl e
         | Inr speed' \<Rightarrow>
             (case speed' of
                JInt i \<Rightarrow> ebind (int_to_float i) (\<lambda>a. Inr (fop (\<lambda>x. x / c_2237) a))
              | JBool b \<Rightarrow> Inr (fop (\<lambda>x. x / c_2237) (Fin (if b then 1 else 0)))
              | JFloat x \<Rightarrow> Inr (fop (\<lambda>x. x / c_2237) x)
              | _ \<Rightarrow> Inr (Fin 0))))"

section \<open>Strings and integers of the Python library\<close>

text \<open>
  The whitespace \<open>int()\<close> strips (tab, line feed, vertical tab, form feed, carriage
  return, space, next line 0x85 and no-break space 0xA0), and the larger class
  \<open>str.split()\<close> splits on (the same and the four separators 0x1C to 0x1F).
\<close>

definition int_space :: "char \<Rightarrow> bool" where
  "int_space c =
     (c \<in> set [CHR 0x09, CHR 0x0A, CHR 0x0B, CHR 0x0C, CHR 0x0D, CHR 0x20, CHR 0x85, CHR 0xA0])"

definition is_space :: "char \<Rightarrow> bool" where
  "is_space c = (int_space c \<or> c \<in> set [CHR 0x1C, CHR 0x1D, CHR 0x1E, CHR 0x1F])"

definition is_digit :: "char \<Rightarrow> bool" where
  "is_digit c = (c \<in> set ''0123456789'')"

definition digit_val :: "char \<Rightarrow> int" where
  "digit_val c = of_char c - 48"

definition strip :: "(char \<Rightarrow> bool) \<Rightarrow> string \<Rightarrow> string" where
  "strip sp s = rev (dropWhile sp (rev (dropWhile sp s)))"

text \<open>
  The digits of a decimal literal, left to right: \<open>acc\<close> is the value read so far and
  \<open>prev\<close> says that the last character was a digit. An underscore is accepted between
  two digits only.
\<close>

fun int_digits :: "int \<Rightarrow> bool \<Rightarrow> string \<Rightarrow> int option" where
  "int_digits acc prev [] = (if prev then Some acc else None)"
| "int_digits acc prev (c # cs) =
     (if is_digit c then int_digits (acc * 10 + digit_val c) True cs
      else if c = CHR ''_'' \<and> prev then int_digits acc False cs
      else None)"

text \<open>The interpreter's default limit on the digits of a decimal string.\<close>

definition max_str_digits :: nat where
  "max_str_digits = 4300"

text \<open>
  \<open>int(s)\<close> for a \<open>str\<close>: surrounding whitespace, an optional sign, digits; ValueError
  otherwise, and for more than 4300 digits.
\<close>

definition py_int_str :: "string \<Rightarrow> error + int" where
  "py_int_str s =
     (let t = strip int_space s;
          neg = (t \<noteq> [] \<and> hd t = CHR ''-'');
          r = (if t \<noteq> [] \<and> (hd t = CHR ''-'' \<or> hd t = CHR ''+'') then tl t else t)
      in case int_digits 0 False r of
           None \<Rightarrow> Inl ValueError
         | Some n \<Rightarrow>
             if length (filter is_digit r) > max_str_digits then Inl ValueError
             else Inr (if neg then - n else n))"

text \<open>\<open>int(x)\<close> for a decoded JSON value.\<close>

definition py_int :: "json \<Rightarrow> error + int" where
  "py_int v =
     (case v of
        JNull \<Rightarrow> Inl TypeError
      | JBool b \<Rightarrow> Inr (if b then 1 else 0)
      | JInt i \<Rightarrow> Inr i
      | JFloat x \<Rightarrow> float_to_int x
      | JStr s \<Rightarrow> py_int_str s
      | JList xs \<Rightarrow> Inl TypeError
      | JObj kvs \<Rightarrow> Inl TypeError)"

text \<open>\<open>s.split()\<close>: the maximal runs of characters that are not whitespace.\<close>

fun split_ws :: "string \<Rightarrow> string \<Rightarrow> string list" where
  "split_ws cur [] = (if cur = [] then [] else [cur])"
| "split_ws cur (c # cs) =
     (if is_space c then (if cur = [] then split_ws [] cs else cur # split_ws [] cs)
      else split_ws (cur @ [c]) cs)"

definition py_split :: "string \<Rightarrow> string list" where
  "py_split s = split_ws [] s"

text \<open>
  \<open>timedelta(seconds=n)\<close>, as a number of seconds: OverflowError when the days leave
  \<open>[-999999999, 999999999]\<close>. \<open>total_seconds()\<close> is the number itself.
\<close>

definition timedelta :: "int \<Rightarrow> error + int" where
  "timedelta secs =
     (if secs div 86400 > 999999999 \<or> secs div 86400 < - 999999999 then Inl OverflowError
      else Inr secs)"

section \<open>noaa\_utils: time\<close>

text \<open>
  The calls into \<open>zoneinfo\<close> and \<open>datetime\<close>, as parameters of the model: \<open>'tz\<close> and \<open>'dt\<close>
  are the library's time zone and datetime objects.
\<close>

record ('dt, 'tz) datetime_lib =
  lib_ZoneInfo :: "string \<Rightarrow> error + 'tz"
  lib_fromisoformat :: "string \<Rightarrow> error + 'dt"
  lib_astimezone :: "'dt \<Rightarrow> 'tz \<Rightarrow> error + 'dt"
  lib_timestamp :: "'dt \<Rightarrow> error + real"

text \<open>A \<open>timezone\<close> argument is used when it is neither \<open>None\<close> nor the empty string.\<close>

definition tz_given :: "string option \<Rightarrow> bool" where
  "tz_given timezone = (case timezone of None \<Rightarrow> False | Some z \<Rightarrow> z \<noteq> [])"

text \<open>
  \<open>iso_to_float_time(iso_time, timezone)\<close>: 0.0 for a falsy argument; otherwise the
  zone is looked up (\<open>localtime\<close> when none is given), the string parsed, converted to
  the zone when one is given, and its timestamp returned. \<open>fromisoformat\<close> raises
  TypeError on an argument that is no \<open>str\<close>.
\<close>

definition iso_to_float_time ::
  "('dt, 'tz) datetime_lib \<Rightarrow> json \<Rightarrow> string option \<Rightarrow> error + real" where
  "iso_to_float_time lib iso_time timezone =
     (if \<not> truthy iso_time then Inr 0
      else
        ebind (lib_ZoneInfo lib (if tz_given timezone then the timezone else ''localtime''))
          (\<lambda>tz.
            ebind (case iso_time of JStr s \<Rightarrow> lib_fromisoformat lib s | _ \<Rightarrow> Inl TypeError)
              (\<lambda>dt.
                ebind (if tz_given timezone then lib_astimezone lib dt tz else Inr dt)
                  (lib_timestamp lib))))"

text \<open>
  \<^verbatim>\<open>re.match(r"^(.+)/PT(.+)$", iso_time)\<close>. \<open>last_PT\<close> splits a string at its last
  \<open>/PT\<close> that has a character after it. The first group is greedy, so it ends at that
  \<open>/PT\<close>; it must not be empty. A dot matches no line feed, and \<open>$\<close> matches at the end
  or before a line feed that ends the string.
\<close>

fun last_PT :: "string \<Rightarrow> (string \<times> string) option" where
  "last_PT [] = None"
| "last_PT (c # cs) =
     (case last_PT cs of
        Some (a, b) \<Rightarrow> Some (c # a, b)
      | None \<Rightarrow>
          if c = CHR ''/'' \<and> take 2 cs = ''PT'' \<and> drop 2 cs \<noteq> [] then Some ([], drop 2 cs)
          else None)"

definition re_match_PT :: "string \<Rightarrow> (string \<times> string) option" where
  "re_match_PT s =
     (let s' = (if s \<noteq> [] \<and> last s = CHR 0x0A then butlast s else s)
      in if CHR 0x0A \<in> set s' then None
         else case last_PT s' of
                None \<Rightarrow> None
              | Some (a, b) \<Rightarrow> if a = [] then None else Some (a, b))"

text \<open>
  The duration branch of \<open>iso_to_float_time_and_delta\<close>: the unit is the last character
  of \<open>period_str\<close>, the count is \<open>int(period_str[:-1])\<close>; the result is in seconds.
\<close>

definition time_period :: "string option \<Rightarrow> error + int" where
  "time_period period_str =
     (case period_str of
        None \<Rightarrow> timedelta 0
      | Some p \<Rightarrow>
          if p = [] then timedelta 0
          else if last p = CHR ''H'' then ebind (py_int_str (butlast p)) (\<lambda>hours. timedelta (hours * 3600))
          else if last p = CHR ''M'' then ebind (py_int_str (butlast p)) (\<lambda>minutes. timedelta (minutes * 60))
          else if last p = CHR ''S'' then ebind (py_int_str (butlast p)) (\<lambda>seconds. timedelta seconds)
          else timedelta 0)"

text \<open>
  \<open>iso_to_float_time_and_delta(iso_time, timezone)\<close>: the regex is tried first, the
  split at the first slash is the fallback; then the time is parsed and converted, the
  duration is computed, and the timestamp is taken last.
\<close>

definition iso_to_float_time_and_delta ::
  "('dt, 'tz) datetime_lib \<Rightarrow> string \<Rightarrow> string option \<Rightarrow> error + (real \<times> real)" where
  "iso_to_float_time_and_delta lib iso_time timezone =
     (let (iso_time', period_str) =
            (case re_match_PT iso_time of
               Some (a, b) \<Rightarrow> (a, Some b)
             | None \<Rightarrow> (takeWhile (\<lambda>c. c \<noteq> CHR ''/'') iso_time, None))
      in ebind (lib_fromisoformat lib iso_time')
           (\<lambda>dt0.
             ebind (if tz_given timezone
                    then ebind (lib_ZoneInfo lib (the timezone)) (lib_astimezone lib dt0)
                    else Inr dt0)
               (\<lambda>dt.
                 ebind (time_period period_str)
                   (\<lambda>secs. ebind (lib_timestamp lib dt) (\<lambda>ts. Inr (ts, of_int secs))))))"

text \<open>
  What the library makes of a time string alone: the datetime \<open>parse_time\<close> (parsed,
  then converted to the zone when one is given) and its timestamp \<open>epoch_of\<close>.
\<close>

definition parse_time ::
  "('dt, 'tz) datetime_lib \<Rightarrow> string \<Rightarrow> string option \<Rightarrow> error + 'dt" where
  "parse_time lib s timezone =
     ebind (lib_fromisoformat lib s)
       (\<lambda>dt0. if tz_given timezone
              then ebind (lib_ZoneInfo lib (the timezone)) (lib_astimezone lib dt0)
              else Inr dt0)"

definition epoch_of ::
  "('dt, 'tz) datetime_lib \<Rightarrow> string \<Rightarrow> string option \<Rightarrow> error + real" where
  "epoch_of lib s timezone = ebind (parse_time lib s timezone) (lib_timestamp lib)"

text \<open>The decimal numeral of a natural number, and the value of a digit string.\<close>

fun dec :: "nat \<Rightarrow> string" where
  "dec n =
     (if n < 10 then [''0123456789'' ! n]
      else dec (n div 10) @ [''0123456789'' ! (n mod 10)])"

declare dec.simps [simp del]

definition dec_step :: "int \<Rightarrow> char \<Rightarrow> int" where
  "dec_step a c = a * 10 + digit_val c"

text \<open>
  A library instance for the examples: it knows two time strings, one hour apart, and
  every zone; a datetime is represented by its timestamp.
\<close>

definition sample_lib :: "(real, string) datetime_lib" where
  "sample_lib =
     \<lparr> lib_ZoneInfo = (\<lambda>z. Inr z),
       lib_fromisoformat =
         (\<lambda>s. if s = ''2024-09-17T20:00:00+00:00'' then Inr 1726603200
              else if s = ''2024-09-17T21:00:00+00:00'' then Inr 1726606800
              else Inl ValueError),
       lib_astimezone = (\<lambda>dt tz. Inr dt),
       lib_timestamp = (\<lambda>dt. Inr dt) \<rparr>"

section \<open>grid\_forecast: sampling a grid series\<close>

text \<open>\<open>for x in v\<close>: the elements of a list, the characters of a \<open>str\<close>, the keys of a dict.\<close>

definition py_iter :: "json \<Rightarrow> error + json list" where
  "py_iter v =
     (case v of
        JList xs \<Rightarrow> Inr xs
      | JStr s \<Rightarrow> Inr (map (\<lambda>c. JStr [c]) s)
      | JObj kvs \<Rightarrow> Inr (map (\<lambda>kv. JStr (fst kv)) kvs)
      | _ \<Rightarrow> Inl TypeError)"

text \<open>
  The loop of \<open>_find_in_gridpoints\<close>: \<open>instant\<close> is the query instant \<open>when\<close>, \<open>result\<close> the
  value kept so far. The scan stops (\<open>break\<close>) at the first entry whose interval starts
  at or after the instant, or ends after it. \<open>re.match\<close> raises TypeError on a
  \<open>validTime\<close> that is no \<open>str\<close>.
\<close>

fun scan_gridpoints ::
  "('dt, 'tz) datetime_lib \<Rightarrow> real \<Rightarrow> json \<Rightarrow> json list \<Rightarrow> error + json" where
  "scan_gridpoints lib instant result [] = Inr result"
| "scan_gridpoints lib instant result (v # rest) =
     (case py_get v ''validTime'' of
        Inl e \<Rightarrow> Inl e
      | Inr time_str \<Rightarrow>
          (case (case time_str of
                   JStr s \<Rightarrow> iso_to_float_time_and_delta lib s (Some ''UTC'')
                 | _ \<Rightarrow> Inl TypeError) of
             Inl e \<Rightarrow> Inl e
           | Inr (interval_start, dt) \<Rightarrow>
               if interval_start \<ge> instant \<or> interval_start + dt > instant then Inr result
               else (case py_get v ''value'' of
                       Inl e \<Rightarrow> Inl e
                     | Inr r \<Rightarrow> scan_gridpoints lib instant r rest)))"

text \<open>
  \<open>_find_in_gridpoints(what, when)\<close>. The module does not import \<open>time\<close>, so the default
  \<open>when = time.time()\<close> for a falsy \<open>when\<close> raises NameError.
\<close>

definition find_in_gridpoints ::
  "('dt, 'tz) datetime_lib \<Rightarrow> json \<Rightarrow> string \<Rightarrow> real option \<Rightarrow> error + json" where
  "find_in_gridpoints lib forecast_grid_data what when_arg =
     (case when_arg of
        None \<Rightarrow> Inl NameError
      | Some instant \<Rightarrow>
          if instant = 0 then Inl NameError
          else
            ebind (py_get forecast_grid_data ''properties'')
              (\<lambda>props. ebind (py_get props what)
                (\<lambda>q. ebind (py_get q ''values'')
                  (\<lambda>vals. ebind (py_iter vals) (scan_gridpoints lib instant JNull)))))"

text \<open>The series of the specification's example, as a grid payload for the quantity \<open>q\<close>.\<close>

definition two_hour_grid :: "string \<Rightarrow> string \<Rightarrow> string \<Rightarrow> json" where
  "two_hour_grid q s0 s1 =
     JObj [(''properties'',
       JObj [(q,
         JObj [(''uom'', JStr ''wmoUnit:degC''),
               (''values'',
                 JList [JObj [(''validTime'', JStr s0), (''value'', JStr ''5'')],
                        JObj [(''validTime'', JStr s1), (''value'', JStr ''7'')]])])])]"

section \<open>daily\_forecast: parsing periods\<close>

text \<open>The record \<open>_parse_period\<close> builds, one field for each key it sets.\<close>

record Forecast =
  datetime :: json
  number :: json
  is_daytime :: json
  last_api_update :: real
  timestamp :: real
  start_time :: json
  end_time :: json
  name :: json
  condition :: json
  humidity :: json
  native_temperature :: "pyfloat option"
  native_temperature_unit :: string
  precipitation_probability :: int
  native_wind_speed :: "pyfloat option"
  wind_bearing :: json
  icon :: json

definition CELSIUS :: string where
  "CELSIUS = [CHR 0xC2, CHR 0xB0, CHR ''C'']"

definition dict_get :: "(string \<times> json) list \<Rightarrow> string \<Rightarrow> json" where
  "dict_get kvs k = (case map_of kvs k of None \<Rightarrow> JNull | Some v \<Rightarrow> v)"

text \<open>\<open>needle in hay\<close> for two strings: \<open>needle\<close> occurs in \<open>hay\<close>.\<close>

fun str_contains :: "string \<Rightarrow> string \<Rightarrow> bool" where
  "str_contains needle [] = (needle = [])"
| "str_contains needle (c # cs) =
     (take (length needle) (c # cs) = needle \<or> str_contains needle cs)"

text \<open>
  \<open>needle in c\<close> for a string \<open>needle\<close> and a decoded value: substring of a \<open>str\<close>,
  element of a list, key of a dict; TypeError for a value that is no container.
\<close>

definition py_in :: "string \<Rightarrow> json \<Rightarrow> error + bool" where
  "py_in needle c =
     (case c of
        JStr s \<Rightarrow> Inr (str_contains needle s)
      | JList xs \<Rightarrow> Inr (JStr needle \<in> set xs)
      | JObj kvs \<Rightarrow> Inr (needle \<in> set (map fst kvs))
      | _ \<Rightarrow> Inl TypeError)"

text \<open>\<open>try: ... except (ValueError, TypeError): <default>\<close>; other exceptions pass.\<close>

definition catch_VT :: "error + 'a \<Rightarrow> 'a \<Rightarrow> error + 'a" where
  "catch_VT body dflt =
     (case body of
        Inl e \<Rightarrow> if e = ValueError \<or> e = TypeError then Inr dflt else Inl e
      | Inr v \<Rightarrow> Inr v)"

text \<open>The three guarded blocks of \<open>_parse_period\<close>, each a body and its handler.\<close>

definition temperature_body :: "(string \<Rightarrow> pyfloat option) \<Rightarrow> (string \<times> json) list \<Rightarrow> error + pyfloat" where
  "temperature_body strtod period =
     ebind (py_float strtod (dict_get period ''temperature''))
       (\<lambda>v. ebind (py_in ''F'' (dict_get period ''temperatureUnit''))
         (\<lambda>is_f. if is_f then convert_F_to_C v else Inr v))"

definition parse_temperature ::
  "(string \<Rightarrow> pyfloat option) \<Rightarrow> (string \<times> json) list \<Rightarrow> error + pyfloat option" where
  "parse_temperature strtod period =
     catch_VT (ebind (temperature_body strtod period) (\<lambda>v. Inr (Some v))) None"

definition precipitation_body :: "(string \<times> json) list \<Rightarrow> error + int" where
  "precipitation_body period =
     ebind (py_get (dict_get period ''probabilityOfPrecipitation'') ''value'') py_int"

definition parse_precipitation :: "(string \<times> json) list \<Rightarrow> error + int" where
  "parse_precipitation period = catch_VT (precipitation_body period) 0"

definition wind_body :: "(string \<Rightarrow> pyfloat option) \<Rightarrow> (string \<times> json) list \<Rightarrow> error + pyfloat" where
  "wind_body strtod period =
     (case dict_get period ''windSpeed'' of
        JStr w \<Rightarrow>
          (case py_split w of
             [] \<Rightarrow> Inl IndexError
           | item # items \<Rightarrow>
               ebind (py_float strtod (JStr item))
                 (\<lambda>v. if ''mph'' \<in> set (item # items) then speed_miph_to_mps strtod (JFloat v)
                      else Inr v))
      | _ \<Rightarrow> Inl AttributeError)"

definition parse_wind ::
  "(string \<Rightarrow> pyfloat option) \<Rightarrow> (string \<times> json) list \<Rightarrow> error + pyfloat option" where
  "parse_wind strtod period =
     catch_VT (ebind (wind_body strtod period) (\<lambda>v. Inr (Some v))) None"

text \<open>
  \<open>_parse_period(period)\<close>; \<open>forecast_at\<close> is the object's \<open>_forecast_at\<close>. A period that
  is no dict fails at the first \<open>period.get\<close>.
\<close>

definition parse_period ::
  "('dt, 'tz) datetime_lib \<Rightarrow> (string \<Rightarrow> pyfloat option) \<Rightarrow> real \<Rightarrow> json \<Rightarrow> error + Forecast" where
  "parse_period lib strtod forecast_at period =
     (case period of
        JObj kvs \<Rightarrow>
          ebind (iso_to_float_time lib (dict_get kvs ''startTime'') None)
            (\<lambda>ts. ebind (parse_temperature strtod kvs)
              (\<lambda>temp. ebind (parse_precipitation kvs)
                (\<lambda>pp. ebind (parse_wind strtod kvs)
                  (\<lambda>wind. Inr
                    \<lparr> datetime = dict_get kvs ''startTime'',
                      number = dict_get kvs ''number'',
                      is_daytime = dict_get kvs ''isDaytime'',
                      last_api_update = forecast_at,
                      timestamp = ts,
                      start_time = dict_get kvs ''startTime'',
                      end_time = dict_get kvs ''endTime'',
                      name = dict_get kvs ''name'',
                      condition = dict_get kvs ''shortForecast'',
                      humidity = JNull,
                      native_temperature = temp,
                      native_temperature_unit = CELSIUS,
                      precipitation_probability = pp,
                      native_wind_speed = wind,
                      wind_bearing = dict_get kvs ''windDirection'',
                      icon = dict_get kvs ''icon'' \<rparr>))))
      | _ \<Rightarrow> Inl AttributeError)"

text \<open>
  The loop of \<open>_parse\<close>: a record is appended for each period until one raises; the
  blanket handler then ends the loop and keeps what was appended.
\<close>

fun parse_periods ::
  "('dt, 'tz) datetime_lib \<Rightarrow> (string \<Rightarrow> pyfloat option) \<Rightarrow> real \<Rightarrow> json list \<Rightarrow> Forecast list" where
  "parse_periods lib strtod forecast_at [] = []"
| "parse_periods lib strtod forecast_at (p # ps) =
     (case parse_period lib strtod forecast_at p of
        Inl e \<Rightarrow> []
      | Inr f \<Rightarrow> f # parse_periods lib strtod forecast_at ps)"

text \<open>\<open>_parse()\<close>: the value of \<open>_data\<close> after the constructor has run it.\<close>

definition parse ::
  "('dt, 'tz) datetime_lib \<Rightarrow> (string \<Rightarrow> pyfloat option) \<Rightarrow> real \<Rightarrow> json \<Rightarrow> Forecast list" where
  "parse lib strtod forecast_at forecast =
     (if \<not> truthy forecast then []
      else
        (case ebind (py_get forecast ''properties'')
                (\<lambda>props. ebind (py_get props ''periods'') py_iter) of
           Inl e \<Rightarrow> []
         | Inr ps \<Rightarrow> parse_periods lib strtod forecast_at ps))"

text \<open>
  A structurally well-formed period: a dict whose start time is absent or parses, whose
  temperature is no string and, when a number, at most \<open>10 ^ 300\<close> in magnitude or
  NaN, whose precipitation probability is a dict with a \<open>value\<close> that is no infinite
  float, and whose wind speed is a string with at least one token.
\<close>

definition temperature_ok :: "json \<Rightarrow> bool" where
  "temperature_ok v =
     (case v of
        JInt i \<Rightarrow> \<bar>i\<bar> \<le> 10 ^ 300
      | JFloat x \<Rightarrow> (case x of Fin r \<Rightarrow> \<bar>r\<bar> \<le> 10 ^ 300 | NaN \<Rightarrow> True | _ \<Rightarrow> False)
      | JStr s \<Rightarrow> False
      | _ \<Rightarrow> True)"

definition well_formed_period :: "('dt, 'tz) datetime_lib \<Rightarrow> json \<Rightarrow> bool" where
  "well_formed_period lib period =
     (case period of
        JObj kvs \<Rightarrow>
          \<not> isl (iso_to_float_time lib (dict_get kvs ''startTime'') None)
          \<and> temperature_ok (dict_get kvs ''temperature'')
          \<and> (case dict_get kvs ''probabilityOfPrecipitation'' of
                JObj pp \<Rightarrow>
                  dict_get pp ''value'' \<noteq> JFloat PInf \<and> dict_get pp ''value'' \<noteq> JFloat NInf
              | _ \<Rightarrow> False)
          \<and> (case dict_get kvs ''windSpeed'' of JStr w \<Rightarrow> py_split w \<noteq> [] | _ \<Rightarrow> False)
      | _ \<Rightarrow> False)"

text \<open>
  A period and a \<open>float\<close> parser for the examples, a payload of periods, and a dict
  without one of its keys.
\<close>

definition sample_strtod :: "string \<Rightarrow> pyfloat option" where
  "sample_strtod s =
     (if s = ''10'' then Some (Fin 10) else if s = ''50'' then Some (Fin 50) else None)"

definition sample_period :: "(string \<times> json) list" where
  "sample_period =
     [(''number'', JInt 1),
      (''startTime'', JStr ''2024-09-17T20:00:00+00:00''),
      (''endTime'', JStr ''2024-09-17T21:00:00+00:00''),
      (''isDaytime'', JBool False),
      (''temperature'', JInt 50),
      (''temperatureUnit'', JStr ''F''),
      (''probabilityOfPrecipitation'',
         JObj [(''unitCode'', JStr ''wmoUnit:percent''), (''value'', JInt 20)]),
      (''windSpeed'', JStr ''10 mph''),
      (''windDirection'', JStr ''NW''),
      (''shortForecast'', JStr ''Clear'')]"

definition without :: "string \<Rightarrow> (string \<times> json) list \<Rightarrow> (string \<times> json) list" where
  "without k kvs = filter (\<lambda>kv. fst kv \<noteq> k) kvs"

definition periods_payload :: "json list \<Rightarrow> json" where
  "periods_payload ps = JObj [(''properties'', JObj [(''periods'', JList ps)])]"

section \<open>noaa\_client: the client\<close>

text \<open>The object \<open>DailyForecast(daily_forecast, timestamp)\<close>: the constructor runs \<open>_parse\<close>.\<close>

record DailyForecast =
  df_forecast :: json
  df_forecast_at :: real
  df_data :: "Forecast list"

definition DailyForecast_init ::
  "('dt, 'tz) datetime_lib \<Rightarrow> (string \<Rightarrow> pyfloat option) \<Rightarrow> json \<Rightarrow> real \<Rightarrow> DailyForecast" where
  "DailyForecast_init lib strtod daily_forecast ts =
     \<lparr> df_forecast = daily_forecast, df_forecast_at = ts,
       df_data = parse lib strtod ts daily_forecast \<rparr>"

text \<open>
  The fields of \<open>NOAAApiForHA\<close> (\<open>None\<close> is \<open>JNull\<close>, resp. \<open>None\<close> of an option). The
  module \<open>hourly_forecast\<close> is not among the sources: \<open>'h\<close> is its \<open>HourlyForecast\<close> object.
\<close>

record 'h client =
  lat :: real
  lon :: real
  url :: string
  refresh_interval :: real
  metadata :: json
  metadata_at :: real
  forecast :: json
  forecast_at :: real
  daily :: "DailyForecast option"
  forecast_hourly :: json
  forecast_hourly_at :: real
  hourly :: "'h option"
  forecast_grid_data :: json
  forecast_grid_data_at :: real
  all_data_ok :: bool
  all_data_ok_at :: real


definition DEFAULT_REFRESH_INTERVAL :: real where
  "DEFAULT_REFRESH_INTERVAL = 3600 * 12"

text \<open>\<open>__init__\<close>, for given coordinates and metadata URL.\<close>

definition init_client :: "real \<Rightarrow> real \<Rightarrow> string \<Rightarrow> 'h client" where
  "init_client la lo u =
     \<lparr> lat = la, lon = lo, url = u, refresh_interval = DEFAULT_REFRESH_INTERVAL,
       metadata = JNull, metadata_at = 0, forecast = JNull, forecast_at = 0, daily = None,
       forecast_hourly = JNull, forecast_hourly_at = 0, hourly = None,
       forecast_grid_data = JNull, forecast_grid_data_at = 0,
       all_data_ok = False, all_data_ok_at = 0 \<rparr>"


text \<open>
  The world outside the client: the clock \<open>time.time()\<close> reads, and the URLs requested
  so far. The network is a parameter \<open>net\<close>: for a URL and the time of the request it
  gives what \<open>_async_get_url\<close> returns (\<open>JNull\<close> for a status other than 200 or an
  exception, else the decoded body) and the time the request takes.
\<close>

record world =
  now :: real
  requests :: "string list"

text \<open>
  \<open>_async_get_url(url)\<close>: \<open>None\<close> without a request for a falsy URL; a truthy URL that
  is no \<open>str\<close> raises inside the guarded request, which gives \<open>None\<close> too.
\<close>

definition async_get_url ::
  "(string \<Rightarrow> real \<Rightarrow> json \<times> real) \<Rightarrow> json \<Rightarrow> world \<Rightarrow> json \<times> world" where
  "async_get_url net u w =
     (if \<not> truthy u then (JNull, w)
      else
        (case u of
           JStr s \<Rightarrow>
             (fst (net s (now w)),
              w\<lparr>now := now w + snd (net s (now w)), requests := requests w @ [s]\<rparr>)
         | _ \<Rightarrow> (JNull, w)))"

text \<open>\<open>self._metadata.get("properties", {}).get(key)\<close>\<close>

definition meta_link :: "json \<Rightarrow> string \<Rightarrow> error + json" where
  "meta_link md key =
     (case md of
        JObj kvs \<Rightarrow>
          (case map_of kvs ''properties'' of None \<Rightarrow> Inr JNull | Some p \<Rightarrow> py_get p key)
      | _ \<Rightarrow> Inl AttributeError)"

text \<open>
  The three blocks of \<open>_async_get_forecasts\<close>. Each returns its contribution to
  \<open>result\<close>, or the exception it raises, with the client and the world as they are then.
\<close>

definition fetch_daily ::
  "(string \<Rightarrow> real \<Rightarrow> json \<times> real) \<Rightarrow> ('dt, 'tz) datetime_lib \<Rightarrow> (string \<Rightarrow> pyfloat option) \<Rightarrow>
   'h client \<Rightarrow> world \<Rightarrow> (error + bool) \<times> 'h client \<times> world" where
  "fetch_daily net lib strtod c w =
     (case meta_link (metadata c) ''forecast'' of
        Inl e \<Rightarrow> (Inl e, c, w)
      | Inr u \<Rightarrow>
          (let (response, w1) = async_get_url net u w
           in if truthy response
              then (Inr True,
                    c\<lparr>forecast := response, forecast_at := now w1,
                      daily := Some (DailyForecast_init lib strtod response (now w1))\<rparr>,
                    w1)
              else (Inr False, c, w1)))"

definition fetch_hourly ::
  "(string \<Rightarrow> real \<Rightarrow> json \<times> real) \<Rightarrow> (json \<Rightarrow> real \<Rightarrow> error + 'h) \<Rightarrow>
   'h client \<Rightarrow> world \<Rightarrow> (error + bool) \<times> 'h client \<times> world" where
  "fetch_hourly net HourlyForecast c w =
     (case meta_link (metadata c) ''forecastHourly'' of
        Inl e \<Rightarrow> (Inl e, c, w)
      | Inr u \<Rightarrow>
          (let (response, w1) = async_get_url net u w
           in if truthy response
              then (case HourlyForecast response (now w1) of
                      Inl e \<Rightarrow>
                        (Inl e, c\<lparr>forecast_hourly := response, forecast_hourly_at := now w1\<rparr>, w1)
                    | Inr h \<Rightarrow>
                        (Inr True,
                         c\<lparr>forecast_hourly := response, forecast_hourly_at := now w1,
                           hourly := Some h\<rparr>,
                         w1))
              else (Inr False, c, w1)))"

definition fetch_grid ::
  "(string \<Rightarrow> real \<Rightarrow> json \<times> real) \<Rightarrow> 'h client \<Rightarrow> world \<Rightarrow> (error + bool) \<times> 'h client \<times> world" where
  "fetch_grid net c w =
     (case meta_link (metadata c) ''forecastGridData'' of
        Inl e \<Rightarrow> (Inl e, c, w)
      | Inr u \<Rightarrow>
          (let (response, w1) = async_get_url net u w
           in if truthy response
              then (Inr True,
                    c\<lparr>forecast_grid_data := response, forecast_grid_data_at := now w1\<rparr>, w1)
              else (Inr False, c, w1)))"

text \<open>\<open>_async_get_forecasts()\<close>: \<open>result\<close> is true when no block has set it to false.\<close>

definition async_get_forecasts ::
  "(string \<Rightarrow> real \<Rightarrow> json \<times> real) \<Rightarrow> (json \<Rightarrow> real \<Rightarrow> error + 'h) \<Rightarrow>
   ('dt, 'tz) datetime_lib \<Rightarrow> (string \<Rightarrow> pyfloat option) \<Rightarrow>
   'h client \<Rightarrow> world \<Rightarrow> (error + bool) \<times> 'h client \<times> world" where
  "async_get_forecasts net HourlyForecast lib strtod c w =
     (if \<not> truthy (metadata c) then (Inr False, c, w)
      else
        (case fetch_daily net lib strtod c w of
           (Inl e, c1, w1) \<Rightarrow> (Inl e, c1, w1)
         | (Inr ok1, c1, w1) \<Rightarrow>
             (case fetch_hourly net HourlyForecast c1 w1 of
                (Inl e, c2, w2) \<Rightarrow> (Inl e, c2, w2)
              | (Inr ok2, c2, w2) \<Rightarrow>
                  (case fetch_grid net c2 w2 of
                     (Inl e, c3, w3) \<Rightarrow> (Inl e, c3, w3)
                   | (Inr ok3, c3, w3) \<Rightarrow> (Inr (ok1 \<and> ok2 \<and> ok3), c3, w3)))))"

text \<open>
  \<open>async_get_for_location(lat, lon)\<close>. The parameter \<open>fmt\<close> stands for the formatting of
  the coordinates and of the URL template; any exception inside the \<open>try\<close> is logged and
  the call returns \<open>False\<close>, with the fields as they were set until then.
\<close>

definition async_get_for_location ::
  "(string \<Rightarrow> real \<Rightarrow> json \<times> real) \<Rightarrow> (string \<Rightarrow> real \<Rightarrow> real \<Rightarrow> error + string) \<Rightarrow>
   (json \<Rightarrow> real \<Rightarrow> error + 'h) \<Rightarrow> ('dt, 'tz) datetime_lib \<Rightarrow> (string \<Rightarrow> pyfloat option) \<Rightarrow>
   real option \<Rightarrow> real option \<Rightarrow> 'h client \<Rightarrow> world \<Rightarrow> bool \<times> 'h client \<times> world" where
  "async_get_for_location net fmt HourlyForecast lib strtod lat_arg lon_arg c w =
     (let la = (case lat_arg of None \<Rightarrow> lat c | Some x \<Rightarrow> if x = 0 then lat c else x);
          lo = (case lon_arg of None \<Rightarrow> lon c | Some x \<Rightarrow> if x = 0 then lon c else x)
      in case fmt (url c) la lo of
           Inl e \<Rightarrow> (False, c, w)
         | Inr u \<Rightarrow>
             (let (response, w1) = async_get_url net (JStr u) w
              in if truthy response
                 then (case async_get_forecasts net HourlyForecast lib strtod
                              (c\<lparr>metadata := response, metadata_at := now w1, lat := la, lon := lo\<rparr>)
                              w1 of
                         (Inl e, c2, w2) \<Rightarrow> (False, c2, w2)
                       | (Inr ok, c2, w2) \<Rightarrow>
                           (ok,
                            (if ok then c2\<lparr>all_data_ok := True, all_data_ok_at := now w2\<rparr>
                             else c2\<lparr>all_data_ok := False\<rparr>),
                            w2))
                 else (False, c, w1)))"

text \<open>\<open>async_refresh()\<close>\<close>

definition async_refresh ::
  "(string \<Rightarrow> real \<Rightarrow> json \<times> real) \<Rightarrow> (string \<Rightarrow> real \<Rightarrow> real \<Rightarrow> error + string) \<Rightarrow>
   (json \<Rightarrow> real \<Rightarrow> error + 'h) \<Rightarrow> ('dt, 'tz) datetime_lib \<Rightarrow> (string \<Rightarrow> pyfloat option) \<Rightarrow>
   'h client \<Rightarrow> world \<Rightarrow> bool \<times> 'h client \<times> world" where
  "async_refresh net fmt HourlyForecast lib strtod c w =
     (if all_data_ok c \<and> now w - all_data_ok_at c < refresh_interval c then (True, c, w)
      else async_get_for_location net fmt HourlyForecast lib strtod None None c w)"

text \<open>\<open>async_get_daily_forecasts()\<close>\<close>

definition async_get_daily_forecasts ::
  "(string \<Rightarrow> real \<Rightarrow> json \<times> real) \<Rightarrow> (string \<Rightarrow> real \<Rightarrow> real \<Rightarrow> error + string) \<Rightarrow>
   (json \<Rightarrow> real \<Rightarrow> error + 'h) \<Rightarrow> ('dt, 'tz) datetime_lib \<Rightarrow> (string \<Rightarrow> pyfloat option) \<Rightarrow>
   'h client \<Rightarrow> world \<Rightarrow> Forecast list \<times> 'h client \<times> world" where
  "async_get_daily_forecasts net fmt HourlyForecast lib strtod c w =
     (case async_refresh net fmt HourlyForecast lib strtod c w of
        (r, c1, w1) \<Rightarrow> ((case daily c1 of None \<Rightarrow> [] | Some d \<Rightarrow> df_data d), c1, w1))"

text \<open>
  For the examples: a metadata document with three links, a network that answers every
  request with it after one second, a network that is down, a URL formatter and a
  constructor of hourly forecasts that keeps the payload.
\<close>

definition sample_metadata :: json where
  "sample_metadata =
     JObj [(''properties'',
       JObj [(''forecast'', JStr ''https://api.weather.gov/gridpoints/MTR/93,86/forecast''),
             (''forecastHourly'', JStr ''https://api.weather.gov/gridpoints/MTR/93,86/forecast/hourly''),
             (''forecastGridData'', JStr ''https://api.weather.gov/gridpoints/MTR/93,86'')])]"

definition sample_net :: "string \<Rightarrow> real \<Rightarrow> json \<times> real" where
  "sample_net u t = (sample_metadata, 1)"

definition net_down :: "string \<Rightarrow> real \<Rightarrow> json \<times> real" where
  "net_down u t = (JNull, 1)"

definition sample_fmt :: "string \<Rightarrow> real \<Rightarrow> real \<Rightarrow> error + string" where
  "sample_fmt template la lo = Inr ''https://api.weather.gov/points/37.3611,-121.9278''"

definition sample_hourly :: "json \<Rightarrow> real \<Rightarrow> error + json" where
  "sample_hourly response ts = Inr response"

text \<open>What a fetch of payloads leaves alone: the refresh policy and the metadata.\<close>

definition same_policy :: "'h client \<Rightarrow> 'h client \<Rightarrow> bool" where
  "same_policy c c' \<longleftrightarrow>
     refresh_interval c' = refresh_interval c \<and> metadata c' = metadata c
     \<and> all_data_ok c' = all_data_ok c \<and> all_data_ok_at c' = all_data_ok_at c"

text \<open>A client as the constructor leaves it, and a network whose hourly endpoint fails.\<close>

definition sample_client :: "json client" where
  "sample_client =
     init_client (373611 / 10000) (- 1219278 / 10000) ''https://api.weather.gov/points/{lat},{lon}''"

definition partial_net :: "string \<Rightarrow> real \<Rightarrow> json \<times> real" where
  "partial_net u t =
     (if u = ''https://api.weather.gov/gridpoints/MTR/93,86/forecast/hourly'' then (JNull, 1)
      else (sample_metadata, 1))"

text \<open>A network that answers every request with a JSON list, after one second.\<close>

definition bad_metadata_net :: "string \<Rightarrow> real \<Rightarrow> json \<times> real" where
  "bad_metadata_net u t = (JList [JInt 1], 1)"

section \<open>Float rounding: results\<close>

lemma rhe_error: "\<bar>of_int (rhe y) - y\<bar> \<le> 1 / 2"
proof -
  have "of_int \<lfloor>y\<rfloor> \<le> y" "y < of_int \<lfloor>y\<rfloor> + 1" by linarith+
  then show ?thesis by (auto simp: rhe_def Let_def)
qed

lemma rhe_of_int: "rhe (of_int k) = k"
  by (simp add: rhe_def)

lemma rhe_nonneg: "0 \<le> y \<Longrightarrow> 0 \<le> rhe y"
proof -
  assume "0 \<le> y"
  then have "0 \<le> \<lfloor>y\<rfloor>" by simp
  then show ?thesis by (auto simp: rhe_def Let_def)
qed

lemma rhe_nonpos: "y \<le> 0 \<Longrightarrow> rhe y \<le> 0"
proof (cases "y = of_int \<lfloor>y\<rfloor>")
  case True
  assume "y \<le> 0"
  then have "\<lfloor>y\<rfloor> \<le> 0" by (simp add: floor_le_zero)
  moreover have "rhe y = \<lfloor>y\<rfloor>" using True rhe_of_int [of "\<lfloor>y\<rfloor>"] by simp
  ultimately show ?thesis by simp
next
  case False
  assume "y \<le> 0"
  moreover have "of_int \<lfloor>y\<rfloor> \<le> y" by linarith
  ultimately have "of_int \<lfloor>y\<rfloor> < (0::real)" using False by linarith
  then have "\<lfloor>y\<rfloor> \<le> - 1" by linarith
  then show ?thesis by (auto simp: rhe_def Let_def)
qed

lemma rhe_small: "\<bar>y\<bar> < 1 / 2 \<Longrightarrow> rhe y = 0"
proof -
  assume a: "\<bar>y\<bar> < 1 / 2"
  have "\<bar>of_int (rhe y) - y\<bar> \<le> 1 / 2" by (rule rhe_error)
  with a have "\<bar>(of_int (rhe y) :: real)\<bar> < 1" by linarith
  then show ?thesis by linarith
qed

lemma ulp_pos: "0 < ulp x"
  by (simp add: ulp_def)

lemma fl_zero: "fl 0 = 0"
  by (simp add: fl_def)

lemma fl_error: "\<bar>fl x - x\<bar> \<le> ulp x / 2"
proof (cases "x = 0")
  case True
  then show ?thesis using ulp_pos [of 0] by (simp add: fl_def)
next
  case False
  have "fl x - x = ulp x * (of_int (rhe (x / ulp x)) - x / ulp x)"
    using False ulp_pos [of x] by (simp add: fl_def algebra_simps)
  then have "\<bar>fl x - x\<bar> = ulp x * \<bar>of_int (rhe (x / ulp x)) - x / ulp x\<bar>"
    using ulp_pos [of x] by (simp add: abs_mult)
  also have "\<dots> \<le> ulp x * (1 / 2)"
    using rhe_error [of "x / ulp x"] ulp_pos [of x] by (intro mult_left_mono) auto
  finally show ?thesis by simp
qed

lemma fl_nonneg: "0 \<le> x \<Longrightarrow> 0 \<le> fl x"
  using ulp_pos [of x] rhe_nonneg [of "x / ulp x"] by (simp add: fl_def)

lemma fl_nonpos: "x \<le> 0 \<Longrightarrow> fl x \<le> 0"
proof -
  assume "x \<le> 0"
  then have "x / ulp x \<le> 0" using ulp_pos [of x] by (simp add: divide_nonpos_pos)
  then have "(of_int (rhe (x / ulp x)) :: real) \<le> 0" using rhe_nonpos by simp
  then show ?thesis using ulp_pos [of x] by (simp add: fl_def mult_nonneg_nonpos)
qed

lemma fl_double: "\<bar>fl x\<bar> \<le> 2 * \<bar>x\<bar>"
proof (cases "\<bar>x / ulp x\<bar> < 1 / 2")
  case True
  then have "rhe (x / ulp x) = 0" by (rule rhe_small)
  then show ?thesis by (simp add: fl_def)
next
  case False
  then have "ulp x / 2 \<le> \<bar>x\<bar>" using ulp_pos [of x] by (simp add: field_simps)
  with fl_error [of x] show ?thesis by linarith
qed

lemma ulp_normal:
  assumes "1 \<le> \<bar>x\<bar>"
  shows "ulp x \<le> \<bar>x\<bar> / 2 ^ 52"
proof -
  have "0 \<le> log 2 \<bar>x\<bar>" using assms by simp
  then have "0 \<le> \<lfloor>log 2 \<bar>x\<bar>\<rfloor>" by simp
  then have m: "max \<lfloor>log 2 \<bar>x\<bar>\<rfloor> (- 1022) = \<lfloor>log 2 \<bar>x\<bar>\<rfloor>" by simp
  have "2 powr of_int \<lfloor>log 2 \<bar>x\<bar>\<rfloor> \<le> 2 powr log 2 \<bar>x\<bar>"
    by (intro powr_mono) auto
  also have "\<dots> = \<bar>x\<bar>" using assms by simp
  finally have "2 powr of_int \<lfloor>log 2 \<bar>x\<bar>\<rfloor> \<le> \<bar>x\<bar>" .
  moreover have "ulp x = 2 powr of_int \<lfloor>log 2 \<bar>x\<bar>\<rfloor> / 2 ^ 52"
    by (simp add: ulp_def m powr_diff)
  ultimately show ?thesis by (simp add: divide_right_mono)
qed

lemma fl_relative:
  assumes "1 \<le> \<bar>x\<bar>"
  shows "\<bar>fl x - x\<bar> \<le> \<bar>x\<bar> / 10 ^ 15"
proof -
  have "ulp x / 2 \<le> \<bar>x\<bar> / 2 ^ 52 / 2"
    using ulp_normal [OF assms] by (rule divide_right_mono) simp
  with fl_error [of x] have "\<bar>fl x - x\<bar> \<le> \<bar>x\<bar> / 2 ^ 52 / 2"
    by (rule order_trans)
  also have "\<dots> = \<bar>x\<bar> * (1 / 2 ^ 53)" by simp
  also have "\<dots> \<le> \<bar>x\<bar> * (1 / 10 ^ 15)"
    by (intro mult_left_mono) auto
  finally show ?thesis by simp
qed

lemma fl_of_int:
  assumes "\<bar>k\<bar> < 2 ^ 53"
  shows "fl (of_int k) = of_int k"
proof (cases "k = 0")
  case True
  then show ?thesis by (simp add: fl_def)
next
  case False
  define a where "a = \<bar>of_int k :: real\<bar>"
  define e where "e = \<lfloor>log 2 a\<rfloor>"
  define n where "n = nat (52 - e)"
  have a1: "1 \<le> a" using False by (simp add: a_def)
  have "a < 2 ^ 53"
  proof -
    have "(of_int \<bar>k\<bar> :: real) < of_int (2 ^ 53)" using assms by (simp only: of_int_less_iff)
    then show ?thesis by (simp add: a_def)
  qed
  then have "a < 2 powr 53" by simp
  moreover have "0 < a" using a1 by linarith
  ultimately have "log 2 a < 53" by (subst log_less_iff) simp_all
  then have e52: "e \<le> 52" unfolding e_def by linarith
  have "0 \<le> log 2 a" using a1 by simp
  then have e0: "0 \<le> e" unfolding e_def by simp
  have u: "ulp (of_int k) = 1 / 2 ^ n"
  proof -
    have "max e (- 1022) = e" using e0 by simp
    then have "ulp (of_int k) = 2 powr (of_int e - 52)"
      by (simp add: ulp_def e_def a_def)
    also have "of_int e - (52::real) = - real n" using e52 by (simp add: n_def)
    also have "2 powr (- real n) = 1 / 2 ^ n" by (simp add: powr_minus powr_realpow field_simps)
    finally show ?thesis .
  qed
  have "of_int k / ulp (of_int k) = (of_int (k * 2 ^ n) :: real)" by (simp add: u)
  then have "rhe (of_int k / ulp (of_int k)) = k * 2 ^ n" by (simp only: rhe_of_int)
  then show ?thesis using False by (simp add: fl_def u)
qed

lemma int_to_float_small: "\<bar>k\<bar> < 2 ^ 53 \<Longrightarrow> int_to_float k = Inr (Fin (of_int k))"
proof -
  assume a: "\<bar>k\<bar> < 2 ^ 53"
  then have "(of_int \<bar>k\<bar> :: real) < of_int (2 ^ 53)" by (simp only: of_int_less_iff)
  then have "\<bar>of_int k :: real\<bar> < 2 ^ 53" by simp
  moreover have "(2::real) ^ 53 \<le> 2 ^ 1024" by (rule power_increasing) simp_all
  ultimately have "\<not> 2 ^ 1024 \<le> \<bar>of_int k :: real\<bar>" by linarith
  then show ?thesis by (simp add: int_to_float_def fl_of_int [OF a])
qed

lemma round_float_bounded:
  assumes "\<bar>y\<bar> \<le> b" "2 * b < 2 ^ 1024"
  shows "round_float y = Fin (fl y) \<and> \<bar>fl y\<bar> \<le> 2 * b"
proof -
  have "\<bar>fl y\<bar> \<le> 2 * b" using fl_double [of y] assms(1) by linarith
  moreover from this assms(2) have "\<not> 2 ^ 1024 \<le> fl y" "\<not> fl y \<le> - (2 ^ 1024)" by linarith+
  ultimately show ?thesis by (simp add: round_float_def)
qed

lemma round_float_int: "\<bar>k\<bar> < 2 ^ 53 \<Longrightarrow> round_float (of_int k) = Fin (of_int k)"
proof -
  assume a: "\<bar>k\<bar> < 2 ^ 53"
  then have "(of_int \<bar>k\<bar> :: real) < of_int (2 ^ 53)" by (simp only: of_int_less_iff)
  then have "\<bar>of_int k :: real\<bar> < 2 ^ 53" by simp
  moreover have "(2::real) ^ 53 \<le> 2 ^ 1024" by (rule power_increasing) simp_all
  ultimately have "\<not> 2 ^ 1024 \<le> (of_int k :: real)" "\<not> (of_int k :: real) \<le> - (2 ^ 1024)"
    by linarith+
  then show ?thesis by (simp add: round_float_def fl_of_int [OF a])
qed

lemma round_float_zero: "round_float 0 = Fin 0"
  using round_float_int [of 0] by simp

section \<open>Unit conversions: results\<close>

lemma fop_Fin: "fop g (Fin x) = round_float (g x)"
  by (simp add: fop_def)

lemma round_float_FinD: "round_float y = Fin r \<Longrightarrow> r = fl y"
  by (auto simp: round_float_def split: if_splits)

lemma fop_FinD: "fop g v = Fin r \<Longrightarrow> \<exists>x. v = Fin x \<and> r = fl (g x)"
  by (cases v) (auto simp: fop_def dest: round_float_FinD)

lemma fop_not_NaN: "v \<noteq> NaN \<Longrightarrow> fop g v \<noteq> NaN"
  by (cases v) (auto simp: fop_def round_float_def)

lemma scaled_F_sign:
  assumes "scaled_F (Fin f) = Fin y"
  shows "(32 \<le> f \<longrightarrow> 0 \<le> y) \<and> (f \<le> 32 \<longrightarrow> y \<le> 0)"
proof -
  from assms obtain a3 where 3: "fop (\<lambda>x. x / 9) (fop (\<lambda>x. x * 5) (fop (\<lambda>x. x - 32) (Fin f))) = Fin a3"
    and y: "y = fl (a3 * 100)"
    unfolding scaled_F_def by (blast dest: fop_FinD)
  from 3 obtain a2 where 2: "fop (\<lambda>x. x * 5) (fop (\<lambda>x. x - 32) (Fin f)) = Fin a2"
    and a3: "a3 = fl (a2 / 9)"
    by (blast dest: fop_FinD)
  from 2 obtain a1 where 1: "fop (\<lambda>x. x - 32) (Fin f) = Fin a1" and a2: "a2 = fl (a1 * 5)"
    by (blast dest: fop_FinD)
  from 1 have a1: "a1 = fl (f - 32)" by (auto dest: fop_FinD)
  show ?thesis
  proof (intro conjI impI)
    assume "32 \<le> f"
    then have "0 \<le> a1" unfolding a1 by (intro fl_nonneg) simp
    then have "0 \<le> a2" unfolding a2 by (intro fl_nonneg) simp
    then have "0 \<le> a3" unfolding a3 by (intro fl_nonneg) simp
    then show "0 \<le> y" unfolding y by (intro fl_nonneg) simp
  next
    assume "f \<le> 32"
    then have "a1 \<le> 0" unfolding a1 by (intro fl_nonpos) simp
    then have "a2 \<le> 0" unfolding a2 by (intro fl_nonpos) (simp add: mult_le_0_iff)
    then have "a3 \<le> 0" unfolding a3 by (intro fl_nonpos) (simp add: divide_le_0_iff)
    then show "y \<le> 0" unfolding y by (intro fl_nonpos) (simp add: mult_le_0_iff)
  qed
qed

lemma scaled_not_NaN: "scaled_F (Fin f) \<noteq> NaN" "scaled_C (Fin c) \<noteq> NaN"
  by (simp_all add: scaled_F_def scaled_C_def fop_not_NaN)

lemma hundredth_small:
  "\<bar>k\<bar> < 2 ^ 53 \<Longrightarrow> hundredth k = Inr (round_float (of_int k / 100))"
  by (simp add: hundredth_def int_to_float_small ebind_def fop_Fin)

text \<open>
  C5 (as the code has it). For a finite float \<open>f\<close>, \<open>convert_F_to_C\<close> computes
  \<open>y = ((f - 32) * 5 / 9) * 100.0\<close> in float arithmetic, each operation rounded to the
  nearest float. When \<open>y\<close> is finite the result is \<open>int(y) / 100.0\<close>, where \<open>int\<close>
  truncates toward zero: it is the floor of \<open>y\<close> when \<open>32 \<le> f\<close> and the ceiling of
  \<open>y\<close> when \<open>f < 32\<close>. When \<open>y\<close> has overflowed to an infinity, \<open>int\<close> raises
  OverflowError. \<open>convert_C_to_F\<close> does the same with
  \<open>y = ((c * 9.0 / 5.0) + 32) * 100\<close>: the floor of \<open>y\<close> when \<open>y\<close> is not negative,
  its ceiling when it is. The final division of an integer \<open>k\<close> below \<open>2 ^ 53\<close> in
  magnitude by \<open>100.0\<close> gives the float nearest to \<open>k / 100\<close>.
\<close>

theorem convert_truncates_toward_zero:
  "convert_F_to_C (Fin f) =
     (case scaled_F (Fin f) of
        Fin y \<Rightarrow> hundredth (if 32 \<le> f then \<lfloor>y\<rfloor> else \<lceil>y\<rceil>)
      | _ \<Rightarrow> Inl OverflowError)
   \<and> convert_C_to_F (Fin c) =
     (case scaled_C (Fin c) of
        Fin y \<Rightarrow> hundredth (if 0 \<le> y then \<lfloor>y\<rfloor> else \<lceil>y\<rceil>)
      | _ \<Rightarrow> Inl OverflowError)
   \<and> (\<bar>k\<bar> < 2 ^ 53 \<longrightarrow> hundredth k = Inr (round_float (of_int k / 100)))"
proof (intro conjI)
  show "convert_F_to_C (Fin f) =
     (case scaled_F (Fin f) of
        Fin y \<Rightarrow> hundredth (if 32 \<le> f then \<lfloor>y\<rfloor> else \<lceil>y\<rceil>)
      | _ \<Rightarrow> Inl OverflowError)"
  proof (cases "scaled_F (Fin f)")
    case (Fin y)
    have "py_trunc y = (if 32 \<le> f then \<lfloor>y\<rfloor> else \<lceil>y\<rceil>)"
    proof (cases "32 \<le> f")
      case True
      then have "0 \<le> y" using scaled_F_sign [OF Fin] by simp
      with True show ?thesis by (simp add: py_trunc_def)
    next
      case False
      then have "y \<le> 0" using scaled_F_sign [OF Fin] by simp
      with False show ?thesis by (cases "y = 0") (simp_all add: py_trunc_def)
    qed
    with Fin show ?thesis by (simp add: convert_F_to_C_def float_to_int_def ebind_def)
  next
    case NaN
    then show ?thesis using scaled_not_NaN(1) [of f] by simp
  qed (simp_all add: convert_F_to_C_def float_to_int_def ebind_def)
next
  show "convert_C_to_F (Fin c) =
     (case scaled_C (Fin c) of
        Fin y \<Rightarrow> hundredth (if 0 \<le> y then \<lfloor>y\<rfloor> else \<lceil>y\<rceil>)
      | _ \<Rightarrow> Inl OverflowError)"
  proof (cases "scaled_C (Fin c)")
    case NaN
    then show ?thesis using scaled_not_NaN(2) [of c] by simp
  qed (simp_all add: convert_C_to_F_def float_to_int_def ebind_def py_trunc_def)
next
  show "\<bar>k\<bar> < 2 ^ 53 \<longrightarrow> hundredth k = Inr (round_float (of_int k / 100))"
    using hundredth_small by blast
qed

lemma round_float_numeral:
  "numeral n < (2::int) ^ 53 \<Longrightarrow> round_float (numeral n) = Fin (numeral n)"
  "numeral n < (2::int) ^ 53 \<Longrightarrow> round_float (- numeral n) = Fin (- numeral n)"
  using round_float_int [of "numeral n"] round_float_int [of "- numeral n"] by simp_all

lemma scaled_F_50: "scaled_F (Fin 50) = Fin 1000"
  by (simp add: scaled_F_def fop_Fin round_float_numeral)

lemma scaled_C_10: "scaled_C (Fin 10) = Fin 5000"
  by (simp add: scaled_C_def fop_Fin round_float_numeral)

lemma convert_50: "convert_F_to_C (Fin 50) = Inr (Fin 10)"
  using hundredth_small [of 1000]
  by (simp add: convert_F_to_C_def scaled_F_50 float_to_int_def py_trunc_def ebind_def
      round_float_numeral)

text \<open>The theorem at 50 degrees Fahrenheit and at 10 degrees Celsius.\<close>

theorem convert_truncates_toward_zero_witness:
  "convert_F_to_C (Fin 50) = Inr (Fin 10) \<and> convert_C_to_F (Fin 10) = Inr (Fin 50)"
proof -
  have h1: "hundredth 1000 = Inr (Fin 10)" and h2: "hundredth 5000 = Inr (Fin 50)"
    using convert_truncates_toward_zero [of 50 10 1000]
      convert_truncates_toward_zero [of 50 10 5000]
    by (simp_all add: round_float_numeral)
  show ?thesis
    using convert_truncates_toward_zero [of 50 10 0] h1 h2
    by (simp add: scaled_F_50 scaled_C_10)
qed

lemma scaled_F_0:
  "\<exists>y. scaled_F (Fin 0) = Fin y \<and> - 1778 < y \<and> y < - 1777"
proof -
  define z :: real where "z = fl (- 160 / 9)"
  define y :: real where "y = fl (z * 100)"
  have a2: "fop (\<lambda>x. x * 5) (fop (\<lambda>x. x - 32) (Fin 0)) = Fin (- 160)"
    by (simp add: fop_Fin round_float_numeral)
  have r3: "round_float (- (160 / 9)) = Fin z"
    using round_float_bounded [of "- 160 / 9" 18] by (simp add: z_def)
  have "\<bar>z - (- 160 / 9)\<bar> \<le> \<bar>- 160 / 9 :: real\<bar> / 10 ^ 15"
    unfolding z_def by (rule fl_relative) simp
  also have "\<dots> \<le> 1 / 1000000" by simp
  finally have "\<bar>z - (- 160 / 9)\<bar> \<le> 1 / 1000000" .
  then have zb: "- 1777778 / 100000 \<le> z" "z \<le> - 1777777 / 100000" by linarith+
  then have b4: "\<bar>z * 100\<bar> \<le> 1800" "1 \<le> \<bar>z * 100\<bar>" by linarith+
  have r4: "round_float (z * 100) = Fin y"
    using round_float_bounded [OF b4(1)] by (simp add: y_def)
  have "\<bar>y - z * 100\<bar> \<le> \<bar>z * 100\<bar> / 10 ^ 15"
    unfolding y_def using b4(2) by (rule fl_relative)
  also have "\<dots> \<le> 1800 / 10 ^ 15" using b4(1) by (intro divide_right_mono) simp_all
  also have "\<dots> \<le> 1 / 1000000" by simp
  finally have "\<bar>y - z * 100\<bar> \<le> 1 / 1000000" .
  with zb have "- 1778 < y" "y < - 1777" by linarith+
  moreover have "scaled_F (Fin 0) = Fin y"
    unfolding scaled_F_def a2 by (simp add: fop_Fin r3 r4)
  ultimately show ?thesis by blast
qed

lemma hundredth_m1777: "hundredth (- 1777) = Inr (Fin (fl (- 1777 / 100)))"
  using hundredth_small [of "- 1777"] round_float_bounded [of "- 1777 / 100" 18]
  by simp

lemma fl_m1777: "\<bar>fl (- 1777 / 100) - (- 1777 / 100)\<bar> \<le> 1 / 10 ^ 13"
proof -
  have "\<bar>fl (- 1777 / 100) - (- 1777 / 100)\<bar> \<le> \<bar>- 1777 / 100 :: real\<bar> / 10 ^ 15"
    by (rule fl_relative) simp
  also have "\<dots> \<le> 1 / 10 ^ 13" by simp
  finally show ?thesis .
qed

text \<open>
  C5 as stated fails below freezing. At 0 degrees Fahrenheit the code returns the float
  nearest to -17.77 (\<open>int\<close> truncates -1777.77... to -1777), where the floor formula of
  the claim gives -17.78.
\<close>

theorem convert_F_to_C_floor_counterexample:
  "convert_F_to_C (Fin 0) = Inr (Fin (fl (- 1777 / 100)))
   \<and> \<bar>fl (- 1777 / 100) - (- 1777 / 100)\<bar> \<le> 1 / 10 ^ 13
   \<and> of_int \<lfloor>(((0::real) - 32) * 5 / 9) * 100\<rfloor> / 100 = (- 1778 / 100 :: real)"
proof (intro conjI)
  obtain y where y: "scaled_F (Fin 0) = Fin y" "- 1778 < y" "y < - 1777"
    using scaled_F_0 by blast
  have "\<lceil>y\<rceil> = - 1777" using y(2,3) by (intro ceiling_unique) simp_all
  with y show "convert_F_to_C (Fin 0) = Inr (Fin (fl (- 1777 / 100)))"
    by (simp add: convert_F_to_C_def float_to_int_def py_trunc_def ebind_def hundredth_m1777)
  show "\<bar>fl (- 1777 / 100) - (- 1777 / 100)\<bar> \<le> 1 / 10 ^ 13" by (rule fl_m1777)
  have "\<lfloor>(((0::real) - 32) * 5 / 9) * 100\<rfloor> = - 1778"
    by (intro floor_unique) simp_all
  then show "of_int \<lfloor>(((0::real) - 32) * 5 / 9) * 100\<rfloor> / 100 = (- 1778 / 100 :: real)"
    by simp
qed

section \<open>Speed conversion: results\<close>

lemma c_2237_bounds: "\<bar>c_2237 - 2237 / 1000\<bar> \<le> 1 / 10 ^ 14"
proof -
  have "\<bar>fl (2237 / 1000) - 2237 / 1000\<bar> \<le> \<bar>2237 / 1000 :: real\<bar> / 10 ^ 15"
    by (rule fl_relative) simp
  also have "\<dots> \<le> 1 / 10 ^ 14" by simp
  finally show ?thesis by (simp add: c_2237_def)
qed

lemma c_2237_interval: "22369 / 10000 \<le> c_2237" "c_2237 \<le> 22371 / 10000"
proof -
  have "(1 / 10 ^ 14 :: real) \<le> 1 / 10000" by simp
  with c_2237_bounds have "\<bar>c_2237 - 2237 / 1000\<bar> \<le> 1 / 10000" by (rule order_trans)
  then show "22369 / 10000 \<le> c_2237" "c_2237 \<le> 22371 / 10000" by linarith+
qed

lemma c_2237_pos: "0 < c_2237"
  using c_2237_interval(1) by linarith

lemma fl_lower:
  assumes "1 \<le> x"
  shows "x / 2 \<le> fl x"
proof -
  have "\<bar>fl x - x\<bar> \<le> \<bar>x\<bar> / 10 ^ 15" using assms by (intro fl_relative) simp
  also have "\<dots> \<le> \<bar>x\<bar> / 2" by (intro divide_left_mono) simp_all
  finally show ?thesis using assms by linarith
qed

lemma speed_falsy: "\<not> truthy v \<Longrightarrow> speed_miph_to_mps strtod v = Inr (Fin 0)"
  by (simp add: speed_miph_to_mps_def)

lemma int_to_float_0: "int_to_float 0 = Inr (Fin 0)"
  using int_to_float_small [of 0] by simp

lemma fop_zero: "fop (\<lambda>x. x / c) (Fin 0) = Fin 0"
  by (simp add: fop_Fin round_float_zero)

lemma speed_int:
  "speed_miph_to_mps strtod (JInt i) =
     ebind (int_to_float i) (\<lambda>a. Inr (fop (\<lambda>x. x / c_2237) a))"
  by (simp add: speed_miph_to_mps_def int_to_float_0 ebind_def fop_zero)

lemma speed_int_overflow:
  "int_to_float i = Inl OverflowError \<Longrightarrow> speed_miph_to_mps strtod (JInt i) = Inl OverflowError"
  by (simp add: speed_int ebind_def)

lemma speed_int_ok:
  "int_to_float i = Inr a \<Longrightarrow> speed_miph_to_mps strtod (JInt i) = Inr (fop (\<lambda>x. x / c_2237) a)"
  by (simp add: speed_int ebind_def)

lemma speed_int_small:
  "\<bar>i\<bar> < 2 ^ 53 \<Longrightarrow> speed_miph_to_mps strtod (JInt i) = Inr (round_float (of_int i / c_2237))"
  by (simp add: speed_int ebind_def int_to_float_small fop_Fin)

lemma speed_float: "speed_miph_to_mps strtod (JFloat x) = Inr (fop (\<lambda>x. x / c_2237) x)"
  by (simp add: speed_miph_to_mps_def fop_zero)

lemma speed_bool:
  "speed_miph_to_mps strtod (JBool b) = Inr (if b then round_float (1 / c_2237) else Fin 0)"
  by (simp add: speed_miph_to_mps_def fop_Fin)

lemma speed_str_none: "strtod s = None \<Longrightarrow> speed_miph_to_mps strtod (JStr s) = Inr (Fin 0)"
  by (simp add: speed_miph_to_mps_def py_float_def int_to_float_0 ebind_def fop_zero)

lemma speed_str_some:
  "s \<noteq> [] \<Longrightarrow> strtod s = Some y \<Longrightarrow>
   speed_miph_to_mps strtod (JStr s) = Inr (fop (\<lambda>x. x / c_2237) y)"
  by (simp add: speed_miph_to_mps_def py_float_def)

lemma speed_other:
  "speed_miph_to_mps strtod JNull = Inr (Fin 0)"
  "speed_miph_to_mps strtod (JList xs) = Inr (Fin 0)"
  "speed_miph_to_mps strtod (JObj kvs) = Inr (Fin 0)"
  by (simp_all add: speed_miph_to_mps_def)

lemma int_to_float_cases:
  "int_to_float i = Inl OverflowError \<or> (\<exists>a. int_to_float i = Inr (Fin a))"
  by (simp add: int_to_float_def)

lemma speed_raises:
  assumes "speed_miph_to_mps strtod v = Inl e"
  shows "e = OverflowError \<and> (\<exists>i. v = JInt i \<and> int_to_float i = Inl OverflowError)"
proof (cases v)
  case (JInt i)
  show ?thesis
    using assms int_to_float_cases [of i] unfolding JInt speed_int
    by (auto simp: ebind_def)
next
  case (JStr s)
  show ?thesis
  proof (cases "strtod s")
    case None
    then show ?thesis using assms JStr speed_str_none [of strtod s] by simp
  next
    case (Some y)
    show ?thesis
    proof (cases "s = []")
      case True
      then have "\<not> truthy v" using JStr by simp
      then show ?thesis using assms speed_falsy [of v strtod] by simp
    next
      case False
      then show ?thesis using assms JStr Some speed_str_some [of s strtod y] by simp
    qed
  qed
qed (use assms speed_float speed_bool speed_other in auto)

lemma speed_ten:
  "\<exists>r. speed_miph_to_mps strtod (JInt 10) = Inr (Fin r) \<and> \<bar>r - 4470 / 1000\<bar> < 1 / 1000"
proof -
  define q where "q = 10 / c_2237"
  have q: "44695 / 10000 \<le> q" "q \<le> 44705 / 10000"
    unfolding q_def using c_2237_interval c_2237_pos
    by (simp_all add: pos_le_divide_eq pos_divide_le_eq)
  then have b: "\<bar>q\<bar> \<le> 5" "1 \<le> \<bar>q\<bar>" by linarith+
  have r: "round_float q = Fin (fl q)" using round_float_bounded [OF b(1)] by simp
  have "\<bar>fl q - q\<bar> \<le> \<bar>q\<bar> / 10 ^ 15" using b(2) by (rule fl_relative)
  also have "\<dots> \<le> 5 / 10 ^ 15" using b(1) by (intro divide_right_mono) simp_all
  also have "\<dots> \<le> 1 / 1000000" by simp
  finally have "\<bar>fl q - q\<bar> \<le> 1 / 1000000" .
  with q have "\<bar>fl q - 4470 / 1000\<bar> < 1 / 1000" by linarith
  moreover have "speed_miph_to_mps strtod (JInt 10) = Inr (Fin (fl q))"
    using speed_int_small [of 10 strtod] r by (simp add: q_def)
  ultimately show ?thesis by blast
qed

lemma int_to_float_huge: "int_to_float (10 ^ 400) = Inl OverflowError"
proof -
  have "(2 ^ 1024 :: real) \<le> 10 ^ 400 / 2" by simp
  also have "\<dots> \<le> fl (10 ^ 400)" by (rule fl_lower) simp
  also have "\<dots> \<le> \<bar>fl (10 ^ 400)\<bar>" by simp
  finally have "(2 ^ 1024 :: real) \<le> \<bar>fl (of_int (10 ^ 400))\<bar>" by simp
  then show ?thesis unfolding int_to_float_def by (simp only: if_True)
qed

text \<open>
  C9 (as the code has it). \<open>speed_miph_to_mps\<close> raises nothing but OverflowError, and
  that only for an \<open>int\<close> beyond the range of the floats, where it does raise. A falsy
  input (0, the empty string, \<open>None\<close>) and a string that \<open>float\<close> rejects give 0.0; an
  \<open>int\<close> within the float range, a \<open>bool\<close>, a \<open>float\<close> or a string that \<open>float\<close>
  accepts gives the float quotient of the value by the float 2.237 (an infinity and NaN
  pass through);
  and 10 mph is within a thousandth of 4.470 m/s.
\<close>

theorem speed_miph_to_mps_tolerant:
  "(speed_miph_to_mps strtod v = Inl e \<longrightarrow>
      e = OverflowError \<and> (\<exists>j. v = JInt j \<and> int_to_float j = Inl OverflowError))
   \<and> (int_to_float i = Inl OverflowError \<longrightarrow>
        speed_miph_to_mps strtod (JInt i) = Inl OverflowError)
   \<and> (\<not> truthy v \<longrightarrow> speed_miph_to_mps strtod v = Inr (Fin 0))
   \<and> speed_miph_to_mps strtod (JInt 0) = Inr (Fin 0)
   \<and> speed_miph_to_mps strtod (JStr []) = Inr (Fin 0)
   \<and> speed_miph_to_mps strtod JNull = Inr (Fin 0)
   \<and> (strtod s = None \<longrightarrow> speed_miph_to_mps strtod (JStr s) = Inr (Fin 0))
   \<and> (int_to_float i = Inr a \<longrightarrow>
        speed_miph_to_mps strtod (JInt i) = Inr (fop (\<lambda>x. x / c_2237) a))
   \<and> (\<bar>i\<bar> < 2 ^ 53 \<longrightarrow>
        speed_miph_to_mps strtod (JInt i) = Inr (round_float (of_int i / c_2237)))
   \<and> speed_miph_to_mps strtod (JFloat x) = Inr (fop (\<lambda>x. x / c_2237) x)
   \<and> speed_miph_to_mps strtod (JBool b) = Inr (if b then round_float (1 / c_2237) else Fin 0)
   \<and> (s \<noteq> [] \<and> strtod s = Some y \<longrightarrow>
        speed_miph_to_mps strtod (JStr s) = Inr (fop (\<lambda>x. x / c_2237) y))
   \<and> \<bar>c_2237 - 2237 / 1000\<bar> \<le> 1 / 10 ^ 14
   \<and> (\<exists>r. speed_miph_to_mps strtod (JInt 10) = Inr (Fin r) \<and> \<bar>r - 4470 / 1000\<bar> < 1 / 1000)"
proof -
  have zero: "speed_miph_to_mps strtod (JInt 0) = Inr (Fin 0)"
    and empty: "speed_miph_to_mps strtod (JStr []) = Inr (Fin 0)"
    by (simp_all add: speed_falsy)
  show ?thesis
    using speed_raises [of strtod v e] speed_int_overflow [of i strtod]
      speed_falsy [of v strtod] zero empty speed_other(1) [of strtod]
      speed_str_none [of strtod s] speed_int_ok [of i a strtod] speed_int_small [of i strtod]
      speed_float [of strtod x] speed_bool [of strtod b] speed_str_some [of s strtod y]
      c_2237_bounds
      speed_ten [of strtod]
    by blast
qed

text \<open>
  The theorem at a \<open>float\<close> parser that accepts one string: a rejected string, an
  accepted string, an empty list and the integer 3.
\<close>

theorem speed_miph_to_mps_tolerant_witness:
  "speed_miph_to_mps (\<lambda>s. if s = ''2.5'' then Some (Fin (5 / 2)) else None) (JStr ''garbage'')
     = Inr (Fin 0)
   \<and> speed_miph_to_mps (\<lambda>s. if s = ''2.5'' then Some (Fin (5 / 2)) else None) (JStr ''2.5'')
     = Inr (round_float (5 / 2 / c_2237))
   \<and> speed_miph_to_mps (\<lambda>s. if s = ''2.5'' then Some (Fin (5 / 2)) else None) (JList [])
     = Inr (Fin 0)
   \<and> speed_miph_to_mps (\<lambda>s. if s = ''2.5'' then Some (Fin (5 / 2)) else None) (JInt 3)
     = Inr (round_float (3 / c_2237))"
proof -
  let ?p = "\<lambda>s. if s = ''2.5'' then Some (Fin (5 / 2)) else None"
  have a: "?p ''garbage'' = None" and b: "''2.5'' \<noteq> [] \<and> ?p ''2.5'' = Some (Fin (5 / 2))"
    and c: "\<not> truthy (JList [])" and d: "\<bar>3 :: int\<bar> < 2 ^ 53"
    by simp_all
  have e: "fop (\<lambda>x. x / c_2237) (Fin (5 / 2)) = round_float (5 / 2 / c_2237)"
    by (simp add: fop_Fin)
  note t1 = speed_miph_to_mps_tolerant
    [where strtod = ?p and v = "JList []" and i = 3 and s = "''garbage''"]
  note t2 = speed_miph_to_mps_tolerant
    [where strtod = ?p and v = "JList []" and i = 3 and s = "''2.5''" and y = "Fin (5 / 2)"]
  have 1: "speed_miph_to_mps ?p (JStr ''garbage'') = Inr (Fin 0)" using t1 a by blast
  have 2: "speed_miph_to_mps ?p (JStr ''2.5'') = Inr (fop (\<lambda>x. x / c_2237) (Fin (5 / 2)))"
    using t2 b by blast
  have 3: "speed_miph_to_mps ?p (JList []) = Inr (Fin 0)" using t1 c by blast
  have 4: "speed_miph_to_mps ?p (JInt 3) = Inr (round_float (of_int 3 / c_2237))"
    using t1 d by blast
  show ?thesis using 1 2 3 4 e by simp
qed

text \<open>
  C9 as stated fails for an integer beyond the range of the floats: on \<open>10 ^ 400\<close> the
  division \<open>speed / 2.237\<close> raises OverflowError.
\<close>

theorem speed_miph_to_mps_overflow_counterexample:
  "speed_miph_to_mps sample_strtod (JInt (10 ^ 400)) = Inl OverflowError"
  using int_to_float_huge by (rule speed_int_overflow)

section \<open>The regex and the decimal parser\<close>

lemma last_PT_no_slash: "CHR ''/'' \<notin> set s \<Longrightarrow> last_PT s = None"
  by (induction s) auto

lemma last_PT_sep: "p \<noteq> [] \<Longrightarrow> CHR ''/'' \<notin> set p \<Longrightarrow> last_PT (''/PT'' @ p) = Some ([], p)"
  by (simp add: last_PT_no_slash)

lemma last_PT_append:
  "p \<noteq> [] \<Longrightarrow> CHR ''/'' \<notin> set p \<Longrightarrow> last_PT (t @ ''/PT'' @ p) = Some (t, p)"
proof (induction t)
  case Nil
  then show ?case using last_PT_sep by simp
next
  case (Cons c t)
  then have "last_PT (t @ ''/PT'' @ p) = Some (t, p)" by simp
  then show ?case by simp
qed

lemma last_PT_sound: "last_PT s = Some (a, b) \<Longrightarrow> s = a @ ''/PT'' @ b \<and> b \<noteq> []"
proof (induction s arbitrary: a b)
  case Nil
  then show ?case by simp
next
  case (Cons c cs)
  show ?case
  proof (cases "last_PT cs")
    case None
    with Cons.prems have c: "c = CHR ''/''" "take 2 cs = ''PT''" "drop 2 cs \<noteq> []" "a = []" "b = drop 2 cs"
      by (auto split: if_splits)
    have "cs = take 2 cs @ drop 2 cs" by simp
    with c show ?thesis by simp
  next
    case (Some ab)
    obtain a' b' where ab: "ab = (a', b')" by (cases ab)
    with Some Cons.prems have "a = c # a'" "b = b'" by auto
    with Cons.IH [of a' b'] Some ab show ?thesis by simp
  qed
qed

lemma re_match_PT_append:
  assumes "t \<noteq> []" "p \<noteq> []" "CHR 0x0A \<notin> set t" "CHR 0x0A \<notin> set p" "CHR ''/'' \<notin> set p"
  shows "re_match_PT (t @ ''/PT'' @ p) = Some (t, p)"
proof -
  have l: "last (t @ ''/PT'' @ p) = last p" using assms(2) by simp
  have "last p \<in> set p" using assms(2) by simp
  then have nl: "last p \<noteq> CHR 0x0A" using assms(4) by auto
  have ns: "CHR 0x0A \<notin> set (t @ ''/PT'' @ p)" using assms(3,4) by simp
  show ?thesis
    unfolding re_match_PT_def Let_def l
    using nl ns last_PT_append [OF assms(2,5), of t] assms(1) by simp
qed

lemma re_match_PT_sound:
  assumes "re_match_PT s = Some (a, b)"
  shows "(s = a @ ''/PT'' @ b \<or> s = a @ ''/PT'' @ b @ [CHR 0x0A]) \<and> a \<noteq> [] \<and> b \<noteq> []
         \<and> CHR 0x0A \<notin> set a \<and> CHR 0x0A \<notin> set b"
proof -
  define s' where "s' = (if s \<noteq> [] \<and> last s = CHR 0x0A then butlast s else s)"
  from assms have nl: "CHR 0x0A \<notin> set s'" and lp: "last_PT s' = Some (a, b)" and a: "a \<noteq> []"
    by (auto simp: re_match_PT_def Let_def s'_def split: if_splits option.splits)
  from last_PT_sound [OF lp] have s: "s' = a @ ''/PT'' @ b" and b: "b \<noteq> []" by auto
  have "s = s' \<or> s = s' @ [CHR 0x0A]"
  proof (cases "s \<noteq> [] \<and> last s = CHR 0x0A")
    case True
    then have "s = butlast s @ [CHR 0x0A]" by (metis append_butlast_last_id)
    with True show ?thesis by (simp add: s'_def)
  next
    case False
    then show ?thesis by (auto simp: s'_def)
  qed
  with s nl a b show ?thesis by auto
qed

lemma digit_char:
  assumes "k < 10"
  shows "is_digit (''0123456789'' ! k) \<and> digit_val (''0123456789'' ! k) = int k"
proof -
  from assms have "k = 0 \<or> k = 1 \<or> k = 2 \<or> k = 3 \<or> k = 4 \<or> k = 5 \<or> k = 6 \<or> k = 7 \<or> k = 8 \<or> k = 9"
    by arith
  then show ?thesis
    by (elim disjE) (simp_all add: is_digit_def digit_val_def)
qed

lemma dec_digits: "\<forall>c\<in>set (dec n). is_digit c"
proof (induction n rule: dec.induct)
  case (1 n)
  show ?case
  proof (cases "n < 10")
    case True
    then show ?thesis using digit_char [of n] by (subst dec.simps) simp
  next
    case False
    then show ?thesis using 1 digit_char [of "n mod 10"] by (subst dec.simps) simp
  qed
qed

lemma dec_nonempty: "dec n \<noteq> []"
  by (subst dec.simps) simp

lemma int_digits_all:
  "\<forall>c\<in>set ds. is_digit c \<Longrightarrow> ds \<noteq> [] \<Longrightarrow> int_digits acc prev ds = Some (foldl dec_step acc ds)"
proof (induction ds arbitrary: acc prev)
  case Nil
  then show ?case by simp
next
  case (Cons c ds)
  show ?case
  proof (cases "ds = []")
    case True
    with Cons.prems show ?thesis by (simp add: dec_step_def)
  next
    case False
    with Cons show ?thesis by (simp add: dec_step_def)
  qed
qed

lemma foldl_dec: "foldl dec_step 0 (dec n) = int n"
proof (induction n rule: dec.induct)
  case (1 n)
  show ?case
  proof (cases "n < 10")
    case True
    then show ?thesis using digit_char [of n] by (subst dec.simps) (simp add: dec_step_def)
  next
    case False
    then have "foldl dec_step 0 (dec (n div 10)) = int (n div 10)" using 1 by simp
    moreover have "digit_val (''0123456789'' ! (n mod 10)) = int (n mod 10)"
      using digit_char [of "n mod 10"] by simp
    ultimately show ?thesis using False
      by (subst dec.simps) (simp add: dec_step_def zdiv_int zmod_int)
  qed
qed

lemma length_dec: "n < 10 ^ k \<Longrightarrow> 0 < k \<Longrightarrow> length (dec n) \<le> k"
proof (induction n arbitrary: k rule: dec.induct)
  case (1 n)
  show ?case
  proof (cases "n < 10")
    case True
    then show ?thesis using "1.prems" by (subst dec.simps) simp
  next
    case False
    obtain j where k: "k = Suc j" using "1.prems"(2) by (cases k) auto
    have "0 < j" using False "1.prems"(1) k by (cases j) auto
    moreover have "n div 10 < 10 ^ j" using "1.prems"(1) k by (simp add: less_mult_imp_div_less mult.commute)
    ultimately have "length (dec (n div 10)) \<le> j" using "1.IH" [of j] False by simp
    then show ?thesis using False k by (subst dec.simps) simp
  qed
qed

lemma not_space_digit: "is_digit c \<Longrightarrow> \<not> int_space c"
  by (auto simp: is_digit_def int_space_def)

lemma strip_digits:
  assumes "\<forall>c\<in>set ds. is_digit c"
  shows "strip int_space ds = ds"
proof (cases ds)
  case Nil
  then show ?thesis by (simp add: strip_def)
next
  case (Cons c cs)
  then have "\<not> int_space (hd ds)" using assms not_space_digit by simp
  then have a: "dropWhile int_space ds = ds" using Cons by simp
  have "rev ds \<noteq> []" using Cons by simp
  moreover have "hd (rev ds) \<in> set ds" using Cons by (metis hd_in_set list.distinct(1) rev_is_Nil_conv set_rev)
  ultimately have "dropWhile int_space (rev ds) = rev ds"
    using assms not_space_digit by (cases "rev ds") auto
  with a show ?thesis by (simp add: strip_def)
qed

lemma py_int_str_digits:
  assumes "\<forall>c\<in>set ds. is_digit c" "ds \<noteq> []" "length ds \<le> 4300"
  shows "py_int_str ds = Inr (foldl dec_step 0 ds)"
proof -
  have "is_digit (hd ds)" using assms by simp
  then have "hd ds \<noteq> CHR ''-''" "hd ds \<noteq> CHR ''+''" by (auto simp: is_digit_def)
  moreover have "length (filter is_digit ds) \<le> 4300"
    using assms(3) length_filter_le [of is_digit ds] by linarith
  ultimately show ?thesis
    using assms int_digits_all [OF assms(1,2), of 0 False]
    by (simp add: py_int_str_def strip_digits Let_def max_str_digits_def)
qed

lemma py_int_str_dec: "n < 10 ^ 14 \<Longrightarrow> py_int_str (dec n) = Inr (int n)"
proof -
  assume "n < 10 ^ 14"
  then have "length (dec n) \<le> 14" by (rule length_dec) simp
  then have "length (dec n) \<le> 4300" by linarith
  then show ?thesis
    using py_int_str_digits [OF dec_digits dec_nonempty, of n] by (simp add: foldl_dec)
qed

lemma int_digits_chars:
  "int_digits acc prev r = Some n \<Longrightarrow> \<forall>c\<in>set r. is_digit c \<or> c = CHR ''_''"
  by (induction r arbitrary: acc prev) (auto split: if_splits)

lemma dropWhile_set: "c \<in> set s \<Longrightarrow> c \<in> set (dropWhile sp s) \<or> sp c"
proof -
  assume "c \<in> set s"
  moreover have "set s = set (takeWhile sp s) \<union> set (dropWhile sp s)"
    by (metis set_append takeWhile_dropWhile_id)
  ultimately show ?thesis using set_takeWhileD [of c sp s] by blast
qed

lemma strip_set: "c \<in> set s \<Longrightarrow> c \<in> set (strip sp s) \<or> sp c"
  using dropWhile_set [of c s sp] dropWhile_set [of c "rev (dropWhile sp s)" sp]
  by (auto simp: strip_def)

lemma py_int_str_Inr:
  assumes "py_int_str s = Inr n"
  shows "\<exists>r m. int_digits 0 False r = Some m \<and>
           (strip int_space s = r \<or> strip int_space s = CHR ''-'' # r
            \<or> strip int_space s = CHR ''+'' # r)"
proof (cases "strip int_space s")
  case Nil
  with assms show ?thesis by (simp add: py_int_str_def)
next
  case (Cons x xs)
  with assms show ?thesis
    by (auto simp: py_int_str_def Let_def split: option.splits if_splits)
qed

lemma py_int_str_chars:
  assumes "py_int_str s = Inr n" "c \<in> set s"
  shows "is_digit c \<or> int_space c \<or> c \<in> set ''+-_''"
proof -
  from py_int_str_Inr [OF assms(1)] obtain r m where m: "int_digits 0 False r = Some m"
    and r: "strip int_space s = r \<or> strip int_space s = CHR ''-'' # r
            \<or> strip int_space s = CHR ''+'' # r"
    by blast
  from strip_set [OF assms(2), of int_space] have "c \<in> set (strip int_space s) \<or> int_space c" .
  then have "c \<in> set r \<or> c = CHR ''-'' \<or> c = CHR ''+'' \<or> int_space c"
    using r by auto
  then show ?thesis
    using int_digits_chars [OF m] by auto
qed

lemma py_int_str_cases: "py_int_str s = Inl ValueError \<or> (\<exists>n. py_int_str s = Inr n)"
  by (auto simp: py_int_str_def Let_def split: option.splits)

lemma py_int_str_letter:
  assumes "c \<in> set s" "c \<in> set ''HMS''"
  shows "py_int_str s = Inl ValueError"
proof -
  have "\<not> (is_digit c \<or> int_space c \<or> c \<in> set ''+-_'')"
    using assms(2) by (auto simp: is_digit_def int_space_def)
  then show ?thesis using py_int_str_chars [OF _ assms(1)] py_int_str_cases [of s] by blast
qed

lemma iso_and_delta_unfold:
  "iso_to_float_time_and_delta lib iso_time timezone =
     (let (iso_time', period_str) =
            (case re_match_PT iso_time of
               Some (a, b) \<Rightarrow> (a, Some b)
             | None \<Rightarrow> (takeWhile (\<lambda>c. c \<noteq> CHR ''/'') iso_time, None))
      in ebind (parse_time lib iso_time' timezone)
           (\<lambda>dt. ebind (time_period period_str)
                   (\<lambda>secs. ebind (lib_timestamp lib dt) (\<lambda>ts. Inr (ts, of_int secs)))))"
  by (auto simp: iso_to_float_time_and_delta_def parse_time_def ebind_def Let_def
      split: option.splits sum.splits prod.splits)

lemma iso_and_delta_match:
  assumes "re_match_PT s = Some (t, p)" "parse_time lib t timezone = Inr dt"
  shows "iso_to_float_time_and_delta lib s timezone =
           ebind (time_period (Some p))
             (\<lambda>secs. ebind (lib_timestamp lib dt) (\<lambda>ts. Inr (ts, of_int secs)))"
  using assms by (simp add: iso_and_delta_unfold ebind_def)

lemma iso_and_delta_nomatch:
  assumes "re_match_PT s = None" "epoch_of lib (takeWhile (\<lambda>c. c \<noteq> CHR ''/'') s) timezone = Inr ts"
  shows "iso_to_float_time_and_delta lib s timezone = Inr (ts, 0)"
  using assms
  by (auto simp: iso_and_delta_unfold epoch_of_def ebind_def time_period_def timedelta_def
      split: sum.splits)

lemma time_period_unit:
  assumes "n < 10 ^ 14"
  shows "time_period (Some (dec n @ ''H'')) = timedelta (int n * 3600)"
    and "time_period (Some (dec n @ ''M'')) = timedelta (int n * 60)"
    and "time_period (Some (dec n @ ''S'')) = timedelta (int n)"
  using py_int_str_dec [OF assms] by (simp_all add: time_period_def ebind_def)

lemma timedelta_ok: "0 \<le> secs \<Longrightarrow> secs \<le> 86399999999999 \<Longrightarrow> timedelta secs = Inr secs"
  by (auto simp: timedelta_def)

lemma timedelta_overflow: "86400000000000 \<le> secs \<Longrightarrow> timedelta secs = Inl OverflowError"
  by (auto simp: timedelta_def)

lemma digit_no_sep: "is_digit c \<Longrightarrow> c \<noteq> CHR 0x0A \<and> c \<noteq> CHR ''/''"
  by (auto simp: is_digit_def)

lemma dec_no_sep: "CHR 0x0A \<notin> set (dec n) \<and> CHR ''/'' \<notin> set (dec n)"
  using dec_digits [of n] digit_no_sep by blast

lemma re_match_PT_dec:
  assumes "t \<noteq> []" "CHR 0x0A \<notin> set t" "u \<in> set ''HMS''"
  shows "re_match_PT (t @ ''/PT'' @ dec n @ [u]) = Some (t, dec n @ [u])"
  using assms dec_no_sep [of n] by (intro re_match_PT_append) auto

section \<open>Time strings with a duration: results\<close>

lemma epoch_ofD:
  assumes "epoch_of lib s timezone = Inr ts"
  obtains dt where "parse_time lib s timezone = Inr dt" "lib_timestamp lib dt = Inr ts"
  using assms by (auto simp: epoch_of_def ebind_def split: sum.splits)

lemma iso_and_delta_unit:
  assumes "t \<noteq> []" "CHR 0x0A \<notin> set t" "epoch_of lib t timezone = Inr ts"
    and "u \<in> set ''HMS''" "time_period (Some (dec n @ [u])) = Inr secs"
  shows "iso_to_float_time_and_delta lib (t @ ''/PT'' @ dec n @ [u]) timezone = Inr (ts, of_int secs)"
proof -
  from assms(3) obtain dt where dt: "parse_time lib t timezone = Inr dt" "lib_timestamp lib dt = Inr ts"
    by (rule epoch_ofD)
  show ?thesis
    using iso_and_delta_match [OF re_match_PT_dec [OF assms(1,2,4)] dt(1)] dt(2) assms(5)
    by (simp add: ebind_def)
qed

text \<open>
  C7 (as the code has it). For a time string \<open>t\<close> that the library accepts, with epoch
  \<open>ts\<close>: the input \<open>t/PT<n>H\<close> gives \<open>(ts, n * 3600)\<close>, \<open>t/PT<n>M\<close> gives
  \<open>(ts, n * 60)\<close> and \<open>t/PT<n>S\<close> gives \<open>(ts, n)\<close>, as long as the duration is within the
  range of \<open>timedelta\<close> (999999999 days); the regex is tried first, so \<open>t\<close> may itself
  contain a slash. An input \<open>t/other\<close> that the regex does not match, \<open>t\<close> without a
  slash, gives \<open>(ts, 0)\<close>.
\<close>

theorem iso_to_float_time_and_delta_forms:
  assumes "t \<noteq> []" "CHR 0x0A \<notin> set t" "epoch_of lib t timezone = Inr ts"
  shows "(n \<le> 23999999999 \<longrightarrow>
            iso_to_float_time_and_delta lib (t @ ''/PT'' @ dec n @ ''H'') timezone
              = Inr (ts, real n * 3600))
       \<and> (n \<le> 1439999999999 \<longrightarrow>
            iso_to_float_time_and_delta lib (t @ ''/PT'' @ dec n @ ''M'') timezone
              = Inr (ts, real n * 60))
       \<and> (n \<le> 86399999999999 \<longrightarrow>
            iso_to_float_time_and_delta lib (t @ ''/PT'' @ dec n @ ''S'') timezone
              = Inr (ts, real n))
       \<and> (CHR ''/'' \<notin> set t \<and> re_match_PT (t @ ''/'' @ other) = None \<longrightarrow>
            iso_to_float_time_and_delta lib (t @ ''/'' @ other) timezone = Inr (ts, 0))"
proof (intro conjI impI)
  assume n: "n \<le> 23999999999"
  then have "n < 10 ^ 14" by simp
  then have "time_period (Some (dec n @ ''H'')) = timedelta (int n * 3600)"
    by (rule time_period_unit)
  also have "\<dots> = Inr (int n * 3600)" using n by (intro timedelta_ok) auto
  finally show "iso_to_float_time_and_delta lib (t @ ''/PT'' @ dec n @ ''H'') timezone
      = Inr (ts, real n * 3600)"
    using iso_and_delta_unit [OF assms, of "CHR ''H''" n] by simp
next
  assume n: "n \<le> 1439999999999"
  then have "n < 10 ^ 14" by simp
  then have "time_period (Some (dec n @ ''M'')) = timedelta (int n * 60)"
    by (rule time_period_unit)
  also have "\<dots> = Inr (int n * 60)" using n by (intro timedelta_ok) auto
  finally show "iso_to_float_time_and_delta lib (t @ ''/PT'' @ dec n @ ''M'') timezone
      = Inr (ts, real n * 60)"
    using iso_and_delta_unit [OF assms, of "CHR ''M''" n] by simp
next
  assume n: "n \<le> 86399999999999"
  then have "n < 10 ^ 14" by simp
  then have "time_period (Some (dec n @ ''S'')) = timedelta (int n)"
    by (rule time_period_unit)
  also have "\<dots> = Inr (int n)" using n by (intro timedelta_ok) auto
  finally show "iso_to_float_time_and_delta lib (t @ ''/PT'' @ dec n @ ''S'') timezone
      = Inr (ts, real n)"
    using iso_and_delta_unit [OF assms, of "CHR ''S''" n] by simp
next
  assume a: "CHR ''/'' \<notin> set t \<and> re_match_PT (t @ ''/'' @ other) = None"
  then have "takeWhile (\<lambda>c. c \<noteq> CHR ''/'') (t @ ''/'' @ other) = t"
    by (auto simp: takeWhile_tail)
  then show "iso_to_float_time_and_delta lib (t @ ''/'' @ other) timezone = Inr (ts, 0)"
    using iso_and_delta_nomatch [of "t @ ''/'' @ other" lib timezone ts] a assms(3) by simp
qed

lemma sample_epoch:
  "epoch_of sample_lib ''2024-09-17T20:00:00+00:00'' timezone = Inr 1726603200"
  by (simp add: epoch_of_def parse_time_def ebind_def sample_lib_def)

lemma sample_parse:
  "parse_time sample_lib ''2024-09-17T20:00:00+00:00'' timezone = Inr 1726603200"
  by (simp add: parse_time_def ebind_def sample_lib_def)

lemma dec_1: "dec 1 = ''1''" "dec (Suc 0) = ''1''"
  by (simp_all add: dec.simps)

lemma dec_big: "dec 24000000000 = ''24000000000''"
  by (simp add: dec.simps)

lemma no_match_plain:
  "re_match_PT (''2024-09-17T20:00:00+00:00'' @ ''/'' @ ''2024-09-17T21:00:00+00:00'') = None"
  by code_simp

text \<open>The theorem at a one-hour interval and at a plain pair of times.\<close>

theorem iso_to_float_time_and_delta_forms_witness:
  "iso_to_float_time_and_delta sample_lib ''2024-09-17T20:00:00+00:00/PT1H'' (Some ''UTC'')
     = Inr (1726603200, 3600)
   \<and> iso_to_float_time_and_delta sample_lib
       ''2024-09-17T20:00:00+00:00/2024-09-17T21:00:00+00:00'' (Some ''UTC'')
     = Inr (1726603200, 0)"
proof -
  have t: "''2024-09-17T20:00:00+00:00'' \<noteq> []" "CHR 0x0A \<notin> set ''2024-09-17T20:00:00+00:00''"
    "CHR ''/'' \<notin> set ''2024-09-17T20:00:00+00:00''"
    by simp_all
  show ?thesis
    using iso_to_float_time_and_delta_forms [OF t(1,2) sample_epoch, of 1 "Some ''UTC''"
        "''2024-09-17T21:00:00+00:00''"] t(3) no_match_plain
    by (simp add: dec_1)
qed

text \<open>
  C7 as stated fails for a count beyond the range of \<open>timedelta\<close>: 24000000000 hours
  are 1000000000 days, and the call raises OverflowError instead of returning a pair.
\<close>

theorem iso_duration_overflow_counterexample:
  "iso_to_float_time_and_delta sample_lib ''2024-09-17T20:00:00+00:00/PT24000000000H'' None
     = Inl OverflowError"
proof -
  have m: "re_match_PT (''2024-09-17T20:00:00+00:00'' @ ''/PT'' @ dec 24000000000 @ ''H'')
      = Some (''2024-09-17T20:00:00+00:00'', dec 24000000000 @ ''H'')"
    by (rule re_match_PT_dec) simp_all
  have "time_period (Some (dec 24000000000 @ ''H'')) = timedelta (int 24000000000 * 3600)"
    by (rule time_period_unit) simp
  also have "\<dots> = Inl OverflowError" by (rule timedelta_overflow) simp
  finally have tp: "time_period (Some (dec 24000000000 @ ''H'')) = Inl OverflowError" .
  show ?thesis
    using iso_and_delta_match [OF m sample_parse, of None] tp
    by (simp add: dec_big ebind_def)
qed

text \<open>
  C10. For a time string \<open>t\<close> that the library accepts and a duration payload \<open>p\<close> after
  \<open>/PT\<close>: when \<open>p\<close> ends in H, M or S and has another of these unit letters before its
  last character, \<open>int\<close> raises ValueError and nothing is returned; when \<open>p\<close> ends in
  none of H, M, S the duration is 0.0 and no error is raised.
\<close>

theorem iso_composite_duration_raises:
  assumes "t \<noteq> []" "CHR 0x0A \<notin> set t" "p \<noteq> []" "CHR 0x0A \<notin> set p" "CHR ''/'' \<notin> set p"
    and "parse_time lib t timezone = Inr dt" "lib_timestamp lib dt = Inr ts"
  shows "(last p \<in> set ''HMS'' \<and> (\<exists>c\<in>set (butlast p). c \<in> set ''HMS'') \<longrightarrow>
            iso_to_float_time_and_delta lib (t @ ''/PT'' @ p) timezone = Inl ValueError)
       \<and> (last p \<notin> set ''HMS'' \<longrightarrow>
            iso_to_float_time_and_delta lib (t @ ''/PT'' @ p) timezone = Inr (ts, 0))"
proof -
  have m: "re_match_PT (t @ ''/PT'' @ p) = Some (t, p)"
    using assms(1-5) by (intro re_match_PT_append)
  note r = iso_and_delta_match [OF m assms(6)]
  show ?thesis
  proof (intro conjI impI)
    assume a: "last p \<in> set ''HMS'' \<and> (\<exists>c\<in>set (butlast p). c \<in> set ''HMS'')"
    then obtain c where "c \<in> set (butlast p)" "c \<in> set ''HMS''" by blast
    then have "py_int_str (butlast p) = Inl ValueError" by (rule py_int_str_letter)
    then have "time_period (Some p) = Inl ValueError"
      using a assms(3) by (auto simp: time_period_def ebind_def)
    then show "iso_to_float_time_and_delta lib (t @ ''/PT'' @ p) timezone = Inl ValueError"
      using r by (simp add: ebind_def)
  next
    assume "last p \<notin> set ''HMS''"
    then have "time_period (Some p) = Inr 0"
      using assms(3) by (auto simp: time_period_def timedelta_def)
    then show "iso_to_float_time_and_delta lib (t @ ''/PT'' @ p) timezone = Inr (ts, 0)"
      using r assms(7) by (simp add: ebind_def)
  qed
qed

text \<open>The theorem at the payloads \<open>1H30M\<close> and \<open>5D\<close>.\<close>

theorem iso_composite_duration_raises_witness:
  "iso_to_float_time_and_delta sample_lib ''2024-09-17T20:00:00+00:00/PT1H30M'' (Some ''UTC'')
     = Inl ValueError
   \<and> iso_to_float_time_and_delta sample_lib ''2024-09-17T20:00:00+00:00/PT5D'' (Some ''UTC'')
     = Inr (1726603200, 0)"
proof -
  have t: "''2024-09-17T20:00:00+00:00'' \<noteq> []" "CHR 0x0A \<notin> set ''2024-09-17T20:00:00+00:00''"
    by simp_all
  have ts: "lib_timestamp sample_lib (1726603200::real) = Inr 1726603200"
    by (simp add: sample_lib_def)
  have a: "''1H30M'' \<noteq> []" "CHR 0x0A \<notin> set ''1H30M''" "CHR ''/'' \<notin> set ''1H30M''"
    and b: "''5D'' \<noteq> []" "CHR 0x0A \<notin> set ''5D''" "CHR ''/'' \<notin> set ''5D''"
    by simp_all
  show ?thesis
    using iso_composite_duration_raises [OF t a sample_parse ts]
      iso_composite_duration_raises [OF t b sample_parse ts]
    by simp
qed

section \<open>Grid sampling: results\<close>

lemma scan_two:
  assumes "iso_to_float_time_and_delta lib s0 (Some ''UTC'') = Inr (t0, 3600)"
    and "iso_to_float_time_and_delta lib s1 (Some ''UTC'') = Inr (t0 + 3600, 3600)"
  shows "scan_gridpoints lib w JNull
           [JObj [(''validTime'', JStr s0), (''value'', JStr ''5'')],
            JObj [(''validTime'', JStr s1), (''value'', JStr ''7'')]]
         = Inr (if t0 \<ge> w \<or> t0 + 3600 > w then JNull
                else if t0 + 3600 \<ge> w \<or> t0 + 7200 > w then JStr ''5'' else JStr ''7'')"
  using assms by (simp add: py_get_def)

lemma find_two:
  assumes "iso_to_float_time_and_delta lib s0 (Some ''UTC'') = Inr (t0, 3600)"
    and "iso_to_float_time_and_delta lib s1 (Some ''UTC'') = Inr (t0 + 3600, 3600)"
    and "w \<noteq> 0"
  shows "find_in_gridpoints lib (two_hour_grid q s0 s1) q (Some w)
         = Inr (if t0 \<ge> w \<or> t0 + 3600 > w then JNull
                else if t0 + 3600 \<ge> w \<or> t0 + 7200 > w then JStr ''5'' else JStr ''7'')"
  using assms(3) scan_two [OF assms(1,2), of w]
  by (simp add: find_in_gridpoints_def two_hour_grid_def py_get_def py_iter_def ebind_def)

text \<open>
  C1, at the series of the specification's example: two one-hour intervals starting
  at \<open>t0\<close> and \<open>t0 + 3600\<close> with the values 5 and 7. The scan stops at the first interval
  that has not ended by the query instant, so it returns the value of the last interval
  that has ended: nothing at \<open>t0 + 1800\<close> (the claim says 5), 5 at \<open>t0 + 3600 + 1\<close> (the
  claim says 7), nothing at \<open>t0 - 1\<close>, and 7 only from \<open>t0 + 7200\<close> on.
\<close>

theorem find_in_gridpoints_spec_example:
  assumes "iso_to_float_time_and_delta lib s0 (Some ''UTC'') = Inr (t0, 3600)"
    and "iso_to_float_time_and_delta lib s1 (Some ''UTC'') = Inr (t0 + 3600, 3600)"
    and "1 < t0"
  shows "find_in_gridpoints lib (two_hour_grid q s0 s1) q (Some (t0 + 1800)) = Inr JNull
       \<and> find_in_gridpoints lib (two_hour_grid q s0 s1) q (Some (t0 + 3600 + 1)) = Inr (JStr ''5'')
       \<and> find_in_gridpoints lib (two_hour_grid q s0 s1) q (Some (t0 - 1)) = Inr JNull
       \<and> find_in_gridpoints lib (two_hour_grid q s0 s1) q (Some (t0 + 7200)) = Inr (JStr ''7'')"
proof -
  have "t0 + 1800 \<noteq> 0" "t0 + 3600 + 1 \<noteq> 0" "t0 - 1 \<noteq> 0" "t0 + 7200 \<noteq> 0"
    using assms(3) by auto
  then show ?thesis
    using find_two [OF assms(1,2), of _ q] by simp
qed

lemma sample_epoch_21:
  "epoch_of sample_lib ''2024-09-17T21:00:00+00:00'' timezone = Inr 1726606800"
  by (simp add: epoch_of_def parse_time_def ebind_def sample_lib_def)

lemma time_period_1H: "time_period (Some (dec 1 @ ''H'')) = Inr 3600"
  using time_period_unit(1) [of 1] by (simp add: timedelta_def)

lemma sample_interval_20:
  "iso_to_float_time_and_delta sample_lib ''2024-09-17T20:00:00+00:00/PT1H'' (Some ''UTC'')
     = Inr (1726603200, 3600)"
  using iso_and_delta_unit [where lib = sample_lib and timezone = "Some ''UTC''"
      and u = "CHR ''H''" and n = 1 and t = "''2024-09-17T20:00:00+00:00''"]
    sample_epoch time_period_1H
  by (simp add: dec_1)

lemma sample_interval_21:
  "iso_to_float_time_and_delta sample_lib ''2024-09-17T21:00:00+00:00/PT1H'' (Some ''UTC'')
     = Inr (1726603200 + 3600, 3600)"
  using iso_and_delta_unit [where lib = sample_lib and timezone = "Some ''UTC''"
      and u = "CHR ''H''" and n = 1 and t = "''2024-09-17T21:00:00+00:00''"]
    sample_epoch_21 time_period_1H
  by (simp add: dec_1)

text \<open>
  The theorem at two intervals of the example library, \<open>t0 = 1726603200\<close>.
\<close>

theorem find_in_gridpoints_spec_example_witness:
  "find_in_gridpoints sample_lib
     (two_hour_grid ''temperature'' ''2024-09-17T20:00:00+00:00/PT1H''
        ''2024-09-17T21:00:00+00:00/PT1H'')
     ''temperature'' (Some (1726603200 + 1800)) = Inr JNull
   \<and> find_in_gridpoints sample_lib
     (two_hour_grid ''temperature'' ''2024-09-17T20:00:00+00:00/PT1H''
        ''2024-09-17T21:00:00+00:00/PT1H'')
     ''temperature'' (Some (1726603200 + 3600 + 1)) = Inr (JStr ''5'')
   \<and> find_in_gridpoints sample_lib
     (two_hour_grid ''temperature'' ''2024-09-17T20:00:00+00:00/PT1H''
        ''2024-09-17T21:00:00+00:00/PT1H'')
     ''temperature'' (Some (1726603200 - 1)) = Inr JNull"
proof -
  have "(1::real) < 1726603200" by simp
  from find_in_gridpoints_spec_example [OF sample_interval_20 sample_interval_21 this,
      of "''temperature''"]
  show ?thesis by blast
qed

section \<open>Temperature conversion: range\<close>

lemma fop_bounded:
  assumes "\<bar>g x\<bar> \<le> b" "2 * b < 2 ^ 1024"
  shows "\<exists>y. fop g (Fin x) = Fin y \<and> \<bar>y\<bar> \<le> 2 * b"
  using round_float_bounded [OF assms] by (simp add: fop_Fin)

lemma py_trunc_abs: "\<bar>of_int (py_trunc y) :: real\<bar> \<le> \<bar>y\<bar>"
proof (cases "0 \<le> y")
  case True
  then have "0 \<le> \<lfloor>y\<rfloor>" by simp
  then have "\<bar>of_int \<lfloor>y\<rfloor> :: real\<bar> = of_int \<lfloor>y\<rfloor>" by simp
  also have "\<dots> \<le> y" by simp
  finally show ?thesis using True by (simp add: py_trunc_def)
next
  case False
  then have "\<lceil>y\<rceil> \<le> 0" by (simp add: ceiling_le_zero)
  then have "\<bar>of_int \<lceil>y\<rceil> :: real\<bar> = - of_int \<lceil>y\<rceil>" by simp
  also have "\<dots> \<le> - y" by simp
  finally show ?thesis using False by (simp add: py_trunc_def)
qed

lemma int_to_float_bounded:
  assumes "\<bar>of_int k :: real\<bar> \<le> b" "2 * b < 2 ^ 1024"
  shows "int_to_float k = Inr (Fin (fl (of_int k))) \<and> \<bar>fl (of_int k)\<bar> \<le> 2 * b"
proof -
  have "\<bar>fl (of_int k)\<bar> \<le> 2 * b" using fl_double [of "of_int k"] assms(1) by linarith
  with assms(2) show ?thesis by (simp add: int_to_float_def)
qed

lemma convert_F_to_C_ok:
  assumes "\<bar>r\<bar> \<le> 2 * 10 ^ 300"
  shows "\<exists>y. convert_F_to_C (Fin r) = Inr y"
proof -
  define B :: real where "B = 10 ^ 300"
  have B: "32 \<le> B" "48000 * B < 2 ^ 1024" by (simp_all add: B_def)
  have r: "\<bar>r\<bar> \<le> 2 * B" using assms by (simp add: B_def)
  have "\<bar>r - 32\<bar> \<le> 3 * B" using r B(1) by linarith
  moreover have "2 * (3 * B) < 2 ^ 1024" using B by linarith
  ultimately obtain a1 where a1: "fop (\<lambda>x. x - 32) (Fin r) = Fin a1" "\<bar>a1\<bar> \<le> 2 * (3 * B)"
    using fop_bounded [of "\<lambda>x. x - 32" r "3 * B"] by blast
  have "\<bar>a1 * 5\<bar> \<le> 30 * B" using a1(2) by (simp add: abs_mult)
  moreover have "2 * (30 * B) < 2 ^ 1024" using B by linarith
  ultimately obtain a2 where a2: "fop (\<lambda>x. x * 5) (Fin a1) = Fin a2" "\<bar>a2\<bar> \<le> 2 * (30 * B)"
    using fop_bounded [of "\<lambda>x. x * 5" a1 "30 * B"] by blast
  have "\<bar>a2 / 9\<bar> \<le> 60 * B" using a2(2) by simp
  moreover have "2 * (60 * B) < 2 ^ 1024" using B by linarith
  ultimately obtain a3 where a3: "fop (\<lambda>x. x / 9) (Fin a2) = Fin a3" "\<bar>a3\<bar> \<le> 2 * (60 * B)"
    using fop_bounded [of "\<lambda>x. x / 9" a2 "60 * B"] by blast
  have "\<bar>a3 * 100\<bar> \<le> 12000 * B" using a3(2) by (simp add: abs_mult)
  moreover have "2 * (12000 * B) < 2 ^ 1024" using B by linarith
  ultimately obtain y where y: "fop (\<lambda>x. x * 100) (Fin a3) = Fin y" "\<bar>y\<bar> \<le> 2 * (12000 * B)"
    using fop_bounded [of "\<lambda>x. x * 100" a3 "12000 * B"] by blast
  have s: "scaled_F (Fin r) = Fin y" by (simp add: scaled_F_def a1 a2 a3 y)
  have "\<bar>of_int (py_trunc y) :: real\<bar> \<le> 24000 * B"
    using py_trunc_abs [of y] y(2) by linarith
  moreover have "2 * (24000 * B) < 2 ^ 1024" using B by linarith
  ultimately have "int_to_float (py_trunc y) = Inr (Fin (fl (of_int (py_trunc y))))"
    using int_to_float_bounded [of "py_trunc y" "24000 * B"] by blast
  then show ?thesis
    by (simp add: convert_F_to_C_def s float_to_int_def ebind_def hundredth_def)
qed

lemma scaled_F_NaN: "scaled_F NaN = NaN"
  by (simp add: scaled_F_def fop_def)

lemma convert_F_to_C_NaN: "convert_F_to_C NaN = Inl ValueError"
  by (simp add: convert_F_to_C_def scaled_F_NaN float_to_int_def ebind_def)

lemma scaled_F_NaN_iff: "scaled_F x = NaN \<longleftrightarrow> x = NaN"
proof
  assume "scaled_F x = NaN"
  then show "x = NaN"
    unfolding scaled_F_def by (metis fop_not_NaN)
qed (simp add: scaled_F_NaN)

lemma hundredth_cases: "hundredth k = Inl OverflowError \<or> (\<exists>y. hundredth k = Inr y)"
  using int_to_float_cases [of k] by (auto simp: hundredth_def ebind_def)

lemma convert_F_to_C_raises:
  assumes "convert_F_to_C x = Inl e"
  shows "(e = ValueError \<and> x = NaN) \<or> e = OverflowError"
proof (cases "scaled_F x")
  case (Fin y)
  then show ?thesis
    using assms hundredth_cases [of "py_trunc y"]
    by (auto simp: convert_F_to_C_def float_to_int_def ebind_def)
next
  case NaN
  then have "x = NaN" by (simp add: scaled_F_NaN_iff)
  with assms show ?thesis by (simp add: convert_F_to_C_NaN)
qed (use assms in \<open>auto simp: convert_F_to_C_def float_to_int_def ebind_def\<close>)

section \<open>Period parsing: results\<close>

lemma py_float_cases:
  "py_float strtod v = Inl ValueError \<or> py_float strtod v = Inl TypeError
   \<or> py_float strtod v = Inl OverflowError \<or> (\<exists>x. py_float strtod v = Inr x)"
  using int_to_float_cases
  by (cases v) (auto simp: py_float_def split: option.splits)

lemma py_float_str_cases:
  "py_float strtod (JStr s) = Inl ValueError \<or> (\<exists>x. py_float strtod (JStr s) = Inr x)"
  by (auto simp: py_float_def split: option.splits)

lemma py_in_cases: "py_in needle c = Inl TypeError \<or> (\<exists>b. py_in needle c = Inr b)"
  by (cases c) (auto simp: py_in_def)

lemma float_to_int_cases:
  "float_to_int x = Inl ValueError \<or> (float_to_int x = Inl OverflowError \<and> (x = PInf \<or> x = NInf))
   \<or> (\<exists>n. float_to_int x = Inr n)"
  by (cases x) (auto simp: float_to_int_def)

lemma py_int_cases:
  "py_int v = Inl ValueError \<or> py_int v = Inl TypeError
   \<or> (py_int v = Inl OverflowError \<and> (v = JFloat PInf \<or> v = JFloat NInf))
   \<or> (\<exists>n. py_int v = Inr n)"
proof (cases v)
  case (JFloat x)
  then show ?thesis using float_to_int_cases [of x] by (auto simp: py_int_def)
next
  case (JStr s)
  then show ?thesis using py_int_str_cases [of s] by (auto simp: py_int_def)
qed (auto simp: py_int_def)

lemma str_contains_single: "str_contains [c] s = (c \<in> set s)"
  by (induction s) auto

lemma catch_VT_simps:
  "catch_VT (Inl ValueError) d = Inr d"
  "catch_VT (Inl TypeError) d = Inr d"
  "catch_VT (Inr v) d = Inr v"
  "catch_VT (Inl AttributeError) d = Inl AttributeError"
  "catch_VT (Inl IndexError) d = Inl IndexError"
  "catch_VT (Inl OverflowError) d = Inl OverflowError"
  by (simp_all add: catch_VT_def)

lemma ebind_simps:
  "ebind (Inl e) f = Inl e"
  "ebind (Inr x) f = f x"
  by (simp_all add: ebind_def)

lemma parse_temperature_float_error:
  assumes "py_float strtod (dict_get kvs ''temperature'') = Inl e"
  shows "parse_temperature strtod kvs = (if e = OverflowError then Inl OverflowError else Inr None)"
  using assms py_float_cases [of strtod "dict_get kvs ''temperature''"]
  by (auto simp: parse_temperature_def temperature_body_def ebind_simps catch_VT_simps)

lemma parse_temperature_F:
  assumes "py_float strtod (dict_get kvs ''temperature'') = Inr x"
    and "dict_get kvs ''temperatureUnit'' = JStr u" and "CHR ''F'' \<in> set u"
  shows "parse_temperature strtod kvs
         = (case convert_F_to_C x of
              Inr y \<Rightarrow> Inr (Some y)
            | Inl e \<Rightarrow> if e = OverflowError then Inl OverflowError else Inr None)"
proof (cases "convert_F_to_C x")
  case (Inl e)
  then have "(e = ValueError \<and> x = NaN) \<or> e = OverflowError" by (rule convert_F_to_C_raises)
  then show ?thesis
    using assms Inl
    by (auto simp: parse_temperature_def temperature_body_def ebind_simps catch_VT_simps py_in_def
        str_contains_single)
next
  case (Inr y)
  then show ?thesis
    using assms
    by (simp add: parse_temperature_def temperature_body_def ebind_simps catch_VT_simps py_in_def
        str_contains_single)
qed

lemma parse_temperature_not_F:
  assumes "py_float strtod (dict_get kvs ''temperature'') = Inr x"
    and "dict_get kvs ''temperatureUnit'' = JStr u" and "CHR ''F'' \<notin> set u"
  shows "parse_temperature strtod kvs = Inr (Some x)"
  using assms
  by (simp add: parse_temperature_def temperature_body_def ebind_simps catch_VT_simps py_in_def
      str_contains_single)

lemma parse_temperature_no_unit:
  assumes "py_float strtod (dict_get kvs ''temperature'') = Inr x"
    and "dict_get kvs ''temperatureUnit'' = JNull"
  shows "parse_temperature strtod kvs = Inr None"
  using assms
  by (simp add: parse_temperature_def temperature_body_def ebind_simps catch_VT_simps py_in_def)

lemma parse_temperature_missing:
  assumes "map_of kvs ''temperature'' = None"
  shows "parse_temperature strtod kvs = Inr None"
proof -
  have "py_float strtod (dict_get kvs ''temperature'') = Inl TypeError"
    using assms by (simp add: dict_get_def py_float_def)
  then show ?thesis using parse_temperature_float_error by fastforce
qed

lemma temperature_body_raises:
  assumes "temperature_body strtod kvs = Inl e"
  shows "e = ValueError \<or> e = TypeError \<or> e = OverflowError"
proof -
  consider e' where "py_float strtod (dict_get kvs ''temperature'') = Inl e'"
    | x where "py_float strtod (dict_get kvs ''temperature'') = Inr x"
    by (cases "py_float strtod (dict_get kvs ''temperature'')") auto
  then show ?thesis
  proof cases
    case 1
    then show ?thesis
      using assms py_float_cases [of strtod "dict_get kvs ''temperature''"]
      by (auto simp: temperature_body_def ebind_simps)
  next
    case 2
    consider "py_in ''F'' (dict_get kvs ''temperatureUnit'') = Inl TypeError"
      | b where "py_in ''F'' (dict_get kvs ''temperatureUnit'') = Inr b"
      using py_in_cases by blast
    then show ?thesis
    proof cases
      case 1
      with 2 assms show ?thesis by (simp add: temperature_body_def ebind_simps)
    next
      case 2
      note b = this
      show ?thesis
      proof (cases b)
        case True
        with \<open>py_float strtod (dict_get kvs ''temperature'') = Inr x\<close> b assms
        have "convert_F_to_C x = Inl e" by (simp add: temperature_body_def ebind_simps)
        then show ?thesis using convert_F_to_C_raises by blast
      next
        case False
        with \<open>py_float strtod (dict_get kvs ''temperature'') = Inr x\<close> b assms
        show ?thesis by (simp add: temperature_body_def ebind_simps)
      qed
    qed
  qed
qed

lemma parse_temperature_raises:
  assumes "parse_temperature strtod kvs = Inl e"
  shows "e = OverflowError"
proof (cases "temperature_body strtod kvs")
  case (Inl e')
  then have "e' = ValueError \<or> e' = TypeError \<or> e' = OverflowError"
    by (rule temperature_body_raises)
  with Inl assms show ?thesis
    by (auto simp: parse_temperature_def ebind_simps catch_VT_simps)
next
  case (Inr v)
  with assms show ?thesis by (simp add: parse_temperature_def ebind_simps catch_VT_simps)
qed

lemma py_float_ok:
  assumes "temperature_ok v"
  shows "py_float strtod v = Inl TypeError \<or> py_float strtod v = Inr NaN
       \<or> (\<exists>r. py_float strtod v = Inr (Fin r) \<and> \<bar>r\<bar> \<le> 2 * 10 ^ 300)"
proof (cases v)
  case (JBool b)
  then show ?thesis by (simp add: py_float_def)
next
  case (JInt i)
  with assms have "\<bar>i\<bar> \<le> 10 ^ 300" by (simp add: temperature_ok_def)
  then have "(of_int \<bar>i\<bar> :: real) \<le> of_int (10 ^ 300)" by (simp only: of_int_le_iff)
  then have "\<bar>of_int i :: real\<bar> \<le> 10 ^ 300" by simp
  moreover have "2 * (10 ^ 300 :: real) < 2 ^ 1024" by simp
  ultimately have "int_to_float i = Inr (Fin (fl (of_int i))) \<and> \<bar>fl (of_int i)\<bar> \<le> 2 * 10 ^ 300"
    by (rule int_to_float_bounded)
  then show ?thesis using JInt by (simp add: py_float_def)
next
  case (JFloat x)
  with assms show ?thesis
    by (cases x) (auto simp: py_float_def temperature_ok_def)
next
  case (JStr s)
  with assms show ?thesis by (simp add: temperature_ok_def)
qed (simp_all add: py_float_def)

lemma parse_temperature_ok:
  assumes "temperature_ok (dict_get kvs ''temperature'')"
  shows "\<exists>t. parse_temperature strtod kvs = Inr t"
proof (cases "parse_temperature strtod kvs")
  case (Inl e)
  then have e: "e = OverflowError" by (rule parse_temperature_raises)
  consider "py_float strtod (dict_get kvs ''temperature'') = Inl TypeError"
    | "py_float strtod (dict_get kvs ''temperature'') = Inr NaN"
    | r where "py_float strtod (dict_get kvs ''temperature'') = Inr (Fin r)" "\<bar>r\<bar> \<le> 2 * 10 ^ 300"
    using py_float_ok [OF assms, of strtod] by blast
  then show ?thesis
  proof cases
    case 1
    then show ?thesis using parse_temperature_float_error by fastforce
  next
    case 2
    then show ?thesis
      using py_in_cases [of "''F''" "dict_get kvs ''temperatureUnit''"]
      by (auto simp: parse_temperature_def temperature_body_def ebind_simps catch_VT_simps
          convert_F_to_C_NaN)
  next
    case 3
    obtain y where "convert_F_to_C (Fin r) = Inr y"
      using convert_F_to_C_ok [OF 3(2)] by blast
    with 3(1) show ?thesis
      using py_in_cases [of "''F''" "dict_get kvs ''temperatureUnit''"]
      by (auto simp: parse_temperature_def temperature_body_def ebind_simps catch_VT_simps)
  qed
qed blast

lemma parse_period_temperature:
  assumes "parse_period lib strtod stamp (JObj kvs) = Inr f"
  shows "parse_temperature strtod kvs = Inr (native_temperature f)"
  using assms
  by (auto simp: parse_period_def ebind_def split: sum.splits)

text \<open>
  C6 (as the code has it). With \<open>x\<close> what \<open>float\<close> makes of the period's temperature:
  when the unit is a string containing \<open>F\<close>, the parsed temperature is the
  Fahrenheit-to-Celsius conversion of \<open>x\<close> if that returns, null if it raises ValueError
  (which it does for NaN only), and its OverflowError is raised; the conversion returns
  for every finite \<open>x\<close> of magnitude at most \<open>2 * 10 ^ 300\<close>. The parsed temperature is
  \<open>x\<close> itself when the unit is a string without \<open>F\<close>, and null when the unit field is
  absent, when the temperature is missing and when \<open>float\<close> raises ValueError or
  TypeError on it; the OverflowError of \<open>float\<close> on an \<open>int\<close> beyond the float range
  is raised. The block raises nothing but OverflowError, it does not raise when the
  temperature is no string and no number beyond \<open>10 ^ 300\<close>, and its result is the
  record's \<open>native_temperature\<close>.
\<close>

theorem parse_temperature_rules:
  "(py_float strtod (dict_get kvs ''temperature'') = Inr x
      \<and> dict_get kvs ''temperatureUnit'' = JStr u \<and> CHR ''F'' \<in> set u \<longrightarrow>
        parse_temperature strtod kvs
          = (case convert_F_to_C x of
               Inr y \<Rightarrow> Inr (Some y)
             | Inl e \<Rightarrow> if e = OverflowError then Inl OverflowError else Inr None))
   \<and> (convert_F_to_C x = Inl e \<longrightarrow> (e = ValueError \<and> x = NaN) \<or> e = OverflowError)
   \<and> convert_F_to_C NaN = Inl ValueError
   \<and> (\<bar>r\<bar> \<le> 2 * 10 ^ 300 \<longrightarrow> (\<exists>y. convert_F_to_C (Fin r) = Inr y))
   \<and> (py_float strtod (dict_get kvs ''temperature'') = Inr x
      \<and> dict_get kvs ''temperatureUnit'' = JStr u \<and> CHR ''F'' \<notin> set u \<longrightarrow>
        parse_temperature strtod kvs = Inr (Some x))
   \<and> (py_float strtod (dict_get kvs ''temperature'') = Inr x
      \<and> map_of kvs ''temperatureUnit'' = None \<longrightarrow>
        parse_temperature strtod kvs = Inr None)
   \<and> (map_of kvs ''temperature'' = None \<longrightarrow> parse_temperature strtod kvs = Inr None)
   \<and> (py_float strtod (dict_get kvs ''temperature'') = Inl ValueError
      \<or> py_float strtod (dict_get kvs ''temperature'') = Inl TypeError \<longrightarrow>
        parse_temperature strtod kvs = Inr None)
   \<and> (py_float strtod (dict_get kvs ''temperature'') = Inl OverflowError \<longrightarrow>
        parse_temperature strtod kvs = Inl OverflowError)
   \<and> (parse_temperature strtod kvs = Inl e' \<longrightarrow> e' = OverflowError)
   \<and> (temperature_ok (dict_get kvs ''temperature'') \<longrightarrow>
        (\<exists>t. parse_temperature strtod kvs = Inr t))
   \<and> (parse_period lib strtod stamp (JObj kvs) = Inr f \<longrightarrow>
        parse_temperature strtod kvs = Inr (native_temperature f))"
proof -
  have n: "map_of kvs ''temperatureUnit'' = None \<Longrightarrow> dict_get kvs ''temperatureUnit'' = JNull"
    by (simp add: dict_get_def)
  have v: "py_float strtod (dict_get kvs ''temperature'') = Inl ValueError \<Longrightarrow>
      parse_temperature strtod kvs = Inr None"
    and t: "py_float strtod (dict_get kvs ''temperature'') = Inl TypeError \<Longrightarrow>
      parse_temperature strtod kvs = Inr None"
    and e: "py_float strtod (dict_get kvs ''temperature'') = Inl OverflowError \<Longrightarrow>
      parse_temperature strtod kvs = Inl OverflowError"
    by (simp_all add: parse_temperature_float_error)
  show ?thesis
    using parse_temperature_F [of strtod kvs x u] convert_F_to_C_raises [of x e]
      convert_F_to_C_NaN convert_F_to_C_ok [of r]
      parse_temperature_not_F [of strtod kvs x u] parse_temperature_no_unit [of strtod kvs x] n
      parse_temperature_missing [of kvs strtod] v t e
      parse_temperature_raises [of strtod kvs e'] parse_temperature_ok [of kvs strtod]
      parse_period_temperature [of lib strtod stamp kvs f]
    by blast
qed

lemma sample_start:
  "iso_to_float_time sample_lib (JStr ''2024-09-17T20:00:00+00:00'') None = Inr 1726603200"
  by (simp add: iso_to_float_time_def tz_given_def ebind_def sample_lib_def)

lemma sample_period_gets:
  "dict_get sample_period ''temperature'' = JInt 50"
  "dict_get sample_period ''temperatureUnit'' = JStr ''F''"
  "dict_get sample_period ''startTime'' = JStr ''2024-09-17T20:00:00+00:00''"
  "dict_get sample_period ''windSpeed'' = JStr ''10 mph''"
  "dict_get sample_period ''probabilityOfPrecipitation''
     = JObj [(''unitCode'', JStr ''wmoUnit:percent''), (''value'', JInt 20)]"
  by (simp_all add: dict_get_def sample_period_def)

lemma no_unit_gets:
  "dict_get (without ''temperatureUnit'' sample_period) ''temperature'' = JInt 50"
  "map_of (without ''temperatureUnit'' sample_period) ''temperatureUnit'' = None"
  "dict_get (without ''temperatureUnit'' sample_period) ''startTime''
     = JStr ''2024-09-17T20:00:00+00:00''"
  "dict_get (without ''temperatureUnit'' sample_period) ''windSpeed'' = JStr ''10 mph''"
  "dict_get (without ''temperatureUnit'' sample_period) ''probabilityOfPrecipitation''
     = JObj [(''unitCode'', JStr ''wmoUnit:percent''), (''value'', JInt 20)]"
  by (simp_all add: dict_get_def sample_period_def without_def)

lemma no_pp_gets:
  "map_of (without ''probabilityOfPrecipitation'' sample_period) ''probabilityOfPrecipitation'' = None"
  "dict_get (without ''probabilityOfPrecipitation'' sample_period) ''startTime''
     = JStr ''2024-09-17T20:00:00+00:00''"
  "dict_get (without ''probabilityOfPrecipitation'' sample_period) ''temperature'' = JInt 50"
  "dict_get (without ''probabilityOfPrecipitation'' sample_period) ''temperatureUnit'' = JStr ''F''"
  by (simp_all add: dict_get_def sample_period_def without_def)

lemma py_float_50: "py_float strtod (JInt 50) = Inr (Fin 50)"
  using int_to_float_small [of 50] by (simp add: py_float_def)

lemma py_float_huge: "py_float strtod (JInt (10 ^ 400)) = Inl OverflowError"
  by (simp only: py_float_def json.case int_to_float_huge)

lemma pair_gets:
  "dict_get [(''temperature'', v), (''temperatureUnit'', w)] ''temperature'' = v"
  "dict_get [(''temperature'', v), (''temperatureUnit'', w)] ''temperatureUnit'' = w"
  by (simp_all add: dict_get_def)

text \<open>
  The theorem at a Fahrenheit period, a period without unit, an unparsable temperature,
  a Celsius period and a Fahrenheit period whose temperature is NaN.
\<close>

theorem parse_temperature_rules_witness:
  "parse_temperature sample_strtod sample_period = Inr (Some (Fin 10))
   \<and> parse_temperature sample_strtod (without ''temperatureUnit'' sample_period) = Inr None
   \<and> parse_temperature sample_strtod [(''temperature'', JStr ''warm''), (''temperatureUnit'', JStr ''F'')]
       = Inr None
   \<and> parse_temperature sample_strtod [(''temperature'', JStr ''10''), (''temperatureUnit'', JStr ''degC'')]
       = Inr (Some (Fin 10))
   \<and> parse_temperature sample_strtod [(''temperature'', JFloat NaN), (''temperatureUnit'', JStr ''F'')]
       = Inr None"
proof -
  have a: "py_float sample_strtod (dict_get sample_period ''temperature'') = Inr (Fin 50)
      \<and> dict_get sample_period ''temperatureUnit'' = JStr ''F'' \<and> CHR ''F'' \<in> set ''F''"
    by (simp add: sample_period_gets py_float_50)
  have b: "py_float sample_strtod (dict_get (without ''temperatureUnit'' sample_period) ''temperature'')
        = Inr (Fin 50)
      \<and> map_of (without ''temperatureUnit'' sample_period) ''temperatureUnit'' = None"
    by (simp add: no_unit_gets py_float_50)
  have c: "py_float sample_strtod
      (dict_get [(''temperature'', JStr ''warm''), (''temperatureUnit'', JStr ''F'')] ''temperature'')
        = Inl ValueError"
    by (simp add: pair_gets py_float_def sample_strtod_def)
  have d: "py_float sample_strtod
      (dict_get [(''temperature'', JStr ''10''), (''temperatureUnit'', JStr ''degC'')] ''temperature'')
        = Inr (Fin 10)
      \<and> dict_get [(''temperature'', JStr ''10''), (''temperatureUnit'', JStr ''degC'')] ''temperatureUnit''
        = JStr ''degC'' \<and> CHR ''F'' \<notin> set ''degC''"
    by (simp add: pair_gets py_float_def sample_strtod_def)
  have g: "py_float sample_strtod
      (dict_get [(''temperature'', JFloat NaN), (''temperatureUnit'', JStr ''F'')] ''temperature'')
        = Inr NaN
      \<and> dict_get [(''temperature'', JFloat NaN), (''temperatureUnit'', JStr ''F'')] ''temperatureUnit''
        = JStr ''F'' \<and> CHR ''F'' \<in> set ''F''"
    by (simp add: pair_gets py_float_def)
  have 1: "parse_temperature sample_strtod sample_period
      = (case convert_F_to_C (Fin 50) of
           Inr y \<Rightarrow> Inr (Some y)
         | Inl e \<Rightarrow> if e = OverflowError then Inl OverflowError else Inr None)"
    using parse_temperature_rules
      [where strtod = sample_strtod and kvs = sample_period and x = "Fin 50" and u = "''F''"] a
    by blast
  have 2: "parse_temperature sample_strtod (without ''temperatureUnit'' sample_period) = Inr None"
    using parse_temperature_rules
      [where strtod = sample_strtod and kvs = "without ''temperatureUnit'' sample_period"
        and x = "Fin 50"] b
    by blast
  have 3: "parse_temperature sample_strtod
      [(''temperature'', JStr ''warm''), (''temperatureUnit'', JStr ''F'')] = Inr None"
    using parse_temperature_rules
      [where strtod = sample_strtod
        and kvs = "[(''temperature'', JStr ''warm''), (''temperatureUnit'', JStr ''F'')]"] c
    by blast
  have 4: "parse_temperature sample_strtod
      [(''temperature'', JStr ''10''), (''temperatureUnit'', JStr ''degC'')] = Inr (Some (Fin 10))"
    using parse_temperature_rules
      [where strtod = sample_strtod
        and kvs = "[(''temperature'', JStr ''10''), (''temperatureUnit'', JStr ''degC'')]"
        and x = "Fin 10" and u = "''degC''"] d
    by blast
  have 5: "parse_temperature sample_strtod
      [(''temperature'', JFloat NaN), (''temperatureUnit'', JStr ''F'')]
      = (case convert_F_to_C NaN of
           Inr y \<Rightarrow> Inr (Some y)
         | Inl e \<Rightarrow> if e = OverflowError then Inl OverflowError else Inr None)
      \<and> convert_F_to_C NaN = Inl ValueError"
    using parse_temperature_rules
      [where strtod = sample_strtod
        and kvs = "[(''temperature'', JFloat NaN), (''temperatureUnit'', JStr ''F'')]"
        and x = NaN and u = "''F''"] g
    by blast
  show ?thesis
    using 1 2 3 4 5 by (simp add: convert_50)
qed

lemma speed_10:
  "speed_miph_to_mps sample_strtod (JFloat (Fin 10)) = Inr (round_float (10 / c_2237))"
  by (simp add: speed_float fop_Fin)

lemma split_10_mph: "py_split ''10 mph'' = [''10'', ''mph'']"
  by (simp add: py_split_def is_space_def int_space_def)

lemma parse_wind_sample:
  "dict_get kvs ''windSpeed'' = JStr ''10 mph'' \<Longrightarrow>
   parse_wind sample_strtod kvs = Inr (Some (round_float (10 / c_2237)))"
  by (simp add: parse_wind_def wind_body_def split_10_mph py_float_def sample_strtod_def
      ebind_simps speed_10 catch_VT_simps)

lemma parse_precipitation_sample:
  "dict_get kvs ''probabilityOfPrecipitation''
     = JObj [(''unitCode'', JStr ''wmoUnit:percent''), (''value'', JInt 20)] \<Longrightarrow>
   parse_precipitation kvs = Inr 20"
  by (simp add: parse_precipitation_def precipitation_body_def py_get_def py_int_def ebind_simps
      catch_VT_simps)

text \<open>
  C6 as stated fails for an absent unit field: the period has the temperature 50 and no
  \<open>temperatureUnit\<close>, and the parsed temperature is null, not 50 (the test \<open>"F" in None\<close>
  raises TypeError, which the handler turns into null). It also fails in that the
  extraction can raise: on the integer temperature \<open>10 ^ 400\<close>, \<open>float\<close> raises
  OverflowError, which the handler does not catch.
\<close>

theorem parse_temperature_absent_unit_counterexample:
  "map_sum id native_temperature
     (parse_period sample_lib sample_strtod 0 (JObj (without ''temperatureUnit'' sample_period)))
   = Inr None
   \<and> parse_temperature sample_strtod
       [(''temperature'', JInt (10 ^ 400)), (''temperatureUnit'', JStr ''F'')]
     = Inl OverflowError"
proof
  have "py_float sample_strtod (dict_get (without ''temperatureUnit'' sample_period) ''temperature'')
      = Inr (Fin 50)"
    by (simp add: no_unit_gets py_float_50)
  moreover have "dict_get (without ''temperatureUnit'' sample_period) ''temperatureUnit'' = JNull"
    by (simp add: no_unit_gets dict_get_def)
  ultimately have "parse_temperature sample_strtod (without ''temperatureUnit'' sample_period)
      = Inr None"
    by (rule parse_temperature_no_unit)
  then show "map_sum id native_temperature
     (parse_period sample_lib sample_strtod 0 (JObj (without ''temperatureUnit'' sample_period)))
   = Inr None"
    by (simp add: parse_period_def no_unit_gets sample_start ebind_simps parse_wind_sample
        parse_precipitation_sample)
next
  have "py_float sample_strtod
      (dict_get [(''temperature'', JInt (10 ^ 400)), (''temperatureUnit'', JStr ''F'')]
        ''temperature'') = Inl OverflowError"
    by (simp only: pair_gets py_float_huge)
  then show "parse_temperature sample_strtod
       [(''temperature'', JInt (10 ^ 400)), (''temperatureUnit'', JStr ''F'')]
     = Inl OverflowError"
    using parse_temperature_float_error by fastforce
qed

lemma parse_precipitation_dict:
  assumes "dict_get kvs ''probabilityOfPrecipitation'' = JObj pp"
  shows "parse_precipitation kvs
       = (case py_int (dict_get pp ''value'') of
            Inl e \<Rightarrow> if e = OverflowError then Inl OverflowError else Inr 0
          | Inr n \<Rightarrow> Inr n)"
proof -
  have g: "py_get (JObj pp) ''value'' = Inr (dict_get pp ''value'')"
    by (simp add: py_get_def dict_get_def split: option.splits)
  show ?thesis
    using py_int_cases [of "dict_get pp ''value''"] assms g
    by (auto simp: parse_precipitation_def precipitation_body_def ebind_simps catch_VT_simps)
qed

lemma parse_precipitation_finite:
  assumes "dict_get kvs ''probabilityOfPrecipitation'' = JObj pp"
    and "dict_get pp ''value'' \<noteq> JFloat PInf" and "dict_get pp ''value'' \<noteq> JFloat NInf"
  shows "parse_precipitation kvs
       = Inr (case py_int (dict_get pp ''value'') of Inl e \<Rightarrow> 0 | Inr n \<Rightarrow> n)"
  using py_int_cases [of "dict_get pp ''value''"] assms(2,3)
  unfolding parse_precipitation_dict [OF assms(1)]
  by auto

lemma parse_precipitation_missing:
  assumes "map_of kvs ''probabilityOfPrecipitation'' = None"
  shows "parse_precipitation kvs = Inl AttributeError"
  using assms
  by (simp add: parse_precipitation_def precipitation_body_def dict_get_def py_get_def
      ebind_simps catch_VT_simps)

lemma parse_period_missing:
  assumes "map_of kvs ''probabilityOfPrecipitation'' = None"
  shows "isl (parse_period lib strtod stamp (JObj kvs))"
    and "\<not> isl (iso_to_float_time lib (dict_get kvs ''startTime'') None) \<Longrightarrow>
         parse_period lib strtod stamp (JObj kvs)
         = (case parse_temperature strtod kvs of Inl e \<Rightarrow> Inl e | Inr t \<Rightarrow> Inl AttributeError)"
  using parse_precipitation_missing [OF assms]
  by (auto simp: parse_period_def ebind_def split: sum.splits)

lemma parse_payload:
  "parse lib strtod stamp (periods_payload ps) = parse_periods lib strtod stamp ps"
  by (simp add: parse_def periods_payload_def py_get_def py_iter_def ebind_simps)

text \<open>
  C2, on the code. When the precipitation field is a dict, the parsed probability is
  \<open>int\<close> of its \<open>value\<close>, and 0 when that raises ValueError or TypeError (\<open>int\<close> raises
  OverflowError on an infinite float, and nothing else does). When the field is missing
  from a period, \<open>None.get\<close> raises AttributeError, which the handler does not catch:
  \<open>_parse_period\<close> raises (the AttributeError, when the start time parses and the
  temperature block has not raised before), and \<open>_parse\<close> drops this period and all
  later ones.
\<close>

theorem parse_period_precipitation_missing:
  "(dict_get kvs ''probabilityOfPrecipitation'' = JObj pp \<longrightarrow>
      parse_precipitation kvs
        = (case py_int (dict_get pp ''value'') of
             Inl e \<Rightarrow> if e = OverflowError then Inl OverflowError else Inr 0
           | Inr n \<Rightarrow> Inr n))
   \<and> (dict_get kvs ''probabilityOfPrecipitation'' = JObj pp
        \<and> dict_get pp ''value'' \<noteq> JFloat PInf \<and> dict_get pp ''value'' \<noteq> JFloat NInf \<longrightarrow>
      parse_precipitation kvs
        = Inr (case py_int (dict_get pp ''value'') of Inl e \<Rightarrow> 0 | Inr n \<Rightarrow> n))
   \<and> (map_of kvs ''probabilityOfPrecipitation'' = None
        \<and> \<not> isl (iso_to_float_time lib (dict_get kvs ''startTime'') None) \<longrightarrow>
      parse_period lib strtod stamp (JObj kvs)
        = (case parse_temperature strtod kvs of Inl e \<Rightarrow> Inl e | Inr t \<Rightarrow> Inl AttributeError))
   \<and> (map_of kvs ''probabilityOfPrecipitation'' = None
        \<and> \<not> isl (iso_to_float_time lib (dict_get kvs ''startTime'') None)
        \<and> temperature_ok (dict_get kvs ''temperature'') \<longrightarrow>
      parse_period lib strtod stamp (JObj kvs) = Inl AttributeError)
   \<and> (map_of kvs ''probabilityOfPrecipitation'' = None \<longrightarrow>
      isl (parse_period lib strtod stamp (JObj kvs))
      \<and> parse lib strtod stamp (periods_payload (JObj kvs # rest)) = [])"
proof -
  have l: "isl (parse_period lib strtod stamp (JObj kvs)) \<Longrightarrow>
      parse lib strtod stamp (periods_payload (JObj kvs # rest)) = []"
    by (cases "parse_period lib strtod stamp (JObj kvs)") (simp_all add: parse_payload)
  have t: "temperature_ok (dict_get kvs ''temperature'') \<Longrightarrow>
      (case parse_temperature strtod kvs of Inl e \<Rightarrow> Inl e | Inr t \<Rightarrow> Inl AttributeError)
      = (Inl AttributeError :: error + Forecast)"
    using parse_temperature_ok [of kvs strtod] by auto
  show ?thesis
    using parse_precipitation_dict [of kvs pp] parse_precipitation_finite [of kvs pp]
      parse_period_missing [of kvs lib strtod stamp] l t
    by simp
qed

text \<open>
  The theorem at the example period without its precipitation field, and at two
  malformed values.
\<close>

theorem parse_period_precipitation_missing_witness:
  "parse_period sample_lib sample_strtod 0
     (JObj (without ''probabilityOfPrecipitation'' sample_period)) = Inl AttributeError
   \<and> parse sample_lib sample_strtod 0
       (periods_payload [JObj (without ''probabilityOfPrecipitation'' sample_period),
          JObj sample_period]) = []
   \<and> parse_precipitation [(''probabilityOfPrecipitation'', JObj [(''value'', JNull)])] = Inr 0
   \<and> parse_precipitation [(''probabilityOfPrecipitation'', JObj [(''value'', JStr ''n/a'')])] = Inr 0"
proof -
  have a: "map_of (without ''probabilityOfPrecipitation'' sample_period)
        ''probabilityOfPrecipitation'' = None
      \<and> \<not> isl (iso_to_float_time sample_lib
            (dict_get (without ''probabilityOfPrecipitation'' sample_period) ''startTime'') None)
      \<and> temperature_ok (dict_get (without ''probabilityOfPrecipitation'' sample_period)
            ''temperature'')"
    by (simp add: no_pp_gets sample_start temperature_ok_def)
  have b: "dict_get [(''probabilityOfPrecipitation'', JObj [(''value'', JNull)])]
      ''probabilityOfPrecipitation'' = JObj [(''value'', JNull)]"
    and c: "dict_get [(''probabilityOfPrecipitation'', JObj [(''value'', JStr ''n/a'')])]
      ''probabilityOfPrecipitation'' = JObj [(''value'', JStr ''n/a'')]"
    by (simp_all add: dict_get_def)
  have i: "py_int (dict_get [(''value'', JNull)] ''value'') = Inl TypeError"
    by (simp add: dict_get_def py_int_def)
  have "strip int_space ''n/a'' = ''n/a''"
    by (simp add: strip_def int_space_def)
  then have j: "py_int (dict_get [(''value'', JStr ''n/a'')] ''value'') = Inl ValueError"
    by (simp add: dict_get_def py_int_def py_int_str_def is_digit_def)
  have 1: "parse_period sample_lib sample_strtod 0
       (JObj (without ''probabilityOfPrecipitation'' sample_period)) = Inl AttributeError
     \<and> parse sample_lib sample_strtod 0
       (periods_payload [JObj (without ''probabilityOfPrecipitation'' sample_period),
          JObj sample_period]) = []"
    using parse_period_precipitation_missing
      [where kvs = "without ''probabilityOfPrecipitation'' sample_period" and lib = sample_lib
        and strtod = sample_strtod and stamp = 0 and rest = "[JObj sample_period]"] a
    by blast
  have 2: "parse_precipitation [(''probabilityOfPrecipitation'', JObj [(''value'', JNull)])] = Inr 0"
    using parse_period_precipitation_missing
      [where kvs = "[(''probabilityOfPrecipitation'', JObj [(''value'', JNull)])]"
        and pp = "[(''value'', JNull)]"] b i
    by simp
  have 3: "parse_precipitation [(''probabilityOfPrecipitation'', JObj [(''value'', JStr ''n/a'')])]
      = Inr 0"
    using parse_period_precipitation_missing
      [where kvs = "[(''probabilityOfPrecipitation'', JObj [(''value'', JStr ''n/a'')])]"
        and pp = "[(''value'', JStr ''n/a'')]"] c j
    by simp
  show ?thesis using 1 2 3 by blast
qed

lemma parse_wind_total:
  assumes "dict_get kvs ''windSpeed'' = JStr w" "py_split w \<noteq> []"
  shows "\<exists>r. parse_wind strtod kvs = Inr r"
proof -
  from assms(2) obtain item items where s: "py_split w = item # items"
    by (cases "py_split w") auto
  have wb: "wind_body strtod kvs =
      ebind (py_float strtod (JStr item))
        (\<lambda>v. if ''mph'' \<in> set (item # items) then speed_miph_to_mps strtod (JFloat v)
             else Inr v)"
    using assms(1) s by (simp add: wind_body_def)
  have "(\<exists>r. wind_body strtod kvs = Inr r) \<or> wind_body strtod kvs = Inl ValueError"
    using py_float_str_cases [of strtod item]
    by (auto simp: wb ebind_simps speed_float)
  then show ?thesis
    by (auto simp: parse_wind_def ebind_simps catch_VT_simps)
qed

lemma parse_precipitation_total:
  assumes "dict_get kvs ''probabilityOfPrecipitation'' = JObj pp"
    and "dict_get pp ''value'' \<noteq> JFloat PInf" and "dict_get pp ''value'' \<noteq> JFloat NInf"
  shows "\<exists>n. parse_precipitation kvs = Inr n"
  using parse_precipitation_finite [OF assms] by blast

lemma well_formed_parses:
  assumes "well_formed_period lib p"
  shows "\<exists>f. parse_period lib strtod stamp p = Inr f \<and> last_api_update f = stamp"
proof -
  from assms obtain kvs where p: "p = JObj kvs"
    by (cases p) (auto simp: well_formed_period_def)
  from assms p obtain ts where ts: "iso_to_float_time lib (dict_get kvs ''startTime'') None = Inr ts"
    by (cases "iso_to_float_time lib (dict_get kvs ''startTime'') None")
      (auto simp: well_formed_period_def)
  from assms p have tok: "temperature_ok (dict_get kvs ''temperature'')"
    by (simp add: well_formed_period_def)
  from assms p obtain pp where pp: "dict_get kvs ''probabilityOfPrecipitation'' = JObj pp"
    "dict_get pp ''value'' \<noteq> JFloat PInf" "dict_get pp ''value'' \<noteq> JFloat NInf"
    by (cases "dict_get kvs ''probabilityOfPrecipitation''") (auto simp: well_formed_period_def)
  from assms p obtain w where w: "dict_get kvs ''windSpeed'' = JStr w" "py_split w \<noteq> []"
    by (cases "dict_get kvs ''windSpeed''") (auto simp: well_formed_period_def)
  obtain t where t: "parse_temperature strtod kvs = Inr t"
    using parse_temperature_ok [OF tok] by blast
  obtain n where n: "parse_precipitation kvs = Inr n"
    using parse_precipitation_total [OF pp] by blast
  obtain r where r: "parse_wind strtod kvs = Inr r"
    using parse_wind_total [OF w] by blast
  show ?thesis
    by (simp add: p parse_period_def ts t n r ebind_simps)
qed

lemma parse_periods_well_formed:
  assumes "\<forall>p\<in>set ps. well_formed_period lib p"
  shows "map Inr (parse_periods lib strtod stamp ps) = map (parse_period lib strtod stamp) ps
       \<and> (\<forall>f\<in>set (parse_periods lib strtod stamp ps). last_api_update f = stamp)"
  using assms
proof (induction ps)
  case Nil
  then show ?case by simp
next
  case (Cons p ps)
  then obtain f where f: "parse_period lib strtod stamp p = Inr f" "last_api_update f = stamp"
    using well_formed_parses [of lib p strtod stamp] by auto
  with Cons show ?case by simp
qed

text \<open>
  C8. For a payload whose \<open>properties.periods\<close> is a list of structurally well-formed
  periods, the parser produces one record per period, in the order of the input (the
  i-th record is the parse of the i-th period), so the lengths agree; every record
  carries the timestamp the parser was given.
\<close>

theorem parse_one_record_per_period:
  assumes "py_get payload ''properties'' = Inr props"
    and "py_get props ''periods'' = Inr (JList ps)"
    and "\<forall>p\<in>set ps. well_formed_period lib p"
  shows "length (parse lib strtod stamp payload) = length ps
       \<and> map Inr (parse lib strtod stamp payload) = map (parse_period lib strtod stamp) ps
       \<and> (\<forall>f\<in>set (parse lib strtod stamp payload). last_api_update f = stamp)"
proof -
  from assms(2) obtain kvs' where "props = JObj kvs'"
    by (cases props) (auto simp: py_get_def)
  with assms(1) have "truthy payload"
    by (cases payload) (auto simp: py_get_def split: option.splits)
  then have eq: "parse lib strtod stamp payload = parse_periods lib strtod stamp ps"
    using assms(1,2) by (simp add: parse_def ebind_simps py_iter_def)
  have m: "map Inr (parse_periods lib strtod stamp ps)
      = map (parse_period lib strtod stamp) ps"
    and l: "\<forall>f\<in>set (parse_periods lib strtod stamp ps). last_api_update f = stamp"
    using parse_periods_well_formed [OF assms(3)] by auto
  have "length (parse_periods lib strtod stamp ps) = length ps"
    using m by (metis length_map)
  with m l eq show ?thesis by simp
qed

lemma sample_pp_value: "dict_get [(''unitCode'', a), (''value'', b)] ''value'' = b"
  by (simp add: dict_get_def)

lemma sample_well_formed: "well_formed_period sample_lib (JObj sample_period)"
  by (simp add: well_formed_period_def sample_period_gets sample_start split_10_mph
      temperature_ok_def sample_pp_value)

text \<open>
  The theorem at a payload of two periods.
\<close>

theorem parse_one_record_per_period_witness:
  "length (parse sample_lib sample_strtod 1726600000
       (periods_payload [JObj sample_period, JObj sample_period])) = 2
   \<and> map Inr (parse sample_lib sample_strtod 1726600000
       (periods_payload [JObj sample_period, JObj sample_period]))
     = [parse_period sample_lib sample_strtod 1726600000 (JObj sample_period),
        parse_period sample_lib sample_strtod 1726600000 (JObj sample_period)]
   \<and> map last_api_update (parse sample_lib sample_strtod 1726600000
       (periods_payload [JObj sample_period, JObj sample_period]))
     = [1726600000, 1726600000]"
proof -
  let ?ps = "[JObj sample_period, JObj sample_period]"
  let ?r = "parse sample_lib sample_strtod 1726600000 (periods_payload ?ps)"
  have a: "py_get (periods_payload ?ps) ''properties'' = Inr (JObj [(''periods'', JList ?ps)])"
    and b: "py_get (JObj [(''periods'', JList ?ps)]) ''periods'' = Inr (JList ?ps)"
    by (simp_all add: periods_payload_def py_get_def)
  have c: "\<forall>p\<in>set ?ps. well_formed_period sample_lib p"
    by (simp add: sample_well_formed)
  note t = parse_one_record_per_period [OF a b c, of sample_strtod 1726600000]
  from t have l: "length ?r = 2" by simp
  from t have m: "map Inr ?r = map (parse_period sample_lib sample_strtod 1726600000) ?ps"
    by blast
  from t have u: "\<forall>f\<in>set ?r. last_api_update f = 1726600000" by blast
  from l obtain f g where fg: "?r = [f, g]"
    by (cases ?r; cases "tl ?r") (auto simp: length_Suc_conv)
  with u have "map last_api_update ?r = [1726600000, 1726600000]" by simp
  with l m show ?thesis by simp
qed

section \<open>The client: results\<close>

lemma async_get_url_world:
  assumes "async_get_url net u w = (r, w1)" "\<forall>x t. 0 \<le> snd (net x t)"
  shows "now w \<le> now w1 \<and> (\<exists>rs. requests w1 = requests w @ rs)"
  using assms by (cases u) (auto simp: async_get_url_def split: if_splits)


lemma fetch_daily_frame:
  assumes "fetch_daily net lib strtod c w = (r, c1, w1)" "\<forall>x t. 0 \<le> snd (net x t)"
  shows "same_policy c c1 \<and> now w \<le> now w1 \<and> (\<exists>rs. requests w1 = requests w @ rs)"
proof (cases "meta_link (metadata c) ''forecast''")
  case (Inl e)
  with assms(1) show ?thesis by (simp add: fetch_daily_def same_policy_def)
next
  case (Inr u)
  obtain resp w' where g: "async_get_url net u w = (resp, w')" by (cases "async_get_url net u w")
  from async_get_url_world [OF g assms(2)] assms(1) Inr g show ?thesis
    by (auto simp: fetch_daily_def same_policy_def split: if_splits)
qed

lemma fetch_hourly_frame:
  assumes "fetch_hourly net hf c w = (r, c1, w1)" "\<forall>x t. 0 \<le> snd (net x t)"
  shows "same_policy c c1 \<and> now w \<le> now w1 \<and> (\<exists>rs. requests w1 = requests w @ rs)"
proof (cases "meta_link (metadata c) ''forecastHourly''")
  case (Inl e)
  with assms(1) show ?thesis by (simp add: fetch_hourly_def same_policy_def)
next
  case (Inr u)
  obtain resp w' where g: "async_get_url net u w = (resp, w')" by (cases "async_get_url net u w")
  from async_get_url_world [OF g assms(2)] assms(1) Inr g show ?thesis
    by (auto simp: fetch_hourly_def same_policy_def split: if_splits sum.splits)
qed

lemma fetch_grid_frame:
  assumes "fetch_grid net c w = (r, c1, w1)" "\<forall>x t. 0 \<le> snd (net x t)"
  shows "same_policy c c1 \<and> now w \<le> now w1 \<and> (\<exists>rs. requests w1 = requests w @ rs)"
proof (cases "meta_link (metadata c) ''forecastGridData''")
  case (Inl e)
  with assms(1) show ?thesis by (simp add: fetch_grid_def same_policy_def)
next
  case (Inr u)
  obtain resp w' where g: "async_get_url net u w = (resp, w')" by (cases "async_get_url net u w")
  from async_get_url_world [OF g assms(2)] assms(1) Inr g show ?thesis
    by (auto simp: fetch_grid_def same_policy_def split: if_splits)
qed

lemma same_policy_trans: "same_policy a b \<Longrightarrow> same_policy b c \<Longrightarrow> same_policy a c"
  by (simp add: same_policy_def)

lemma same_policy_refl: "same_policy a a"
  by (simp add: same_policy_def)

lemma async_get_forecasts_frame:
  assumes "async_get_forecasts net hf lib strtod c w = (r, c', w')" "\<forall>x t. 0 \<le> snd (net x t)"
  shows "same_policy c c' \<and> now w \<le> now w' \<and> (\<exists>rs. requests w' = requests w @ rs)"
proof (cases "truthy (metadata c)")
  case False
  with assms(1) show ?thesis by (auto simp: async_get_forecasts_def same_policy_refl)
next
  case True
  obtain r1 c1 w1 where s1: "fetch_daily net lib strtod c w = (r1, c1, w1)"
    by (cases "fetch_daily net lib strtod c w")
  note f1 = fetch_daily_frame [OF s1 assms(2)]
  show ?thesis
  proof (cases r1)
    case (Inl e)
    with assms(1) True s1 f1 show ?thesis by (simp add: async_get_forecasts_def)
  next
    case ok1: (Inr ok1)
    obtain r2 c2 w2 where s2: "fetch_hourly net hf c1 w1 = (r2, c2, w2)"
      by (cases "fetch_hourly net hf c1 w1")
    note f2 = fetch_hourly_frame [OF s2 assms(2)]
    have f12: "same_policy c c2 \<and> now w \<le> now w2 \<and> (\<exists>rs. requests w2 = requests w @ rs)"
      using f1 f2 same_policy_trans [of c c1 c2] by auto
    show ?thesis
    proof (cases r2)
      case (Inl e)
      with assms(1) True s1 ok1 s2 f12 show ?thesis by (simp add: async_get_forecasts_def)
    next
      case ok2: (Inr ok2)
      obtain r3 c3 w3 where s3: "fetch_grid net c2 w2 = (r3, c3, w3)"
        by (cases "fetch_grid net c2 w2")
      note f3 = fetch_grid_frame [OF s3 assms(2)]
      have f123: "same_policy c c3 \<and> now w \<le> now w3 \<and> (\<exists>rs. requests w3 = requests w @ rs)"
        using f12 f3 same_policy_trans [of c c2 c3] by auto
      from assms(1) True s1 ok1 s2 ok2 s3 f123 show ?thesis
        by (cases r3) (auto simp: async_get_forecasts_def)
    qed
  qed
qed

lemma loc_fmt_fail:
  assumes "fmt (url c) (lat c) (lon c) = Inl e"
  shows "async_get_for_location net fmt hf lib strtod None None c w = (False, c, w)"
  using assms by (simp add: async_get_for_location_def)

lemma loc_lookup_fail:
  assumes "fmt (url c) (lat c) (lon c) = Inr u" "async_get_url net (JStr u) w = (resp, w1)"
    "\<not> truthy resp"
  shows "async_get_for_location net fmt hf lib strtod None None c w = (False, c, w1)"
  using assms by (simp add: async_get_for_location_def)

lemma loc_lookup_ok:
  assumes "fmt (url c) (lat c) (lon c) = Inr u" "async_get_url net (JStr u) w = (resp, w1)"
    "truthy resp"
    "async_get_forecasts net hf lib strtod
       (c\<lparr>metadata := resp, metadata_at := now w1, lat := lat c, lon := lon c\<rparr>) w1 = (r, c2, w2)"
  shows "async_get_for_location net fmt hf lib strtod None None c w =
     (case r of
        Inl e \<Rightarrow> (False, c2, w2)
      | Inr ok \<Rightarrow>
          (ok, (if ok then c2\<lparr>all_data_ok := True, all_data_ok_at := now w2\<rparr>
                else c2\<lparr>all_data_ok := False\<rparr>), w2))"
  using assms by (cases r) (simp_all add: async_get_for_location_def)

lemma loc_true:
  assumes "async_get_for_location net fmt hf lib strtod None None c w = (True, c1, w1)"
    and "\<forall>x t. 0 \<le> snd (net x t)"
  shows "all_data_ok c1 \<and> all_data_ok_at c1 = now w1 \<and> refresh_interval c1 = refresh_interval c
       \<and> now w \<le> now w1"
proof (cases "fmt (url c) (lat c) (lon c)")
  case (Inl e)
  with assms(1) show ?thesis by (simp add: loc_fmt_fail)
next
  case (Inr u)
  obtain resp w' where g: "async_get_url net (JStr u) w = (resp, w')"
    by (cases "async_get_url net (JStr u) w")
  note gw = async_get_url_world [OF g assms(2)]
  show ?thesis
  proof (cases "truthy resp")
    case False
    with assms(1) Inr g show ?thesis by (simp add: loc_lookup_fail)
  next
    case True
    let ?c = "c\<lparr>metadata := resp, metadata_at := now w', lat := lat c, lon := lon c\<rparr>"
    obtain r c2 w2 where f: "async_get_forecasts net hf lib strtod ?c w' = (r, c2, w2)"
      by (cases "async_get_forecasts net hf lib strtod ?c w'")
    from async_get_forecasts_frame [OF f assms(2)]
    have fr: "refresh_interval c2 = refresh_interval c" "now w' \<le> now w2"
      by (auto simp: same_policy_def)
    from assms(1) loc_lookup_ok [where fmt = fmt and c = c, OF Inr g True f] fr gw show ?thesis
      by (cases r) (auto split: if_splits)
  qed
qed





lemma sample_links:
  "meta_link sample_metadata ''forecast''
     = Inr (JStr ''https://api.weather.gov/gridpoints/MTR/93,86/forecast'')"
  "meta_link sample_metadata ''forecastHourly''
     = Inr (JStr ''https://api.weather.gov/gridpoints/MTR/93,86/forecast/hourly'')"
  "meta_link sample_metadata ''forecastGridData''
     = Inr (JStr ''https://api.weather.gov/gridpoints/MTR/93,86'')"
  "truthy sample_metadata"
  by (simp_all add: meta_link_def sample_metadata_def py_get_def)

lemma sample_get:
  "s \<noteq> [] \<Longrightarrow> async_get_url sample_net (JStr s) w
     = (sample_metadata, w\<lparr>now := now w + 1, requests := requests w @ [s]\<rparr>)"
  by (simp add: async_get_url_def sample_net_def)

lemma sample_forecasts:
  assumes "metadata c = sample_metadata"
  shows "fst (async_get_forecasts sample_net sample_hourly lib strtod c w) = Inr True
    \<and> now (snd (snd (async_get_forecasts sample_net sample_hourly lib strtod c w))) = now w + 3
    \<and> requests (snd (snd (async_get_forecasts sample_net sample_hourly lib strtod c w)))
        = requests w @ [''https://api.weather.gov/gridpoints/MTR/93,86/forecast'',
            ''https://api.weather.gov/gridpoints/MTR/93,86/forecast/hourly'',
            ''https://api.weather.gov/gridpoints/MTR/93,86'']"
  using assms
  by (simp add: async_get_forecasts_def fetch_daily_def fetch_hourly_def fetch_grid_def
      sample_links sample_get sample_hourly_def)

lemma sample_refresh:
  "fst (async_refresh sample_net sample_fmt sample_hourly sample_lib sample_strtod sample_client
      \<lparr>now = 1000, requests = []\<rparr>) = True
   \<and> now (snd (snd (async_refresh sample_net sample_fmt sample_hourly sample_lib sample_strtod
      sample_client \<lparr>now = 1000, requests = []\<rparr>))) = 1004
   \<and> requests (snd (snd (async_refresh sample_net sample_fmt sample_hourly sample_lib sample_strtod
      sample_client \<lparr>now = 1000, requests = []\<rparr>)))
      = [''https://api.weather.gov/points/37.3611,-121.9278'',
         ''https://api.weather.gov/gridpoints/MTR/93,86/forecast'',
         ''https://api.weather.gov/gridpoints/MTR/93,86/forecast/hourly'',
         ''https://api.weather.gov/gridpoints/MTR/93,86'']"
proof -
  let ?w1 = "\<lparr>now = 1001, requests = [''https://api.weather.gov/points/37.3611,-121.9278'']\<rparr>"
  let ?c1 = "sample_client\<lparr>metadata := sample_metadata, metadata_at := 1001,
      lat := lat sample_client, lon := lon sample_client\<rparr>"
  let ?f = "async_get_forecasts sample_net sample_hourly sample_lib sample_strtod ?c1 ?w1"
  have m: "metadata ?c1 = sample_metadata" by simp
  note f = sample_forecasts [OF m, of sample_lib sample_strtod ?w1]
  obtain r c2 w2 where s: "?f = (r, c2, w2)" by (cases ?f)
  with f have r: "r = Inr True" "now w2 = 1004"
    "requests w2 = [''https://api.weather.gov/points/37.3611,-121.9278'',
         ''https://api.weather.gov/gridpoints/MTR/93,86/forecast'',
         ''https://api.weather.gov/gridpoints/MTR/93,86/forecast/hourly'',
         ''https://api.weather.gov/gridpoints/MTR/93,86'']"
    by simp_all
  have g: "async_get_url sample_net (JStr ''https://api.weather.gov/points/37.3611,-121.9278'')
      \<lparr>now = 1000, requests = []\<rparr> = (sample_metadata, ?w1)"
    by (simp add: sample_get)
  have fm: "sample_fmt (url sample_client) (lat sample_client) (lon sample_client)
      = Inr ''https://api.weather.gov/points/37.3611,-121.9278''"
    by (simp add: sample_fmt_def)
  have "\<not> all_data_ok sample_client" by (simp add: sample_client_def init_client_def)
  then have "async_refresh sample_net sample_fmt sample_hourly sample_lib sample_strtod sample_client
      \<lparr>now = 1000, requests = []\<rparr>
     = async_get_for_location sample_net sample_fmt sample_hourly sample_lib sample_strtod None None
        sample_client \<lparr>now = 1000, requests = []\<rparr>"
    by (simp add: async_refresh_def)
  also have "\<dots> = (True, c2\<lparr>all_data_ok := True, all_data_ok_at := now w2\<rparr>, w2)"
    using loc_lookup_ok [where fmt = sample_fmt and c = sample_client and hf = sample_hourly
        and lib = sample_lib and strtod = sample_strtod and r = r and ?c2.0 = c2 and ?w2.0 = w2,
        OF fm g sample_links(4)] s r(1)
    by simp
  finally show ?thesis using r by simp
qed


lemma forecasts_explicit:
  assumes "truthy (metadata c)"
    and "meta_link (metadata c) ''forecast'' = Inr u1"
    and "meta_link (metadata c) ''forecastHourly'' = Inr u2"
    and "meta_link (metadata c) ''forecastGridData'' = Inr u3"
    and "async_get_url net u1 w = (r1, w1)"
    and "async_get_url net u2 w1 = (r2, w2)"
    and "async_get_url net u3 w2 = (r3, w3)"
    and "truthy r2 \<longrightarrow> hf r2 (now w2) = Inr h"
  shows "\<exists>c'. async_get_forecasts net hf lib strtod c w
            = (Inr (truthy r1 \<and> truthy r2 \<and> truthy r3), c', w3)
       \<and> same_policy c c' \<and> lat c' = lat c \<and> lon c' = lon c \<and> metadata_at c' = metadata_at c
       \<and> (truthy r1 \<longrightarrow> forecast c' = r1 \<and> forecast_at c' = now w1
             \<and> daily c' = Some (DailyForecast_init lib strtod r1 (now w1)))
       \<and> (\<not> truthy r1 \<longrightarrow> forecast c' = forecast c \<and> forecast_at c' = forecast_at c
             \<and> daily c' = daily c)
       \<and> (truthy r2 \<longrightarrow> forecast_hourly c' = r2 \<and> forecast_hourly_at c' = now w2
             \<and> hourly c' = Some h)
       \<and> (\<not> truthy r2 \<longrightarrow> forecast_hourly c' = forecast_hourly c
             \<and> forecast_hourly_at c' = forecast_hourly_at c \<and> hourly c' = hourly c)
       \<and> (truthy r3 \<longrightarrow> forecast_grid_data c' = r3 \<and> forecast_grid_data_at c' = now w3)
       \<and> (\<not> truthy r3 \<longrightarrow> forecast_grid_data c' = forecast_grid_data c
             \<and> forecast_grid_data_at c' = forecast_grid_data_at c)"
proof -
  define cd where "cd = (if truthy r1
      then c\<lparr>forecast := r1, forecast_at := now w1,
             daily := Some (DailyForecast_init lib strtod r1 (now w1))\<rparr>
      else c)"
  define ch where "ch = (if truthy r2
      then cd\<lparr>forecast_hourly := r2, forecast_hourly_at := now w2, hourly := Some h\<rparr>
      else cd)"
  define cg where "cg = (if truthy r3
      then ch\<lparr>forecast_grid_data := r3, forecast_grid_data_at := now w3\<rparr>
      else ch)"
  have md: "metadata cd = metadata c" "metadata ch = metadata c"
    by (simp_all add: cd_def ch_def)
  have d: "fetch_daily net lib strtod c w = (Inr (truthy r1), cd, w1)"
    using assms(2,5) by (simp add: fetch_daily_def cd_def)
  have h: "fetch_hourly net hf cd w1 = (Inr (truthy r2), ch, w2)"
    using assms(3,6,8) by (simp add: fetch_hourly_def ch_def md)
  have g: "fetch_grid net ch w2 = (Inr (truthy r3), cg, w3)"
    using assms(4,7) by (simp add: fetch_grid_def cg_def md)
  have "async_get_forecasts net hf lib strtod c w
      = (Inr (truthy r1 \<and> truthy r2 \<and> truthy r3), cg, w3)"
    using assms(1) by (simp add: async_get_forecasts_def d h g)
  moreover have "same_policy c cg \<and> lat cg = lat c \<and> lon cg = lon c \<and> metadata_at cg = metadata_at c"
    by (simp add: same_policy_def cg_def ch_def cd_def)
  moreover have "truthy r1 \<longrightarrow> forecast cg = r1 \<and> forecast_at cg = now w1
      \<and> daily cg = Some (DailyForecast_init lib strtod r1 (now w1))"
    by (simp add: cg_def ch_def cd_def)
  moreover have "\<not> truthy r1 \<longrightarrow> forecast cg = forecast c \<and> forecast_at cg = forecast_at c
      \<and> daily cg = daily c"
    by (simp add: cg_def ch_def cd_def)
  moreover have "truthy r2 \<longrightarrow> forecast_hourly cg = r2 \<and> forecast_hourly_at cg = now w2
      \<and> hourly cg = Some h"
    by (simp add: cg_def ch_def cd_def)
  moreover have "\<not> truthy r2 \<longrightarrow> forecast_hourly cg = forecast_hourly c
      \<and> forecast_hourly_at cg = forecast_hourly_at c \<and> hourly cg = hourly c"
    by (simp add: cg_def ch_def cd_def)
  moreover have "truthy r3 \<longrightarrow> forecast_grid_data cg = r3 \<and> forecast_grid_data_at cg = now w3"
    by (simp add: cg_def ch_def cd_def)
  moreover have "\<not> truthy r3 \<longrightarrow> forecast_grid_data cg = forecast_grid_data c
      \<and> forecast_grid_data_at cg = forecast_grid_data_at c"
    by (simp add: cg_def ch_def cd_def)
  ultimately show ?thesis by blast
qed

lemma location_explicit:
  assumes "fmt (url c) (lat c) (lon c) = Inr u0"
    and "async_get_url net (JStr u0) w = (md, w0)"
    and "truthy md"
    and "meta_link md ''forecast'' = Inr u1"
    and "meta_link md ''forecastHourly'' = Inr u2"
    and "meta_link md ''forecastGridData'' = Inr u3"
    and "async_get_url net u1 w0 = (r1, w1)"
    and "async_get_url net u2 w1 = (r2, w2)"
    and "async_get_url net u3 w2 = (r3, w3)"
    and "truthy r2 \<longrightarrow> hf r2 (now w2) = Inr h"
  shows "\<exists>c'. async_get_for_location net fmt hf lib strtod None None c w
            = (truthy r1 \<and> truthy r2 \<and> truthy r3, c', w3)
       \<and> all_data_ok c' = (truthy r1 \<and> truthy r2 \<and> truthy r3)
       \<and> metadata c' = md \<and> metadata_at c' = now w0
       \<and> (truthy r1 \<longrightarrow> forecast c' = r1 \<and> forecast_at c' = now w1
             \<and> daily c' = Some (DailyForecast_init lib strtod r1 (now w1)))
       \<and> (\<not> truthy r1 \<longrightarrow> forecast c' = forecast c \<and> forecast_at c' = forecast_at c
             \<and> daily c' = daily c)
       \<and> (truthy r2 \<longrightarrow> forecast_hourly c' = r2 \<and> forecast_hourly_at c' = now w2
             \<and> hourly c' = Some h)
       \<and> (\<not> truthy r2 \<longrightarrow> forecast_hourly c' = forecast_hourly c
             \<and> forecast_hourly_at c' = forecast_hourly_at c \<and> hourly c' = hourly c)
       \<and> (truthy r3 \<longrightarrow> forecast_grid_data c' = r3 \<and> forecast_grid_data_at c' = now w3)
       \<and> (\<not> truthy r3 \<longrightarrow> forecast_grid_data c' = forecast_grid_data c
             \<and> forecast_grid_data_at c' = forecast_grid_data_at c)"
proof -
  let ?c = "c\<lparr>metadata := md, metadata_at := now w0, lat := lat c, lon := lon c\<rparr>"
  let ?ok = "truthy r1 \<and> truthy r2 \<and> truthy r3"
  have m: "truthy (metadata ?c)" "meta_link (metadata ?c) ''forecast'' = Inr u1"
    "meta_link (metadata ?c) ''forecastHourly'' = Inr u2"
    "meta_link (metadata ?c) ''forecastGridData'' = Inr u3"
    using assms(3-6) by simp_all
  from forecasts_explicit [where c = "c\<lparr>metadata := md, metadata_at := now w0, lat := lat c, lon := lon c\<rparr>"
      and hf = hf and net = net and lib = lib and strtod = strtod, OF m assms(7-10)]
  obtain c2 where f: "async_get_forecasts net hf lib strtod ?c w0 = (Inr ?ok, c2, w3)"
    and p: "same_policy ?c c2" "metadata_at c2 = metadata_at ?c"
    and d1: "truthy r1 \<longrightarrow> forecast c2 = r1 \<and> forecast_at c2 = now w1
             \<and> daily c2 = Some (DailyForecast_init lib strtod r1 (now w1))"
    and d0: "\<not> truthy r1 \<longrightarrow> forecast c2 = forecast ?c \<and> forecast_at c2 = forecast_at ?c
             \<and> daily c2 = daily ?c"
    and h1: "truthy r2 \<longrightarrow> forecast_hourly c2 = r2 \<and> forecast_hourly_at c2 = now w2
             \<and> hourly c2 = Some h"
    and h0: "\<not> truthy r2 \<longrightarrow> forecast_hourly c2 = forecast_hourly ?c
             \<and> forecast_hourly_at c2 = forecast_hourly_at ?c \<and> hourly c2 = hourly ?c"
    and g1: "truthy r3 \<longrightarrow> forecast_grid_data c2 = r3 \<and> forecast_grid_data_at c2 = now w3"
    and g0: "\<not> truthy r3 \<longrightarrow> forecast_grid_data c2 = forecast_grid_data ?c
             \<and> forecast_grid_data_at c2 = forecast_grid_data_at ?c"
    by blast
  define c' where "c' = (if ?ok then c2\<lparr>all_data_ok := True, all_data_ok_at := now w3\<rparr>
      else c2\<lparr>all_data_ok := False\<rparr>)"
  have r: "async_get_for_location net fmt hf lib strtod None None c w = (?ok, c', w3)"
    using loc_lookup_ok [where fmt = fmt and c = c, OF assms(1,2,3) f]
    by (simp add: c'_def)
  have "all_data_ok c' = ?ok" by (simp add: c'_def)
  moreover have "metadata c' = md \<and> metadata_at c' = now w0"
    using p by (simp add: c'_def same_policy_def)
  moreover have "truthy r1 \<longrightarrow> forecast c' = r1 \<and> forecast_at c' = now w1
             \<and> daily c' = Some (DailyForecast_init lib strtod r1 (now w1))"
    using d1 by (simp add: c'_def)
  moreover have "\<not> truthy r1 \<longrightarrow> forecast c' = forecast c \<and> forecast_at c' = forecast_at c
             \<and> daily c' = daily c"
    using d0 by (simp add: c'_def)
  moreover have "truthy r2 \<longrightarrow> forecast_hourly c' = r2 \<and> forecast_hourly_at c' = now w2
             \<and> hourly c' = Some h"
    using h1 by (simp add: c'_def)
  moreover have "\<not> truthy r2 \<longrightarrow> forecast_hourly c' = forecast_hourly c
             \<and> forecast_hourly_at c' = forecast_hourly_at c \<and> hourly c' = hourly c"
    using h0 by (simp add: c'_def)
  moreover have "truthy r3 \<longrightarrow> forecast_grid_data c' = r3 \<and> forecast_grid_data_at c' = now w3"
    using g1 by (simp add: c'_def)
  moreover have "\<not> truthy r3 \<longrightarrow> forecast_grid_data c' = forecast_grid_data c
             \<and> forecast_grid_data_at c' = forecast_grid_data_at c"
    using g0 by (simp add: c'_def)
  ultimately show ?thesis using r by blast
qed

lemma lookup_failure:
  assumes "fmt (url c) (lat c) (lon c) = Inr u0"
    and "async_get_url net (JStr u0) w = (md, w0)" "\<not> truthy md"
  shows "async_get_for_location net fmt hf lib strtod None None c w = (False, c, w0)"
    and "\<not> (all_data_ok c \<and> now w - all_data_ok_at c < refresh_interval c) \<Longrightarrow>
         async_refresh net fmt hf lib strtod c w = (False, c, w0)"
    and "\<not> (all_data_ok c \<and> now w - all_data_ok_at c < refresh_interval c) \<Longrightarrow>
         async_get_daily_forecasts net fmt hf lib strtod c w
           = ((case daily c of None \<Rightarrow> [] | Some d \<Rightarrow> df_data d), c, w0)"
proof -
  show a: "async_get_for_location net fmt hf lib strtod None None c w = (False, c, w0)"
    using assms by (rule loc_lookup_fail)
  assume "\<not> (all_data_ok c \<and> now w - all_data_ok_at c < refresh_interval c)"
  then show b: "async_refresh net fmt hf lib strtod c w = (False, c, w0)"
    using a by (simp add: async_refresh_def)
  show "async_get_daily_forecasts net fmt hf lib strtod c w
           = ((case daily c of None \<Rightarrow> [] | Some d \<Rightarrow> df_data d), c, w0)"
    by (simp add: async_get_daily_forecasts_def b)
qed

lemma loc_bad_metadata:
  assumes "fmt (url c) (lat c) (lon c) = Inr u0"
    and "async_get_url net (JStr u0) w = (md, w0)"
    and "truthy md"
    and "meta_link md ''forecast'' = Inl e"
  shows "async_get_for_location net fmt hf lib strtod None None c w
         = (False, c\<lparr>metadata := md, metadata_at := now w0\<rparr>, w0)"
proof -
  let ?c = "c\<lparr>metadata := md, metadata_at := now w0, lat := lat c, lon := lon c\<rparr>"
  have "fetch_daily net lib strtod ?c w0 = (Inl e, ?c, w0)"
    using assms(4) by (simp add: fetch_daily_def)
  then have f: "async_get_forecasts net hf lib strtod ?c w0 = (Inl e, ?c, w0)"
    using assms(3) by (simp add: async_get_forecasts_def)
  have "?c = c\<lparr>metadata := md, metadata_at := now w0\<rparr>" by simp
  then show ?thesis
    using loc_lookup_ok [where fmt = fmt and c = c, OF assms(1,2,3) f] by simp
qed

text \<open>
  C4 (as the code has it). A payload counts as retrieved when \<open>_async_get_url\<close>
  returns a truthy body. When the metadata lookup returns a truthy body from which the
  three links can be read (a dict whose \<open>properties\<close> are absent or a dict), and the
  constructor of hourly forecasts does not raise, each payload that is retrieved is
  stored with the time of its retrieval, each one that is not leaves its fields as they
  were, and \<open>all_data_ok\<close> is true exactly when all three were retrieved. When the
  metadata lookup fails (a falsy body), the call returns \<open>False\<close> and the client is
  unchanged: a refresh that needed it reports failure, and the cached daily records are
  still returned. When the metadata lookup returns a truthy body from which the links
  cannot be read, the call returns \<open>False\<close> after storing that body as the metadata,
  nothing else is requested and \<open>all_data_ok\<close> keeps its value.
\<close>

theorem fetch_all_keeps_partial_data:
  assumes "fmt (url c) (lat c) (lon c) = Inr u0"
    and "async_get_url net (JStr u0) w = (md, w0)"
  shows
    "(truthy md
        \<and> meta_link md ''forecast'' = Inr u1
        \<and> meta_link md ''forecastHourly'' = Inr u2
        \<and> meta_link md ''forecastGridData'' = Inr u3
        \<and> async_get_url net u1 w0 = (r1, w1)
        \<and> async_get_url net u2 w1 = (r2, w2)
        \<and> async_get_url net u3 w2 = (r3, w3)
        \<and> (truthy r2 \<longrightarrow> hf r2 (now w2) = Inr h) \<longrightarrow>
      (\<exists>c'. async_get_for_location net fmt hf lib strtod None None c w
            = (truthy r1 \<and> truthy r2 \<and> truthy r3, c', w3)
       \<and> all_data_ok c' = (truthy r1 \<and> truthy r2 \<and> truthy r3)
       \<and> metadata c' = md \<and> metadata_at c' = now w0
       \<and> (truthy r1 \<longrightarrow> forecast c' = r1 \<and> forecast_at c' = now w1
             \<and> daily c' = Some (DailyForecast_init lib strtod r1 (now w1)))
       \<and> (\<not> truthy r1 \<longrightarrow> forecast c' = forecast c \<and> forecast_at c' = forecast_at c
             \<and> daily c' = daily c)
       \<and> (truthy r2 \<longrightarrow> forecast_hourly c' = r2 \<and> forecast_hourly_at c' = now w2
             \<and> hourly c' = Some h)
       \<and> (\<not> truthy r2 \<longrightarrow> forecast_hourly c' = forecast_hourly c
             \<and> forecast_hourly_at c' = forecast_hourly_at c \<and> hourly c' = hourly c)
       \<and> (truthy r3 \<longrightarrow> forecast_grid_data c' = r3 \<and> forecast_grid_data_at c' = now w3)
       \<and> (\<not> truthy r3 \<longrightarrow> forecast_grid_data c' = forecast_grid_data c
             \<and> forecast_grid_data_at c' = forecast_grid_data_at c)))
   \<and> (\<not> truthy md \<longrightarrow>
        async_get_for_location net fmt hf lib strtod None None c w = (False, c, w0)
        \<and> (\<not> (all_data_ok c \<and> now w - all_data_ok_at c < refresh_interval c) \<longrightarrow>
             async_refresh net fmt hf lib strtod c w = (False, c, w0)
             \<and> async_get_daily_forecasts net fmt hf lib strtod c w
                 = ((case daily c of None \<Rightarrow> [] | Some d \<Rightarrow> df_data d), c, w0)))
   \<and> (truthy md \<and> meta_link md ''forecast'' = Inl e \<longrightarrow>
        async_get_for_location net fmt hf lib strtod None None c w
          = (False, c\<lparr>metadata := md, metadata_at := now w0\<rparr>, w0))"
proof (intro conjI impI)
  assume a: "truthy md
        \<and> meta_link md ''forecast'' = Inr u1
        \<and> meta_link md ''forecastHourly'' = Inr u2
        \<and> meta_link md ''forecastGridData'' = Inr u3
        \<and> async_get_url net u1 w0 = (r1, w1)
        \<and> async_get_url net u2 w1 = (r2, w2)
        \<and> async_get_url net u3 w2 = (r3, w3)
        \<and> (truthy r2 \<longrightarrow> hf r2 (now w2) = Inr h)"
  then have b: "truthy md" "meta_link md ''forecast'' = Inr u1"
    "meta_link md ''forecastHourly'' = Inr u2" "meta_link md ''forecastGridData'' = Inr u3"
    "async_get_url net u1 w0 = (r1, w1)" "async_get_url net u2 w1 = (r2, w2)"
    "async_get_url net u3 w2 = (r3, w3)" "truthy r2 \<longrightarrow> hf r2 (now w2) = Inr h"
    by blast+
  show "\<exists>c'. async_get_for_location net fmt hf lib strtod None None c w
            = (truthy r1 \<and> truthy r2 \<and> truthy r3, c', w3)
       \<and> all_data_ok c' = (truthy r1 \<and> truthy r2 \<and> truthy r3)
       \<and> metadata c' = md \<and> metadata_at c' = now w0
       \<and> (truthy r1 \<longrightarrow> forecast c' = r1 \<and> forecast_at c' = now w1
             \<and> daily c' = Some (DailyForecast_init lib strtod r1 (now w1)))
       \<and> (\<not> truthy r1 \<longrightarrow> forecast c' = forecast c \<and> forecast_at c' = forecast_at c
             \<and> daily c' = daily c)
       \<and> (truthy r2 \<longrightarrow> forecast_hourly c' = r2 \<and> forecast_hourly_at c' = now w2
             \<and> hourly c' = Some h)
       \<and> (\<not> truthy r2 \<longrightarrow> forecast_hourly c' = forecast_hourly c
             \<and> forecast_hourly_at c' = forecast_hourly_at c \<and> hourly c' = hourly c)
       \<and> (truthy r3 \<longrightarrow> forecast_grid_data c' = r3 \<and> forecast_grid_data_at c' = now w3)
       \<and> (\<not> truthy r3 \<longrightarrow> forecast_grid_data c' = forecast_grid_data c
             \<and> forecast_grid_data_at c' = forecast_grid_data_at c)"
    by (rule location_explicit [where fmt = fmt and c = c and hf = hf and net = net, OF assms b])
next
  assume "\<not> truthy md"
  then show "async_get_for_location net fmt hf lib strtod None None c w = (False, c, w0)"
    using lookup_failure(1) [where fmt = fmt and c = c, OF assms] by blast
next
  assume "\<not> truthy md" "\<not> (all_data_ok c \<and> now w - all_data_ok_at c < refresh_interval c)"
  then show "async_refresh net fmt hf lib strtod c w = (False, c, w0)"
    using lookup_failure(2) [where fmt = fmt and c = c, OF assms] by blast
next
  assume "\<not> truthy md" "\<not> (all_data_ok c \<and> now w - all_data_ok_at c < refresh_interval c)"
  then show "async_get_daily_forecasts net fmt hf lib strtod c w
                 = ((case daily c of None \<Rightarrow> [] | Some d \<Rightarrow> df_data d), c, w0)"
    using lookup_failure(3) [where fmt = fmt and c = c, OF assms] by blast
next
  assume "truthy md \<and> meta_link md ''forecast'' = Inl e"
  then show "async_get_for_location net fmt hf lib strtod None None c w
          = (False, c\<lparr>metadata := md, metadata_at := now w0\<rparr>, w0)"
    using loc_bad_metadata [where fmt = fmt and c = c, OF assms] by blast
qed

lemma bad_metadata_link: "meta_link (JList [JInt 1]) key = Inl AttributeError"
  by (simp add: meta_link_def)

lemma partial_get:
  "s \<noteq> [] \<Longrightarrow> async_get_url partial_net (JStr s) w
     = (fst (partial_net s (now w)), w\<lparr>now := now w + 1, requests := requests w @ [s]\<rparr>)"
  by (simp add: async_get_url_def partial_net_def)

text \<open>
  The theorem at a network whose hourly endpoint fails (the daily and grid payloads
  are stored, \<open>all_data_ok\<close> is false), at a network that is down and at a network
  that answers with a JSON list.
\<close>

theorem fetch_all_keeps_partial_data_witness:
  "(\<exists>c'. async_get_for_location partial_net sample_fmt sample_hourly sample_lib sample_strtod
        None None sample_client \<lparr>now = 1000, requests = []\<rparr>
      = (False, c',
         \<lparr>now = 1004,
          requests = [''https://api.weather.gov/points/37.3611,-121.9278'',
            ''https://api.weather.gov/gridpoints/MTR/93,86/forecast'',
            ''https://api.weather.gov/gridpoints/MTR/93,86/forecast/hourly'',
            ''https://api.weather.gov/gridpoints/MTR/93,86'']\<rparr>)
     \<and> all_data_ok c' = False
     \<and> forecast c' = sample_metadata \<and> forecast_at c' = 1002
     \<and> forecast_hourly c' = JNull \<and> forecast_hourly_at c' = 0 \<and> hourly c' = None
     \<and> forecast_grid_data c' = sample_metadata \<and> forecast_grid_data_at c' = 1004)
   \<and> async_get_for_location net_down sample_fmt sample_hourly sample_lib sample_strtod
        None None sample_client \<lparr>now = 1000, requests = []\<rparr>
      = (False, sample_client,
         \<lparr>now = 1001, requests = [''https://api.weather.gov/points/37.3611,-121.9278'']\<rparr>)
   \<and> async_get_daily_forecasts net_down sample_fmt sample_hourly sample_lib sample_strtod
        sample_client \<lparr>now = 1000, requests = []\<rparr>
      = ([], sample_client,
         \<lparr>now = 1001, requests = [''https://api.weather.gov/points/37.3611,-121.9278'']\<rparr>)
   \<and> async_get_for_location bad_metadata_net sample_fmt sample_hourly sample_lib sample_strtod
        None None sample_client \<lparr>now = 1000, requests = []\<rparr>
      = (False, sample_client\<lparr>metadata := JList [JInt 1], metadata_at := 1001\<rparr>,
         \<lparr>now = 1001, requests = [''https://api.weather.gov/points/37.3611,-121.9278'']\<rparr>)"
proof -
  let ?Ua = "''https://api.weather.gov/points/37.3611,-121.9278''"
  let ?Ub = "''https://api.weather.gov/gridpoints/MTR/93,86/forecast''"
  let ?Uc = "''https://api.weather.gov/gridpoints/MTR/93,86/forecast/hourly''"
  let ?Ud = "''https://api.weather.gov/gridpoints/MTR/93,86''"
  let ?wz = "\<lparr>now = 1000, requests = []\<rparr>"
  let ?wa = "\<lparr>now = 1001, requests = [?Ua]\<rparr>"
  let ?wb = "\<lparr>now = 1002, requests = [?Ua, ?Ub]\<rparr>"
  let ?wc = "\<lparr>now = 1003, requests = [?Ua, ?Ub, ?Uc]\<rparr>"
  let ?wd = "\<lparr>now = 1004, requests = [?Ua, ?Ub, ?Uc, ?Ud]\<rparr>"
  have fm: "sample_fmt (url sample_client) (lat sample_client) (lon sample_client) = Inr ?Ua"
    by (simp add: sample_fmt_def)
  have g0: "async_get_url partial_net (JStr ?Ua) ?wz = (sample_metadata, ?wa)"
    by (simp add: async_get_url_def partial_net_def)
  have g1: "async_get_url partial_net (JStr ?Ub) ?wa = (sample_metadata, ?wb)"
    by (simp add: async_get_url_def partial_net_def)
  have g2: "async_get_url partial_net (JStr ?Uc) ?wb = (JNull, ?wc)"
    by (simp add: async_get_url_def partial_net_def)
  have g3: "async_get_url partial_net (JStr ?Ud) ?wc = (sample_metadata, ?wd)"
    by (simp add: async_get_url_def partial_net_def)
  have hyp: "truthy sample_metadata
        \<and> meta_link sample_metadata ''forecast'' = Inr (JStr ?Ub)
        \<and> meta_link sample_metadata ''forecastHourly'' = Inr (JStr ?Uc)
        \<and> meta_link sample_metadata ''forecastGridData'' = Inr (JStr ?Ud)
        \<and> async_get_url partial_net (JStr ?Ub) ?wa = (sample_metadata, ?wb)
        \<and> async_get_url partial_net (JStr ?Uc) ?wb = (JNull, ?wc)
        \<and> async_get_url partial_net (JStr ?Ud) ?wc = (sample_metadata, ?wd)
        \<and> (truthy JNull \<longrightarrow> sample_hourly JNull (now ?wc) = Inr JNull)"
    using sample_links g1 g2 g3 by simp
  have init: "forecast_hourly sample_client = JNull" "forecast_hourly_at sample_client = 0"
    "hourly sample_client = None" "daily sample_client = None" "\<not> all_data_ok sample_client"
    by (simp_all add: sample_client_def init_client_def)
  note t = fetch_all_keeps_partial_data [where fmt = sample_fmt and c = sample_client
      and net = partial_net and hf = sample_hourly and lib = sample_lib and strtod = sample_strtod,
      OF fm g0, THEN conjunct1, rule_format, OF hyp]
  have a: "\<exists>c'. async_get_for_location partial_net sample_fmt sample_hourly sample_lib sample_strtod
        None None sample_client ?wz = (False, c', ?wd)
     \<and> all_data_ok c' = False
     \<and> forecast c' = sample_metadata \<and> forecast_at c' = 1002
     \<and> forecast_hourly c' = JNull \<and> forecast_hourly_at c' = 0 \<and> hourly c' = None
     \<and> forecast_grid_data c' = sample_metadata \<and> forecast_grid_data_at c' = 1004"
  proof -
    from t sample_links(4) init obtain c' where
      "async_get_for_location partial_net sample_fmt sample_hourly sample_lib sample_strtod
        None None sample_client ?wz = (False, c', ?wd)"
      "all_data_ok c' = False" "forecast c' = sample_metadata" "forecast_at c' = 1002"
      "forecast_hourly c' = JNull" "forecast_hourly_at c' = 0" "hourly c' = None"
      "forecast_grid_data c' = sample_metadata" "forecast_grid_data_at c' = 1004"
      by auto
    then show ?thesis by blast
  qed
  have d0: "async_get_url net_down (JStr ?Ua) ?wz = (JNull, ?wa)"
    by (simp add: async_get_url_def net_down_def)
  note u = fetch_all_keeps_partial_data [where fmt = sample_fmt and c = sample_client
      and net = net_down and hf = sample_hourly and lib = sample_lib and strtod = sample_strtod,
      OF fm d0, THEN conjunct2, THEN conjunct1, rule_format]
  have b: "async_get_for_location net_down sample_fmt sample_hourly sample_lib sample_strtod
        None None sample_client ?wz = (False, sample_client, ?wa)"
    using u by simp
  have c: "async_get_daily_forecasts net_down sample_fmt sample_hourly sample_lib sample_strtod
        sample_client ?wz = ([], sample_client, ?wa)"
    using u init by simp
  have e0: "async_get_url bad_metadata_net (JStr ?Ua) ?wz = (JList [JInt 1], ?wa)"
    by (simp add: async_get_url_def bad_metadata_net_def)
  note v = fetch_all_keeps_partial_data [where fmt = sample_fmt and c = sample_client
      and net = bad_metadata_net and hf = sample_hourly and lib = sample_lib
      and strtod = sample_strtod and e = AttributeError,
      OF fm e0, THEN conjunct2, THEN conjunct2, rule_format]
  have d: "async_get_for_location bad_metadata_net sample_fmt sample_hourly sample_lib sample_strtod
        None None sample_client ?wz
      = (False, sample_client\<lparr>metadata := JList [JInt 1], metadata_at := 1001\<rparr>, ?wa)"
    using v bad_metadata_link by simp
  show ?thesis using a b c d by blast
qed

text \<open>
  C4 as stated fails when the metadata lookup returns a body that is no dict. The client
  has refreshed successfully at time 1000; at time 100000, past the refresh interval,
  the metadata URL answers with a JSON list. The refresh reports failure and requests
  no payload, but the cached metadata is replaced by the list and \<open>all_data_ok\<close> is
  still true.
\<close>

theorem fetch_all_bad_metadata_counterexample:
  "fst (async_refresh sample_net sample_fmt sample_hourly sample_lib sample_strtod
      sample_client \<lparr>now = 1000, requests = []\<rparr>)
   \<and> async_refresh bad_metadata_net sample_fmt sample_hourly sample_lib sample_strtod
       (fst (snd (async_refresh sample_net sample_fmt sample_hourly sample_lib sample_strtod
          sample_client \<lparr>now = 1000, requests = []\<rparr>)))
       \<lparr>now = 100000, requests = []\<rparr>
     = (False,
        (fst (snd (async_refresh sample_net sample_fmt sample_hourly sample_lib sample_strtod
          sample_client \<lparr>now = 1000, requests = []\<rparr>)))
          \<lparr>metadata := JList [JInt 1], metadata_at := 100001\<rparr>,
        \<lparr>now = 100001, requests = [''https://api.weather.gov/points/37.3611,-121.9278'']\<rparr>)
   \<and> all_data_ok
       ((fst (snd (async_refresh sample_net sample_fmt sample_hourly sample_lib sample_strtod
          sample_client \<lparr>now = 1000, requests = []\<rparr>)))
          \<lparr>metadata := JList [JInt 1], metadata_at := 100001\<rparr>)"
proof -
  let ?Ua = "''https://api.weather.gov/points/37.3611,-121.9278''"
  let ?x = "async_refresh sample_net sample_fmt sample_hourly sample_lib sample_strtod
        sample_client \<lparr>now = 1000, requests = []\<rparr>"
  let ?ca = "fst (snd ?x)"
  let ?wz = "\<lparr>now = 100000, requests = []\<rparr>"
  let ?wa = "\<lparr>now = 100001, requests = [?Ua]\<rparr>"
  have n: "\<forall>x t. 0 \<le> snd (sample_net x t)" by (simp add: sample_net_def)
  have x: "?x = (True, ?ca, snd (snd ?x))"
    using sample_refresh by (cases ?x) simp
  have "\<not> all_data_ok sample_client" by (simp add: sample_client_def init_client_def)
  with x have "async_get_for_location sample_net sample_fmt sample_hourly sample_lib sample_strtod
      None None sample_client \<lparr>now = 1000, requests = []\<rparr> = (True, ?ca, snd (snd ?x))"
    by (simp add: async_refresh_def)
  from loc_true [OF this n] sample_refresh
  have ok: "all_data_ok ?ca" "all_data_ok_at ?ca = 1004"
    "refresh_interval ?ca = refresh_interval sample_client"
    by simp_all
  have "refresh_interval ?ca = 43200"
    using ok(3) by (simp add: sample_client_def init_client_def DEFAULT_REFRESH_INTERVAL_def)
  with ok(2) have stale: "\<not> (all_data_ok ?ca \<and> now ?wz - all_data_ok_at ?ca < refresh_interval ?ca)"
    by simp
  have fm: "sample_fmt (url ?ca) (lat ?ca) (lon ?ca) = Inr ?Ua"
    by (simp add: sample_fmt_def)
  have g: "async_get_url bad_metadata_net (JStr ?Ua) ?wz = (JList [JInt 1], ?wa)"
    by (simp add: async_get_url_def bad_metadata_net_def)
  have t: "truthy (JList [JInt 1])" by simp
  have "async_get_for_location bad_metadata_net sample_fmt sample_hourly sample_lib sample_strtod
      None None ?ca ?wz = (False, ?ca\<lparr>metadata := JList [JInt 1], metadata_at := now ?wa\<rparr>, ?wa)"
    using fm g t bad_metadata_link by (rule loc_bad_metadata)
  with stale have "async_refresh bad_metadata_net sample_fmt sample_hourly sample_lib sample_strtod
      ?ca ?wz = (False, ?ca\<lparr>metadata := JList [JInt 1], metadata_at := 100001\<rparr>, ?wa)"
    by (simp add: async_refresh_def)
  moreover have "fst ?x" using sample_refresh by simp
  ultimately show ?thesis using ok(1) by simp
qed

end
